theory Spec2Isabelle
  imports Main "HOL-Library.Word" "HOL-Library.Signed_Division"
begin

unbundle bit_operations_syntax

section \<open>Machine types\<close>

text \<open>
  The two files are built for x86-64 and little-endian AArch64 only (every other target is an
  \<^verbatim>\<open>#error\<close>), so \<^verbatim>\<open>size_t\<close>, \<^verbatim>\<open>uintptr_t\<close>, \<^verbatim>\<open>int64_t\<close> and \<^verbatim>\<open>uword\<close> are 64-bit
  words, \<^verbatim>\<open>int\<close>, \<^verbatim>\<open>unsigned int\<close>, \<^verbatim>\<open>int32_t\<close> and \<^verbatim>\<open>uint32_t\<close> are 32-bit words and a
  \<^verbatim>\<open>char\<close> is an 8-bit word. A word is read as unsigned with \<open>unat\<close>/\<open>uint\<close> and as two's
  complement with \<open>sint\<close>. Signed arithmetic that overflows (undefined in ISO C) is modelled as
  the wrap-around the two targets compute.
\<close>

type_synonym u8 = "8 word"
type_synonym u32 = "32 word"
type_synonym u64 = "64 word"

section \<open>\<^verbatim>\<open>round_up\<close> (both files carry the same copy)\<close>

text \<open>
  \<^verbatim>\<open>static size_t round_up(int64_t value, int64_t multiple)\<close>. The arguments are read as
  signed (\<open>sint\<close>); C's \<^verbatim>\<open>%\<close> truncates towards zero, which is \<open>smod\<close> on \<open>int\<close>. The result is
  the \<^verbatim>\<open>size_t\<close> the function returns, so a caller reads it with \<open>unat\<close>/\<open>uint\<close>.
\<close>

definition round_up :: "u64 \<Rightarrow> u64 \<Rightarrow> u64" where
  "round_up val multiple =
     (if multiple = 0 then val
      else let remainder = (word_of_int (sint val smod sint multiple) :: u64) in
        if remainder = 0 then val
        else let difference = multiple - remainder;
                 rounded_up_value = val + difference
             in rounded_up_value)"

section \<open>LEB128 encoders of the DWARF emitter\<close>

text \<open>
  \<^verbatim>\<open>elfctx_append_uleb128\<close>: \<^verbatim>\<open>for (; v >= 0x80; v >>= 7) *p++ = (v & 0x7f) | 0x80; *p++ = v;\<close>
  on a \<^verbatim>\<open>uint32_t\<close>. The function below is the loop, returning the bytes it stores at \<^verbatim>\<open>p\<close>.
\<close>

function uleb128_bytes :: "u32 \<Rightarrow> u8 list" where
  "uleb128_bytes v =
     (if v \<ge> 0x80 then ucast ((v AND 0x7f) OR 0x80) # uleb128_bytes (drop_bit 7 v)
      else [ucast v])"
  by pat_completeness auto
termination
  apply (relation "measure unat")
   apply simp
  apply (simp add: unat_drop_bit_eq word_le_nat_alt)
  apply (simp add: drop_bit_eq_div unat_div)
  done

declare uleb128_bytes.simps [simp del]

text \<open>
  \<^verbatim>\<open>elfctx_append_sleb128\<close>:
  \<^verbatim>\<open>for (; (uint32_t)(v + 0x40) >= 0x80; v >>= 7) *p++ = (v & 0x7f) | 0x80; *p++ = v & 0x7f;\<close>
  on an \<^verbatim>\<open>int32_t\<close>; \<^verbatim>\<open>>>\<close> on a signed value is the arithmetic shift.
\<close>

function sleb128_bytes :: "u32 \<Rightarrow> u8 list" where
  "sleb128_bytes v =
     (if v + 0x40 \<ge> 0x80 then ucast ((v AND 0x7f) OR 0x80) # sleb128_bytes (signed_drop_bit 7 v)
      else [ucast (v AND 0x7f)])"
  by pat_completeness auto

lemma mod_add_wrap:
  fixes x k m :: int
  assumes "0 \<le> x" "x < m" "0 \<le> k" "k < m"
  shows "(x + k) mod m = (if x + k < m then x + k else x + k - m)"
proof (cases "x + k < m")
  case True
  then show ?thesis using assms by (simp add: mod_pos_pos_trivial)
next
  case False
  have "(x + k) mod m = (x + k - m) mod m"
    by (simp only: minus_mod_self2)
  also have "\<dots> = x + k - m"
  proof (rule mod_pos_pos_trivial)
    show "0 \<le> x + k - m" using False by linarith
    show "x + k - m < m" using assms by linarith
  qed
  finally show ?thesis using False by simp
qed

lemma sint_u32_cases:
  "sint (v::u32) = (if uint v < 2147483648 then uint v else uint v - 4294967296)"
proof -
  have c: "0 \<le> uint v" "uint v < 4294967296"
    using uint_lt2p [of v] by simp_all
  have s: "sint v = (uint v + 2147483648) mod 4294967296 - 2147483648"
    by (simp add: sint_uint signed_take_bit_eq_take_bit_shift take_bit_eq_mod)
  show ?thesis
    unfolding s using mod_add_wrap [OF c, of 2147483648] by (simp split: if_splits)
qed

lemma sleb128_continue_iff:
  "((v::u32) + 0x40 \<ge> 0x80) = (sint v < - 64 \<or> 64 \<le> sint v)"
proof -
  have a: "uint (v + 0x40) = (uint v + 64) mod 4294967296"
    by (simp add: uint_word_ariths)
  have c: "0 \<le> uint v" "uint v < 4294967296"
    using uint_lt2p [of v] by simp_all
  have e: "\<not> uint v < - 64"
    using uint_ge_0 [of v] by linarith
  have d: "(uint v + 64) mod 4294967296 =
      (if uint v < 4294967232 then uint v + 64 else uint v - 4294967232)"
    using mod_add_wrap [OF c, of 64] by (simp split: if_splits)
  show ?thesis
    unfolding word_le_def a sint_u32_cases using c d
    by (simp add: e split: if_splits)
qed

termination sleb128_bytes
proof (relation "measure (\<lambda>v. nat \<bar>sint v\<bar>)")
  show "wf (measure (\<lambda>v::u32. nat \<bar>sint v\<bar>))" by simp
next
  fix v :: u32
  assume "128 \<le> v + 64"
  then have r: "sint v < - 64 \<or> 64 \<le> sint v"
    by (simp add: sleb128_continue_iff)
  have "sint (signed_drop_bit 7 v) = sint v div 128"
    by (simp add: sint_signed_drop_bit_eq drop_bit_eq_div)
  moreover have "\<bar>sint v div 128\<bar> < \<bar>sint v\<bar>"
    using r by linarith
  ultimately show "(signed_drop_bit 7 v, v) \<in> measure (\<lambda>v. nat \<bar>sint v\<bar>)"
    by simp
qed

declare sleb128_bytes.simps [simp del]

text \<open>
  The DWARF emitter's cursor: \<^verbatim>\<open>startp\<close> is the address of the scratch buffer, \<open>obj\<close> the bytes
  stored in \<^verbatim>\<open>[startp, p)\<close> (so \<^verbatim>\<open>p = startp + length obj\<close>), \<^verbatim>\<open>eh_frame_p\<close> the address the
  emitter records between CIE and FDE.
\<close>

record ELFObjectContext =
  startp :: nat
  obj :: "u8 list"
  eh_frame_p :: nat
  ctx_code_size :: u32

definition elfctx_append_sleb128 :: "ELFObjectContext \<Rightarrow> u32 \<Rightarrow> ELFObjectContext" where
  "elfctx_append_sleb128 ctx v = ctx\<lparr>obj := obj ctx @ sleb128_bytes v\<rparr>"

definition elfctx_append_uleb128 :: "ELFObjectContext \<Rightarrow> u32 \<Rightarrow> ELFObjectContext" where
  "elfctx_append_uleb128 ctx v = ctx\<lparr>obj := obj ctx @ uleb128_bytes v\<rparr>"

text \<open>
  Standard LEB128 decoding (DWARF, section 7.6): little-endian base-128 digits, the top bit
  of a byte says that another byte follows, and in the signed form bit 6 of the last byte is
  the sign. A decoder returns the value and the bytes it did not consume; \<open>None\<close> when the
  input ends inside a number.
\<close>

fun uleb128_decode :: "u8 list \<Rightarrow> (nat \<times> u8 list) option" where
  "uleb128_decode [] = None"
| "uleb128_decode (b # bs) =
     (if b < 0x80 then Some (unat b, bs)
      else case uleb128_decode bs of
             None \<Rightarrow> None
           | Some (r, rest) \<Rightarrow> Some (unat (b AND 0x7f) + 128 * r, rest))"

fun sleb128_decode :: "u8 list \<Rightarrow> (int \<times> u8 list) option" where
  "sleb128_decode [] = None"
| "sleb128_decode (b # bs) =
     (if b < 0x80 then Some (if b \<ge> 0x40 then uint b - 128 else uint b, bs)
      else case sleb128_decode bs of
             None \<Rightarrow> None
           | Some (r, rest) \<Rightarrow> Some (uint (b AND 0x7f) + 128 * r, rest))"

section \<open>The runtime state shared by both files\<close>

text \<open>
  A \<^verbatim>\<open>void *\<close> is \<open>NULL\<close>, \<^verbatim>\<open>MAP_FAILED\<close> (the value \<^verbatim>\<open>mmap\<close> returns on failure, distinct from
  \<open>NULL\<close>), the address of the static \<^verbatim>\<open>perf_jit_map_state\<close>, or any other address. Behaviour
  that C leaves undefined and that the code can reach is a \<open>fault\<close> value, so that it is a
  branch of the model and not an unspecified HOL term.
\<close>

datatype pointer = NULL | MAP_FAILED | Addr nat | Static_perf_jit_map_state

datatype fault =
    Null_dereference    \<comment> \<open>a field read through a null struct pointer\<close>
  | Null_call           \<comment> \<open>a call through a null function pointer\<close>
  | Division_by_zero
  | Stream_closed       \<comment> \<open>\<^verbatim>\<open>fwrite\<close>/\<^verbatim>\<open>fclose\<close> on a stream that was already closed\<close>

datatype arch = X86_64 | AARCH64

datatype perf_status_t = PERF_STATUS_FAILED | PERF_STATUS_NO_INIT | PERF_STATUS_OK

datatype perf_trampoline_type_t =
  PERF_TRAMPOLINE_UNSET | PERF_TRAMPOLINE_TYPE_MAP | PERF_TRAMPOLINE_TYPE_JITDUMP

text \<open>
  What the build fixes: the target the \<^verbatim>\<open>#ifdef\<close>s select, and the bytes of the assembled
  template between \<^verbatim>\<open>_Py_trampoline_func_start\<close> and \<^verbatim>\<open>_Py_trampoline_func_end\<close> (the assembly is
  not part of the two files, so it is a parameter).
\<close>

record build =
  target :: arch
  trampoline_template :: "u8 list"

text \<open>A \<^verbatim>\<open>py_trampoline\<close> is the address of a stub, \<open>None\<close> when null.\<close>

type_synonym py_trampoline = "nat option"

text \<open>\<^verbatim>\<open>struct code_arena_st\<close>; the \<^verbatim>\<open>prev\<close> chain is the tail of the list \<open>perf_code_arena\<close>.\<close>

record code_arena_st =
  start_addr :: nat
  current_addr :: nat
  arena_size :: u64       \<comment> \<open>field \<^verbatim>\<open>size\<close>\<close>
  size_left :: u64
  code_size :: u64

text \<open>
  The three callbacks of \<^verbatim>\<open>_PyPerf_Callbacks\<close> are function pointers; the repository defines two
  sets of them, \<^verbatim>\<open>_Py_perfmap_callbacks\<close> and \<^verbatim>\<open>_Py_perfmap_jit_callbacks\<close>. A pointer is \<open>None\<close>
  when null, else it names the set its target belongs to.
\<close>

datatype sink = Perfmap | Jitdump

record trampoline_api_st =
  init_state :: "sink option"
  write_state :: "sink option"
  free_state :: "sink option"
  state :: pointer
  code_padding :: u64

text \<open>
  A \<^verbatim>\<open>FILE *\<close>: null, an open stream, or the dangling pointer left by \<^verbatim>\<open>fclose\<close>. The stream
  itself is the bytes written so far and the number of bytes the device still accepts
  (\<^verbatim>\<open>fwrite\<close> returns a short count once it is used up).
\<close>

datatype FILE_ptr = FILE_NULL | FILE_open | FILE_closed

record FILE_st =
  contents :: "u8 list"
  room :: nat

record PerfMapJitState =
  perf_map :: FILE_ptr
  map_lock :: bool           \<comment> \<open>a lock is allocated\<close>
  mapped_buffer :: pointer
  mapped_size :: u64
  code_id :: u32             \<comment> \<open>\<^verbatim>\<open>int\<close>\<close>

datatype eval_frame_fn = Eval_NULL | Eval_py_trampoline_evaluator | Eval_foreign

record PyCodeObject =
  co_ident :: nat                     \<comment> \<open>the object's identity (its address)\<close>
  co_qualname :: "string option"      \<comment> \<open>\<open>None\<close> is the null field\<close>
  co_filename :: "string option"

text \<open>
  What the operating system and the host interpreter answer during one call into the
  subsystem. Each field is the result of the one call named; the code performs each of them at
  most once per entry point, except the monotonic clock, read twice per jitdump entry.
\<close>

record os_env =
  mmap_anon :: "nat option"     \<comment> \<open>\<^verbatim>\<open>mmap(NULL, mem_size, ..., MAP_ANONYMOUS, -1, 0)\<close>; \<open>None\<close> is \<^verbatim>\<open>MAP_FAILED\<close>\<close>
  mprotect_res :: int
  calloc_ok :: bool             \<comment> \<open>\<^verbatim>\<open>PyMem_RawCalloc\<close> returned non-null\<close>
  malloc_ok :: bool             \<comment> \<open>\<^verbatim>\<open>PyMem_RawMalloc\<close> returned non-null\<close>
  getpid :: u32
  getppid :: u32
  gettid :: u32
  open_fd :: int                \<comment> \<open>\<^verbatim>\<open>open(filename, O_CREAT | O_TRUNC | O_RDWR, 0666)\<close>\<close>
  sysconf_pagesize :: int
  mmap_file :: pointer          \<comment> \<open>the mapping of the dump file's first page\<close>
  fdopen_ok :: bool
  device_room :: nat            \<comment> \<open>bytes the freshly opened stream will accept\<close>
  allocate_lock_ok :: bool
  stack_garbage :: u32          \<comment> \<open>the content of a struct field the code never assigns\<close>
  stack_buffer :: nat           \<comment> \<open>the address of the local \<^verbatim>\<open>char buffer[1024]\<close>\<close>
  time_microseconds :: u64
  monotonic_ticks_unwind :: u64
  monotonic_ticks_load :: u64
  request_extra_index :: int    \<comment> \<open>\<^verbatim>\<open>_PyEval_RequestCodeExtraIndex(NULL)\<close>\<close>
  set_extra_res :: int          \<comment> \<open>\<^verbatim>\<open>_PyCode_SetExtra\<close>: 0, or -1 and nothing stored\<close>
  copy_perf_map_res :: int      \<comment> \<open>\<^verbatim>\<open>PyUnstable_CopyPerfMapFile\<close>\<close>

text \<open>
  The fields of \<^verbatim>\<open>_PyRuntime.ceval.perf\<close> the two files use through their macros, the static
  \<^verbatim>\<open>perf_jit_map_state\<close>, and what they act on: the interpreter's \<^verbatim>\<open>eval_frame\<close> hook, the
  extra slots of the code objects (by object identity and slot index), the process memory,
  the jitdump stream with the pid in its file name, and the perf map files (one
  \<open>(address, size, name)\<close> entry per line, by pid; \<open>perf_map_file\<close> is the pid of the one that is
  open). \<open>write_state_calls\<close> is the trace of the calls
  made through \<^verbatim>\<open>trampoline_api.write_state\<close>, oldest first: \<open>(code_addr, code_size, co)\<close>.
\<close>

record perf_state =
  perf_status :: perf_status_t
  extra_code_index :: int
  perf_code_arena :: "code_arena_st list"
  trampoline_api :: trampoline_api_st
  persist_after_fork :: int
  perf_trampoline_type :: perf_trampoline_type_t
  perf_jit_map_state :: PerfMapJitState
  eval_frame :: eval_frame_fn
  co_extra :: "nat \<times> int \<Rightarrow> py_trampoline"
  mem :: "nat \<Rightarrow> u8"
  jit_stream :: FILE_st
  jit_stream_pid :: u32
  perf_map_file :: "u32 option"
  perf_map_lines :: "u32 \<Rightarrow> (nat \<times> u32 \<times> string) list"
  write_state_calls :: "(nat \<times> u32 \<times> nat) list"

definition bind_fault :: "fault + 'a \<Rightarrow> ('a \<Rightarrow> fault + 'b) \<Rightarrow> fault + 'b" where
  "bind_fault m k = (case m of Inl e \<Rightarrow> Inl e | Inr x \<Rightarrow> k x)"

section \<open>\<^verbatim>\<open>perf_jit_trampoline.c\<close>: the jitdump sink\<close>

subsection \<open>Memory images of the structs (little-endian, no padding inside them)\<close>

definition le32 :: "u32 \<Rightarrow> u8 list" where
  "le32 w = [ucast w, ucast (drop_bit 8 w), ucast (drop_bit 16 w), ucast (drop_bit 24 w)]"

definition le64 :: "u64 \<Rightarrow> u8 list" where
  "le64 w = [ucast w, ucast (drop_bit 8 w), ucast (drop_bit 16 w), ucast (drop_bit 24 w),
             ucast (drop_bit 32 w), ucast (drop_bit 40 w), ucast (drop_bit 48 w),
             ucast (drop_bit 56 w)]"

record Header =
  magic :: u32
  version :: u32
  header_size :: u32          \<comment> \<open>field \<^verbatim>\<open>size\<close>\<close>
  elf_mach_target :: u32
  reserved :: u32
  header_process_id :: u32    \<comment> \<open>field \<^verbatim>\<open>process_id\<close>\<close>
  header_time_stamp :: u64    \<comment> \<open>field \<^verbatim>\<open>time_stamp\<close>\<close>
  flags :: u64

definition Header_image :: "Header \<Rightarrow> u8 list" where
  "Header_image h = le32 (magic h) @ le32 (version h) @ le32 (header_size h)
     @ le32 (elf_mach_target h) @ le32 (reserved h) @ le32 (header_process_id h)
     @ le64 (header_time_stamp h) @ le64 (flags h)"

datatype PerfEvent = PerfLoad | PerfMove | PerfDebugInfo | PerfClose | PerfUnwindingInfo

fun PerfEvent_value :: "PerfEvent \<Rightarrow> u32" where
  "PerfEvent_value PerfLoad = 0"
| "PerfEvent_value PerfMove = 1"
| "PerfEvent_value PerfDebugInfo = 2"
| "PerfEvent_value PerfClose = 3"
| "PerfEvent_value PerfUnwindingInfo = 4"

record BaseEvent =
  event :: u32
  event_size :: u32           \<comment> \<open>field \<^verbatim>\<open>size\<close>\<close>
  time_stamp :: u64

definition BaseEvent_image :: "BaseEvent \<Rightarrow> u8 list" where
  "BaseEvent_image b = le32 (event b) @ le32 (event_size b) @ le64 (time_stamp b)"

record CodeLoadEvent =
  load_base :: BaseEvent      \<comment> \<open>field \<^verbatim>\<open>base\<close>\<close>
  process_id :: u32
  thread_id :: u32
  vma :: u64
  code_address :: u64
  load_code_size :: u64       \<comment> \<open>field \<^verbatim>\<open>code_size\<close>\<close>
  load_code_id :: u64         \<comment> \<open>field \<^verbatim>\<open>code_id\<close>\<close>

definition CodeLoadEvent_image :: "CodeLoadEvent \<Rightarrow> u8 list" where
  "CodeLoadEvent_image e = BaseEvent_image (load_base e) @ le32 (process_id e)
     @ le32 (thread_id e) @ le64 (vma e) @ le64 (code_address e) @ le64 (load_code_size e)
     @ le64 (load_code_id e)"

record CodeUnwindingInfoEvent =
  unwinding_base :: BaseEvent \<comment> \<open>field \<^verbatim>\<open>base\<close>\<close>
  unwind_data_size :: u64
  eh_frame_hdr_size :: u64
  unwinding_mapped_size :: u64  \<comment> \<open>field \<^verbatim>\<open>mapped_size\<close>\<close>

definition CodeUnwindingInfoEvent_image :: "CodeUnwindingInfoEvent \<Rightarrow> u8 list" where
  "CodeUnwindingInfoEvent_image e = BaseEvent_image (unwinding_base e)
     @ le64 (unwind_data_size e) @ le64 (eh_frame_hdr_size e) @ le64 (unwinding_mapped_size e)"

record EhFrameHeader =
  eh_version :: u8            \<comment> \<open>field \<^verbatim>\<open>version\<close>\<close>
  eh_frame_ptr_enc :: u8
  fde_count_enc :: u8
  table_enc :: u8
  eh_frame_ptr :: u32
  eh_fde_count :: u32
  table_from :: u32           \<comment> \<open>field \<^verbatim>\<open>from\<close>\<close>
  table_to :: u32             \<comment> \<open>field \<^verbatim>\<open>to\<close>\<close>

definition EhFrameHeader_image :: "EhFrameHeader \<Rightarrow> u8 list" where
  "EhFrameHeader_image f = [eh_version f, eh_frame_ptr_enc f, fde_count_enc f, table_enc f]
     @ le32 (eh_frame_ptr f) @ le32 (eh_fde_count f) @ le32 (table_from f) @ le32 (table_to f)"

text \<open>\<^verbatim>\<open>sizeof\<close> of the four structs that are written.\<close>

definition sizeof_Header :: nat where "sizeof_Header = 40"
definition sizeof_CodeLoadEvent :: nat where "sizeof_CodeLoadEvent = 56"
definition sizeof_CodeUnwindingInfoEvent :: nat where "sizeof_CodeUnwindingInfoEvent = 40"
definition sizeof_EhFrameHeader :: nat where "sizeof_EhFrameHeader = 20"

definition PERF_JIT_CODE_PADDING :: u64 where "PERF_JIT_CODE_PADDING = 0x100"

text \<open>
  Every \<^verbatim>\<open>TARGET_ARCH_*\<close> macro is defined as 0 in this file, so the preprocessor leaves the
  \<^verbatim>\<open>#else\<close> branch.
\<close>

definition GetElfMachineArchitecture :: u64 where
  "GetElfMachineArchitecture = 0"

subsection \<open>Writing to the dump file\<close>

definition fwrite :: "u8 list \<Rightarrow> FILE_st \<Rightarrow> nat \<times> FILE_st" where
  "fwrite ptr out_file =
     (let written = min (length ptr) (room out_file)
      in (written, out_file\<lparr>contents := contents out_file @ take written ptr,
                             room := room out_file - written\<rparr>))"

text \<open>
  The loop of \<^verbatim>\<open>perf_map_jit_write_fully\<close>: \<^verbatim>\<open>buffer\<close> is the \<^verbatim>\<open>size\<close> bytes at \<^verbatim>\<open>ptr\<close> still to be
  written; a write of 0 bytes ends the loop.
\<close>

function write_loop :: "u8 list \<Rightarrow> FILE_st \<Rightarrow> FILE_st" where
  "write_loop buffer out_file =
     (if 0 < length buffer then
        (let written = fst (fwrite buffer out_file); out_file' = snd (fwrite buffer out_file)
         in if written = 0 then out_file' else write_loop (drop written buffer) out_file')
      else out_file)"
  by pat_completeness auto
termination
  by (relation "measure (\<lambda>(buffer, out_file). length buffer)") auto

declare write_loop.simps [simp del]

text \<open>
  \<^verbatim>\<open>perf_map_jit_write_fully\<close> reads the stream from \<^verbatim>\<open>perf_jit_map_state.perf_map\<close>. With
  nothing to write the stream is not touched.
\<close>

definition perf_map_jit_write_fully :: "u8 list \<Rightarrow> perf_state \<Rightarrow> fault + perf_state" where
  "perf_map_jit_write_fully buffer st =
     (if buffer = [] then Inr st
      else case perf_map (perf_jit_map_state st) of
             FILE_open \<Rightarrow> Inr (st\<lparr>jit_stream := write_loop buffer (jit_stream st)\<rparr>)
           | FILE_NULL \<Rightarrow> Inl Null_dereference
           | FILE_closed \<Rightarrow> Inl Stream_closed)"

text \<open>\<^verbatim>\<open>header.reserved\<close> is never assigned, so the file gets what the stack held.\<close>

definition perf_map_jit_write_header :: "os_env \<Rightarrow> u32 \<Rightarrow> perf_state \<Rightarrow> fault + perf_state" where
  "perf_map_jit_write_header os pid st =
     (let header = \<lparr>magic = 0x4A695444, version = 1, header_size = of_nat sizeof_Header,
                     elf_mach_target = ucast GetElfMachineArchitecture,
                     reserved = stack_garbage os, header_process_id = pid,
                     header_time_stamp = time_microseconds os, flags = 0\<rparr>
      in perf_map_jit_write_fully (Header_image header) st)"

text \<open>
  \<^verbatim>\<open>perf_map_jit_init\<close>. \<^verbatim>\<open>open\<close> with \<^verbatim>\<open>O_CREAT | O_TRUNC\<close> leaves \<^verbatim>\<open>/tmp/jit-<pid>.dump\<close> empty,
  and \<^verbatim>\<open>fdopen\<close> makes it the stream behind \<^verbatim>\<open>perf_map\<close>. The result of \<^verbatim>\<open>mmap\<close> is compared with
  \<open>NULL\<close>, as the code does. When no lock can be allocated the stream is closed and
  \<^verbatim>\<open>perf_map\<close> keeps pointing at it. The returned pointer is \<^verbatim>\<open>&perf_jit_map_state\<close> or \<open>NULL\<close>.
\<close>

definition perf_map_jit_init :: "os_env \<Rightarrow> perf_state \<Rightarrow> fault + (pointer \<times> perf_state)" where
  "perf_map_jit_init os st =
     (let pid = getpid os in
      if open_fd os = - 1 then Inr (NULL, st)
      else if sysconf_pagesize os = - 1 then Inr (NULL, st)
      else
        let st1 = st\<lparr>perf_jit_map_state := (perf_jit_map_state st)\<lparr>mapped_buffer := mmap_file os\<rparr>\<rparr>
        in
        if mmap_file os = NULL then Inr (NULL, st1)
        else
          let js2 = (perf_jit_map_state st1)\<lparr>mapped_size := of_int (sysconf_pagesize os)\<rparr> in
          if \<not> fdopen_ok os
          then Inr (NULL, st1\<lparr>perf_jit_map_state := js2\<lparr>perf_map := FILE_NULL\<rparr>\<rparr>)
          else
            let st3 = st1\<lparr>perf_jit_map_state := js2\<lparr>perf_map := FILE_open\<rparr>,
                          jit_stream := \<lparr>contents = [], room = device_room os\<rparr>,
                          jit_stream_pid := pid\<rparr>
            in bind_fault (perf_map_jit_write_header os pid st3) (\<lambda>st4.
                 if \<not> allocate_lock_ok os
                 then Inr (NULL, st4\<lparr>perf_jit_map_state :=
                             (perf_jit_map_state st4)\<lparr>map_lock := False, perf_map := FILE_closed\<rparr>\<rparr>)
                 else Inr (Static_perf_jit_map_state,
                           st4\<lparr>perf_jit_map_state :=
                                  (perf_jit_map_state st4)\<lparr>map_lock := True, code_id := 0\<rparr>,
                               trampoline_api :=
                                  (trampoline_api st4)\<lparr>code_padding := PERF_JIT_CODE_PADDING\<rparr>\<rparr>)))"

subsection \<open>The DWARF emitter\<close>

definition DWRF_CIE_VERSION :: u8 where "DWRF_CIE_VERSION = 1"
definition DWRF_CFA_nop :: u8 where "DWRF_CFA_nop = 0x0"
definition DWRF_CFA_def_cfa :: u8 where "DWRF_CFA_def_cfa = 0xc"
definition DWRF_CFA_def_cfa_offset :: u8 where "DWRF_CFA_def_cfa_offset = 0xe"
definition DWRF_CFA_advance_loc :: u8 where "DWRF_CFA_advance_loc = 0x40"
definition DWRF_CFA_offset :: u8 where "DWRF_CFA_offset = 0x80"
definition DWRF_EH_PE_sdata4 :: u8 where "DWRF_EH_PE_sdata4 = 0x0b"
definition DWRF_EH_PE_pcrel :: u8 where "DWRF_EH_PE_pcrel = 0x10"
definition DwarfUData4 :: u8 where "DwarfUData4 = 0x03"
definition DwarfSData4 :: u8 where "DwarfSData4 = 0x0b"
definition DwarfPcRel :: u8 where "DwarfPcRel = 0x10"
definition DwarfDataRel :: u8 where "DwarfDataRel = 0x30"

fun DWRF_REG_SP :: "arch \<Rightarrow> u32" where
  "DWRF_REG_SP X86_64 = 7"
| "DWRF_REG_SP AARCH64 = 31"

fun DWRF_REG_RA :: "arch \<Rightarrow> u32" where
  "DWRF_REG_RA X86_64 = 16"
| "DWRF_REG_RA AARCH64 = 30"

text \<open>
  The emitting macros, each as the bytes it stores at \<^verbatim>\<open>p\<close>. \<^verbatim>\<open>DWRF_UV\<close> and \<^verbatim>\<open>DWRF_SV\<close> call the
  two LEB128 encoders at \<^verbatim>\<open>p\<close>; \<^verbatim>\<open>DWRF_STR\<close> copies a string with its terminating NUL.
\<close>

definition DWRF_U8 :: "u8 \<Rightarrow> u8 list" where "DWRF_U8 x = [x]"
definition DWRF_U32 :: "u32 \<Rightarrow> u8 list" where "DWRF_U32 x = le32 x"
definition DWRF_UV :: "u32 \<Rightarrow> u8 list" where "DWRF_UV x = uleb128_bytes x"
definition DWRF_SV :: "u32 \<Rightarrow> u8 list" where "DWRF_SV x = sleb128_bytes x"
definition DWRF_STR :: "string \<Rightarrow> u8 list" where "DWRF_STR str = map of_char str @ [0]"

text \<open>
  \<^verbatim>\<open>DWRF_ALIGNNOP(sizeof(uintptr_t))\<close>: \<^verbatim>\<open>while ((uintptr_t)p & 7) *p++ = DWRF_CFA_nop;\<close> at the
  address \<open>p\<close>; \<^verbatim>\<open>p & 7\<close> is \<open>p mod 8\<close>.
\<close>

function DWRF_ALIGNNOP :: "nat \<Rightarrow> u8 list" where
  "DWRF_ALIGNNOP p = (if p mod 8 \<noteq> 0 then DWRF_CFA_nop # DWRF_ALIGNNOP (Suc p) else [])"
  by pat_completeness auto
termination
proof (relation "measure (\<lambda>p. (8 - p mod 8) mod 8)")
  show "wf (measure (\<lambda>p::nat. (8 - p mod 8) mod 8))" by simp
next
  fix p :: nat
  assume a: "p mod 8 \<noteq> 0"
  have "Suc p mod 8 = (if p mod 8 = 7 then 0 else Suc (p mod 8))"
    by (simp add: mod_Suc)
  moreover have "p mod 8 < 8" by simp
  ultimately have "(8 - Suc p mod 8) mod 8 < (8 - p mod 8) mod 8"
    using a by (auto split: if_splits)
  then show "(Suc p, p) \<in> measure (\<lambda>p. (8 - p mod 8) mod 8)" by simp
qed

declare DWRF_ALIGNNOP.simps [simp del]

text \<open>
  \<^verbatim>\<open>DWRF_SECTION(name, stmt)\<close> at address \<open>p\<close>: four bytes for the length, then what \<^verbatim>\<open>stmt\<close> emits
  from \<open>p + 4\<close> on, then the length (without its own four bytes) stored in front.
\<close>

definition DWRF_SECTION :: "nat \<Rightarrow> (nat \<Rightarrow> u8 list) \<Rightarrow> u8 list" where
  "DWRF_SECTION p stmt = (let body = stmt (p + 4) in DWRF_U32 (of_nat (length body)) @ body)"

definition cie_fields :: "arch \<Rightarrow> u8 list" where
  "cie_fields a =
     DWRF_U32 0 @ DWRF_U8 DWRF_CIE_VERSION @ DWRF_STR ''zR'' @ DWRF_UV 1 @ DWRF_SV (- 8)
     @ DWRF_U8 (ucast (DWRF_REG_RA a)) @ DWRF_UV 1
     @ DWRF_U8 (DWRF_EH_PE_pcrel OR DWRF_EH_PE_sdata4)
     @ DWRF_U8 DWRF_CFA_def_cfa @ DWRF_UV (DWRF_REG_SP a) @ DWRF_UV 8
     @ DWRF_U8 (DWRF_CFA_offset OR ucast (DWRF_REG_RA a)) @ DWRF_UV 1"

fun fde_cfi :: "arch \<Rightarrow> u8 list" where
  "fde_cfi X86_64 =
     DWRF_U8 (DWRF_CFA_advance_loc OR 4) @ DWRF_U8 DWRF_CFA_def_cfa_offset @ DWRF_UV 16
     @ DWRF_U8 (DWRF_CFA_advance_loc OR 6) @ DWRF_U8 DWRF_CFA_def_cfa_offset @ DWRF_UV 8"
| "fde_cfi AARCH64 =
     DWRF_U8 (DWRF_CFA_advance_loc OR 1) @ DWRF_U8 DWRF_CFA_def_cfa_offset @ DWRF_UV 16
     @ DWRF_U8 (DWRF_CFA_offset OR 29) @ DWRF_UV 2
     @ DWRF_U8 (DWRF_CFA_offset OR 30) @ DWRF_UV 1
     @ DWRF_U8 (DWRF_CFA_advance_loc OR 3)
     @ DWRF_U8 (DWRF_CFA_offset OR (- (64 - 29)))
     @ DWRF_U8 (DWRF_CFA_offset OR (- (64 - 30)))
     @ DWRF_U8 DWRF_CFA_def_cfa_offset @ DWRF_UV 0"

definition fde_fields :: "arch \<Rightarrow> u32 \<Rightarrow> nat \<Rightarrow> nat \<Rightarrow> u8 list" where
  "fde_fields a csize framep p =
     DWRF_U32 (of_nat (p - framep)) @ DWRF_U32 (- 0x30) @ DWRF_U32 csize @ DWRF_U8 0
     @ fde_cfi a"

definition elf_init_ehframe :: "arch \<Rightarrow> ELFObjectContext \<Rightarrow> ELFObjectContext" where
  "elf_init_ehframe a ctx =
     (let p = startp ctx + length (obj ctx);
          framep = p;
          cie = DWRF_SECTION p
                  (\<lambda>q. cie_fields a @ DWRF_ALIGNNOP (q + length (cie_fields a)));
          p = p + length cie;
          fde = DWRF_SECTION p
                  (\<lambda>q. fde_fields a (ctx_code_size ctx) framep q
                        @ DWRF_ALIGNNOP (q + length (fde_fields a (ctx_code_size ctx) framep q)))
      in ctx\<lparr>obj := obj ctx @ cie @ fde, eh_frame_p := p\<rparr>)"

subsection \<open>\<^verbatim>\<open>perf_map_jit_write_entry\<close> and \<^verbatim>\<open>perf_map_jit_fini\<close>\<close>

text \<open>
  A C string ends at its first NUL, so \<^verbatim>\<open>%s\<close> prints a name up to there; a null
  \<^verbatim>\<open>co_qualname\<close> or \<^verbatim>\<open>co_filename\<close> prints as the empty string. \<open>perf_map_entry_of\<close> is what the
  second \<^verbatim>\<open>snprintf\<close> leaves in \<^verbatim>\<open>perf_map_entry\<close> (without its terminating NUL).
\<close>

definition c_string :: "string \<Rightarrow> string" where
  "c_string str = takeWhile (\<lambda>c. c \<noteq> CHR 0x00) str"

definition utf8_or_empty :: "string option \<Rightarrow> string" where
  "utf8_or_empty field = (case field of None \<Rightarrow> [] | Some str \<Rightarrow> c_string str)"

definition perf_map_entry_of :: "PyCodeObject \<Rightarrow> string" where
  "perf_map_entry_of co =
     (let entry = utf8_or_empty (co_qualname co);
          filename = utf8_or_empty (co_filename co)
      in ''py::'' @ entry @ '':'' @ filename)"

definition read_bytes :: "(nat \<Rightarrow> u8) \<Rightarrow> nat \<Rightarrow> nat \<Rightarrow> u8 list" where
  "read_bytes m a n = map m [a ..< a + n]"

text \<open>
  \<^verbatim>\<open>perf_map_jit_write_entry\<close> calls \<^verbatim>\<open>perf_map_jit_write_fully\<close> seven times: four times for the
  unwinding-info record (the event struct, the \<^verbatim>\<open>.eh_frame\<close> bytes, the \<^verbatim>\<open>EhFrameHeader\<close>, the
  padding), then, after incrementing \<^verbatim>\<open>code_id\<close>, three times for the code-load record (the
  event struct, the name with its NUL, the bytes of the stub). \<open>unwinding_info_writes\<close> and
  \<open>code_load_writes\<close> are the buffers of these calls, in order, and \<open>write_all\<close> performs the
  calls one after the other.

  The locals \<^verbatim>\<open>eh_frame_size\<close>, \<^verbatim>\<open>content_size\<close>, \<^verbatim>\<open>padding_size\<close> and \<^verbatim>\<open>cie_size\<close> are \<^verbatim>\<open>int\<close>s that
  hold small non-negative numbers (lemma \<open>eh_frame_size_bound\<close> below), so they are \<open>nat\<close>
  here; each struct field gets them converted to its width. \<^verbatim>\<open>ev.base.size\<close> is the 32-bit
  truncation of a \<^verbatim>\<open>size_t\<close> sum. The \<^verbatim>\<open>assert\<close> is compiled out of a release build.
\<close>

definition unwinding_info_writes :: "build \<Rightarrow> os_env \<Rightarrow> u32 \<Rightarrow> u8 list list" where
  "unwinding_info_writes b os csize =
     (let ctx = elf_init_ehframe (target b)
                  \<lparr>startp = stack_buffer os, obj = [], eh_frame_p = stack_buffer os,
                   ctx_code_size = csize\<rparr>;
          eh_frame_size = length (obj ctx);
          uds = (of_nat (sizeof_EhFrameHeader + eh_frame_size) :: u64);
          content_size = sizeof_CodeUnwindingInfoEvent + sizeof_EhFrameHeader + eh_frame_size;
          padding_size = unat (round_up (of_nat content_size) 8) - content_size;
          ev2 = \<lparr>unwinding_base =
                   \<lparr>event = PerfEvent_value PerfUnwindingInfo,
                    event_size = of_nat (content_size + padding_size),
                    time_stamp = monotonic_ticks_unwind os\<rparr>,
                 unwind_data_size = uds,
                 eh_frame_hdr_size = of_nat sizeof_EhFrameHeader,
                 unwinding_mapped_size = round_up uds 16\<rparr>;
          cie_size = eh_frame_p ctx - startp ctx;
          f = \<lparr>eh_version = 1,
               eh_frame_ptr_enc = DwarfSData4 OR DwarfPcRel,
               fde_count_enc = DwarfUData4,
               table_enc = DwarfSData4 OR DwarfDataRel,
               eh_frame_ptr = - of_nat (eh_frame_size + 4),
               eh_fde_count = 1,
               table_from = - (ucast (round_up (ucast csize) 8) + of_nat eh_frame_size),
               table_to = - of_nat (eh_frame_size - cie_size)\<rparr>;
          padding_bytes = replicate 9 (0 :: u8)
      in [CodeUnwindingInfoEvent_image ev2, obj ctx, EhFrameHeader_image f,
          take padding_size padding_bytes])"

definition code_load_writes ::
  "os_env \<Rightarrow> perf_state \<Rightarrow> nat \<Rightarrow> u32 \<Rightarrow> PyCodeObject \<Rightarrow> u8 list list" where
  "code_load_writes os st code_addr csize co =
     (let perf_map_entry = perf_map_entry_of co;
          name_length = length perf_map_entry;
          base = (of_nat code_addr :: u64);
          sz = (ucast csize :: u64);
          ev = \<lparr>load_base =
                  \<lparr>event = PerfEvent_value PerfLoad,
                   event_size = of_nat (sizeof_CodeLoadEvent + (name_length + 1) + unat sz),
                   time_stamp = monotonic_ticks_load os\<rparr>,
                process_id = getpid os,
                thread_id = gettid os,
                vma = base,
                code_address = base,
                load_code_size = sz,
                load_code_id = scast (code_id (perf_jit_map_state st))\<rparr>
      in [CodeLoadEvent_image ev, map of_char perf_map_entry @ [0],
          read_bytes (mem st) code_addr (unat sz)])"

fun write_all :: "u8 list list \<Rightarrow> perf_state \<Rightarrow> fault + perf_state" where
  "write_all [] st = Inr st"
| "write_all (buffer # buffers) st =
     bind_fault (perf_map_jit_write_fully buffer st) (write_all buffers)"

definition perf_map_jit_write_entry ::
  "build \<Rightarrow> os_env \<Rightarrow> perf_state \<Rightarrow> nat \<Rightarrow> u32 \<Rightarrow> PyCodeObject \<Rightarrow> fault + perf_state" where
  "perf_map_jit_write_entry b os st0 code_addr csize co =
     bind_fault
       (if perf_map (perf_jit_map_state st0) = FILE_NULL
        then bind_fault (perf_map_jit_init os st0) (\<lambda>(ret, st). Inr (ret \<noteq> NULL, st))
        else Inr (True, st0))
       (\<lambda>(initialised, st).
          if \<not> initialised then Inr st
          else if \<not> malloc_ok os then Inr st
          else
            bind_fault (write_all (unwinding_info_writes b os csize) st) (\<lambda>st.
              let st = st\<lparr>perf_jit_map_state :=
                           (perf_jit_map_state st)\<lparr>code_id := code_id (perf_jit_map_state st) + 1\<rparr>\<rparr>
              in write_all (code_load_writes os st code_addr csize co) st))"

text \<open>
  \<^verbatim>\<open>perf_map_jit_fini\<close>: closes an open stream under its lock and frees the lock; unmaps the
  first page (the pointer is kept); clears \<^verbatim>\<open>trampoline_api.state\<close>; returns 0.
\<close>

definition perf_map_jit_fini :: "perf_state \<Rightarrow> fault + (int \<times> perf_state)" where
  "perf_map_jit_fini st =
     bind_fault
       (case perf_map (perf_jit_map_state st) of
          FILE_NULL \<Rightarrow> Inr st
        | FILE_closed \<Rightarrow> Inl Stream_closed
        | FILE_open \<Rightarrow>
            if \<not> map_lock (perf_jit_map_state st) then Inl Null_dereference
            else Inr (st\<lparr>perf_jit_map_state :=
                          (perf_jit_map_state st)\<lparr>perf_map := FILE_NULL, map_lock := False\<rparr>\<rparr>))
       (\<lambda>st. Inr (0, st\<lparr>trampoline_api := (trampoline_api st)\<lparr>state := NULL\<rparr>\<rparr>))"

section \<open>\<^verbatim>\<open>perf_trampoline.c\<close>\<close>

subsection \<open>The host interpreter and the perf map writer\<close>

text \<open>
  Modelled from the spec: the perf map writer of the interpreter
  (\<^verbatim>\<open>PyUnstable_PerfMapState_Init\<close>, \<^verbatim>\<open>PyUnstable_WritePerfMapEntry\<close>, \<^verbatim>\<open>PyUnstable_PerfMapState_Fini\<close>,
  \<^verbatim>\<open>PyUnstable_CopyPerfMapFile\<close>) is not in the two files. It appends one line per stub to
  \<^verbatim>\<open>/tmp/perf-<pid>.map\<close>, and after a fork copies the parent's file to the child's.
\<close>

definition PyUnstable_PerfMapState_Init :: "os_env \<Rightarrow> perf_state \<Rightarrow> perf_state" where
  "PyUnstable_PerfMapState_Init os st = st\<lparr>perf_map_file := Some (getpid os)\<rparr>"

definition PyUnstable_WritePerfMapEntry ::
  "perf_state \<Rightarrow> nat \<Rightarrow> u32 \<Rightarrow> string \<Rightarrow> perf_state" where
  "PyUnstable_WritePerfMapEntry st code_addr csize entry_name =
     (case perf_map_file st of
        None \<Rightarrow> st
      | Some pid \<Rightarrow>
          st\<lparr>perf_map_lines :=
               (perf_map_lines st)(pid := perf_map_lines st pid @ [(code_addr, csize, entry_name)])\<rparr>)"

definition PyUnstable_PerfMapState_Fini :: "perf_state \<Rightarrow> perf_state" where
  "PyUnstable_PerfMapState_Fini st = st\<lparr>perf_map_file := None\<rparr>"

definition PyUnstable_CopyPerfMapFile :: "os_env \<Rightarrow> perf_state \<Rightarrow> int \<times> perf_state" where
  "PyUnstable_CopyPerfMapFile os st =
     (if copy_perf_map_res os \<noteq> 0 then (copy_perf_map_res os, st)
      else (0, st\<lparr>perf_map_lines :=
                    (perf_map_lines st)(getpid os := perf_map_lines st (getppid os))\<rparr>))"

text \<open>
  Modelled from the spec: the extra slot of a code object is a plain pointer that the host
  hands back as stored (null when nothing was stored); storing can fail, and then nothing
  changes. The evaluator hook of the interpreter is swapped in one step.
\<close>

definition PyCode_GetExtra :: "perf_state \<Rightarrow> PyCodeObject \<Rightarrow> int \<Rightarrow> int \<times> py_trampoline" where
  "PyCode_GetExtra st co index = (0, co_extra st (co_ident co, index))"

definition PyCode_SetExtra ::
  "os_env \<Rightarrow> perf_state \<Rightarrow> PyCodeObject \<Rightarrow> int \<Rightarrow> py_trampoline \<Rightarrow> int \<times> perf_state" where
  "PyCode_SetExtra os st co index extra =
     (if set_extra_res os \<noteq> 0 then (set_extra_res os, st)
      else (0, st\<lparr>co_extra := (co_extra st)((co_ident co, index) := extra)\<rparr>))"

definition PyInterpreterState_SetEvalFrameFunc :: "perf_state \<Rightarrow> eval_frame_fn \<Rightarrow> perf_state" where
  "PyInterpreterState_SetEvalFrameFunc st eval_frame_func = st\<lparr>eval_frame := eval_frame_func\<rparr>"

text \<open>
  The host's default evaluator and the frame's code object are parameters. The value an
  evaluator call returns is paired with the stub the default evaluator was entered through
  (\<open>None\<close> when it was called directly): that address is what a native profiler sees.

  Modelled from the spec: the stub template, copied into every slot, tail-calls its fourth
  argument with its first three arguments forwarded.
\<close>

record ('ts, 'fr, 'r) host =
  PyEval_EvalFrameDefault :: "'ts \<Rightarrow> 'fr \<Rightarrow> int \<Rightarrow> 'r"
  PyFrame_GetCode :: "'fr \<Rightarrow> PyCodeObject"

record 'r eval_result =
  returned :: 'r
  entered_through :: py_trampoline

definition call_trampoline ::
  "nat \<Rightarrow> 'ts \<Rightarrow> 'fr \<Rightarrow> int \<Rightarrow> ('ts \<Rightarrow> 'fr \<Rightarrow> int \<Rightarrow> 'r) \<Rightarrow> 'r eval_result" where
  "call_trampoline f ts frame throw evaluator =
     \<lparr>returned = evaluator ts frame throw, entered_through = Some f\<rparr>"

subsection \<open>The perf map callbacks\<close>

definition perf_map_write_entry ::
  "os_env \<Rightarrow> perf_state \<Rightarrow> nat \<Rightarrow> u32 \<Rightarrow> PyCodeObject \<Rightarrow> perf_state" where
  "perf_map_write_entry os st code_addr csize co =
     (if \<not> malloc_ok os then st
      else PyUnstable_WritePerfMapEntry st code_addr csize (perf_map_entry_of co))"

definition perf_map_init_state :: "os_env \<Rightarrow> perf_state \<Rightarrow> pointer \<times> perf_state" where
  "perf_map_init_state os st =
     (let st = PyUnstable_PerfMapState_Init os st;
          st = st\<lparr>trampoline_api := (trampoline_api st)\<lparr>code_padding := 0\<rparr>\<rparr>;
          st = st\<lparr>perf_trampoline_type := PERF_TRAMPOLINE_TYPE_MAP\<rparr>
      in (NULL, st))"

definition perf_map_free_state :: "perf_state \<Rightarrow> int \<times> perf_state" where
  "perf_map_free_state st = (0, PyUnstable_PerfMapState_Fini st)"

text \<open>
  Calls through the three function pointers of \<^verbatim>\<open>trampoline_api\<close>. A call through
  \<^verbatim>\<open>write_state\<close> is first added to the trace.
\<close>

definition call_init_state :: "sink option \<Rightarrow> os_env \<Rightarrow> perf_state \<Rightarrow> fault + (pointer \<times> perf_state)" where
  "call_init_state fn os st =
     (case fn of
        None \<Rightarrow> Inl Null_call
      | Some Perfmap \<Rightarrow> Inr (perf_map_init_state os st)
      | Some Jitdump \<Rightarrow> perf_map_jit_init os st)"

definition call_write_state ::
  "sink option \<Rightarrow> build \<Rightarrow> os_env \<Rightarrow> perf_state \<Rightarrow> nat \<Rightarrow> u32 \<Rightarrow> PyCodeObject
     \<Rightarrow> fault + perf_state" where
  "call_write_state fn b os st code_addr csize co =
     (case fn of
        None \<Rightarrow> Inl Null_call
      | Some k \<Rightarrow>
          let st = st\<lparr>write_state_calls :=
                        write_state_calls st @ [(code_addr, csize, co_ident co)]\<rparr>
          in (case k of
                Perfmap \<Rightarrow> Inr (perf_map_write_entry os st code_addr csize co)
              | Jitdump \<Rightarrow> perf_map_jit_write_entry b os st code_addr csize co))"

definition call_free_state :: "sink option \<Rightarrow> perf_state \<Rightarrow> fault + (int \<times> perf_state)" where
  "call_free_state fn st =
     (case fn of
        None \<Rightarrow> Inl Null_call
      | Some Perfmap \<Rightarrow> Inr (perf_map_free_state st)
      | Some Jitdump \<Rightarrow> perf_map_jit_fini st)"

subsection \<open>Trampoline management\<close>

definition memcpy :: "(nat \<Rightarrow> u8) \<Rightarrow> nat \<Rightarrow> u8 list \<Rightarrow> (nat \<Rightarrow> u8)" where
  "memcpy m dest src =
     (\<lambda>a. if dest \<le> a \<and> a < dest + length src then src ! (a - dest) else m a)"

text \<open>
  \<^verbatim>\<open>new_code_arena\<close> returns 0 or -1. The error indicator and the unraisable-error report are
  not part of the state. After a failed \<^verbatim>\<open>mprotect\<close> or \<^verbatim>\<open>PyMem_RawCalloc\<close> the mapping is
  unmapped again, so the memory is as before. \<^verbatim>\<open>mem_size / chunk_size\<close> with a zero chunk size
  is a division by zero.
\<close>

definition new_code_arena :: "build \<Rightarrow> os_env \<Rightarrow> perf_state \<Rightarrow> fault + (int \<times> perf_state)" where
  "new_code_arena b os st =
     (let mem_size = (4096 * 16 :: u64) in
      case mmap_anon os of
        None \<Rightarrow> Inr (- 1, st\<lparr>perf_status := PERF_STATUS_FAILED\<rparr>)
      | Some memory \<Rightarrow>
          let csize = (of_nat (length (trampoline_template b)) :: u64);
              chunk_size = round_up (csize + code_padding (trampoline_api st)) 16
          in
          if chunk_size = 0 then Inl Division_by_zero
          else
            let n_copies = mem_size div chunk_size;
                copied = fold (\<lambda>i m. memcpy m (memory + i * unat chunk_size) (trampoline_template b))
                           [0 ..< unat n_copies] (mem st)
            in
            if mprotect_res os = - 1 then Inr (- 1, st)
            else if \<not> calloc_ok os then Inr (- 1, st)
            else
              let new_arena = \<lparr>start_addr = memory, current_addr = memory,
                                arena_size = mem_size, size_left = mem_size, code_size = csize\<rparr>
              in Inr (0, st\<lparr>mem := copied, perf_code_arena := new_arena # perf_code_arena st\<rparr>))"

definition free_code_arenas :: "perf_state \<Rightarrow> perf_state" where
  "free_code_arenas st = st\<lparr>perf_code_arena := []\<rparr>"

text \<open>
  \<^verbatim>\<open>code_arena_new_code\<close> on the arena its argument points to: the stub's address and the
  arena as it leaves it.
\<close>

definition code_arena_new_code :: "trampoline_api_st \<Rightarrow> code_arena_st \<Rightarrow> nat \<times> code_arena_st" where
  "code_arena_new_code api code_arena =
     (let trampoline = current_addr code_arena;
          total_code_size = round_up (code_size code_arena + code_padding api) 16
      in (trampoline,
          code_arena\<lparr>size_left := size_left code_arena - total_code_size,
                      current_addr := current_addr code_arena + unat total_code_size\<rparr>))"

text \<open>
  \<^verbatim>\<open>code_arena_new_code(perf_code_arena)\<close>: the call on the head of the list, which is updated in
  place.
\<close>

definition new_code_in_head :: "perf_state \<Rightarrow> fault + (py_trampoline \<times> perf_state)" where
  "new_code_in_head st =
     (case perf_code_arena st of
        [] \<Rightarrow> Inl Null_dereference
      | code_arena # prev \<Rightarrow>
          let r = code_arena_new_code (trampoline_api st) code_arena
          in Inr (Some (fst r), st\<lparr>perf_code_arena := snd r # prev\<rparr>))"

text \<open>
  \<^verbatim>\<open>compile_trampoline\<close>. Its first statement reads \<^verbatim>\<open>perf_code_arena->code_size\<close>, before the
  test \<^verbatim>\<open>perf_code_arena == NULL\<close>: with an empty list that is a read through a null pointer.
  The \<^verbatim>\<open>assert\<close> is compiled out of a release build. The result is the stub, \<open>None\<close> for \<open>NULL\<close>.
\<close>

definition compile_trampoline ::
  "build \<Rightarrow> os_env \<Rightarrow> perf_state \<Rightarrow> fault + (py_trampoline \<times> perf_state)" where
  "compile_trampoline b os st =
     (case perf_code_arena st of
        [] \<Rightarrow> Inl Null_dereference
      | head # prev \<Rightarrow>
          let total_code_size = round_up (code_size head + code_padding (trampoline_api st)) 16 in
          if perf_code_arena st = [] \<or> size_left head \<le> total_code_size
          then bind_fault (new_code_arena b os st) (\<lambda>(res, st).
                 if res < 0 then Inr (None, st) else new_code_in_head st)
          else new_code_in_head st)"

text \<open>The \<^verbatim>\<open>code_size\<close> argument of a \<^verbatim>\<open>write_state\<close> call: \<^verbatim>\<open>perf_code_arena->code_size\<close>, as \<^verbatim>\<open>unsigned int\<close>.\<close>

definition head_code_size :: "perf_state \<Rightarrow> fault + u32" where
  "head_code_size st =
     (case perf_code_arena st of
        [] \<Rightarrow> Inl Null_dereference
      | head # prev \<Rightarrow> Inr (ucast (code_size head)))"

definition py_trampoline_evaluator ::
  "build \<Rightarrow> ('ts, 'fr, 'r) host \<Rightarrow> os_env \<Rightarrow> perf_state \<Rightarrow> 'ts \<Rightarrow> 'fr \<Rightarrow> int
     \<Rightarrow> fault + ('r eval_result \<times> perf_state)" where
  "py_trampoline_evaluator b h os st ts frame throw =
     (let default_eval = (\<lambda>st. Inr (\<lparr>returned = PyEval_EvalFrameDefault h ts frame throw,
                                        entered_through = None\<rparr>, st))
      in
      if perf_status st = PERF_STATUS_FAILED \<or> perf_status st = PERF_STATUS_NO_INIT
      then default_eval st
      else
        let co = PyFrame_GetCode h frame;
            got = PyCode_GetExtra st co (extra_code_index st)
        in
        if fst got \<noteq> 0 \<or> snd got = None then
          bind_fault (compile_trampoline b os st) (\<lambda>(new_trampoline, st).
            case new_trampoline of
              None \<Rightarrow> default_eval st
            | Some t \<Rightarrow>
                bind_fault (head_code_size st) (\<lambda>csize.
                bind_fault (call_write_state (write_state (trampoline_api st)) b os st t csize co)
                  (\<lambda>st.
                    let st = snd (PyCode_SetExtra os st co (extra_code_index st) (Some t))
                    in Inr (call_trampoline t ts frame throw (PyEval_EvalFrameDefault h), st))))
        else
          (case snd got of
             None \<Rightarrow> Inl Null_call
           | Some f \<Rightarrow> Inr (call_trampoline f ts frame throw (PyEval_EvalFrameDefault h), st)))"

definition PyUnstable_PerfTrampoline_CompileCode ::
  "build \<Rightarrow> os_env \<Rightarrow> perf_state \<Rightarrow> PyCodeObject \<Rightarrow> fault + (int \<times> perf_state)" where
  "PyUnstable_PerfTrampoline_CompileCode b os st co =
     (let got = PyCode_GetExtra st co (extra_code_index st) in
      if fst got \<noteq> 0 \<or> snd got = None then
        bind_fault (compile_trampoline b os st) (\<lambda>(new_trampoline, st).
          case new_trampoline of
            None \<Rightarrow> Inr (0, st)
          | Some t \<Rightarrow>
              bind_fault (head_code_size st) (\<lambda>csize.
              bind_fault (call_write_state (write_state (trampoline_api st)) b os st t csize co)
                (\<lambda>st. Inr (PyCode_SetExtra os st co (extra_code_index st) (Some t)))))
      else Inr (0, st))"

subsection \<open>Life cycle\<close>

definition PyIsPerfTrampolineActive :: "perf_state \<Rightarrow> bool" where
  "PyIsPerfTrampolineActive st = (eval_frame st = Eval_py_trampoline_evaluator)"

definition PyPerfTrampoline_Fini :: "perf_state \<Rightarrow> fault + (int \<times> perf_state)" where
  "PyPerfTrampoline_Fini st =
     (if perf_status st \<noteq> PERF_STATUS_OK then Inr (0, st)
      else
        let st = (if eval_frame st = Eval_py_trampoline_evaluator
                  then PyInterpreterState_SetEvalFrameFunc st Eval_NULL else st)
        in
        bind_fault
          (if perf_status st = PERF_STATUS_OK
           then bind_fault (call_free_state (free_state (trampoline_api st)) st) (\<lambda>(res, st).
                  Inr (st\<lparr>perf_trampoline_type := PERF_TRAMPOLINE_UNSET\<rparr>))
           else Inr st)
          (\<lambda>st. Inr (0, st\<lparr>extra_code_index := - 1, perf_status := PERF_STATUS_NO_INIT\<rparr>)))"

text \<open>
  \<^verbatim>\<open>_PyPerfTrampoline_SetCallbacks\<close> with a non-null argument that points at one of the two
  callback sets.
\<close>

definition PyPerfTrampoline_SetCallbacks :: "perf_state \<Rightarrow> sink \<Rightarrow> fault + (int \<times> perf_state)" where
  "PyPerfTrampoline_SetCallbacks st callbacks =
     bind_fault
       (if state (trampoline_api st) \<noteq> NULL then PyPerfTrampoline_Fini st else Inr (0, st))
       (\<lambda>(res, st).
          Inr (0, st\<lparr>trampoline_api :=
                       (trampoline_api st)\<lparr>init_state := Some callbacks,
                                             write_state := Some callbacks,
                                             free_state := Some callbacks,
                                             state := NULL\<rparr>\<rparr>))"

definition PyPerfTrampoline_Init ::
  "build \<Rightarrow> os_env \<Rightarrow> perf_state \<Rightarrow> int \<Rightarrow> fault + (int \<times> perf_state)" where
  "PyPerfTrampoline_Init b os st activate =
     (if eval_frame st \<noteq> Eval_NULL \<and> eval_frame st \<noteq> Eval_py_trampoline_evaluator
      then Inr (- 1, st)
      else if activate = 0 then
        Inr (0, (PyInterpreterState_SetEvalFrameFunc st Eval_NULL)
                  \<lparr>perf_status := PERF_STATUS_NO_INIT\<rparr>)
      else
        let st = PyInterpreterState_SetEvalFrameFunc st Eval_py_trampoline_evaluator in
        bind_fault (new_code_arena b os st) (\<lambda>(res, st).
          if res < 0 then Inr (- 1, st)
          else
            let st = st\<lparr>extra_code_index := request_extra_index os\<rparr> in
            if extra_code_index st = - 1 then Inr (- 1, st)
            else
              bind_fault
                (if state (trampoline_api st) = NULL \<and> init_state (trampoline_api st) \<noteq> None
                 then bind_fault (call_init_state (init_state (trampoline_api st)) os st)
                        (\<lambda>(ret, st). Inr (st\<lparr>trampoline_api := (trampoline_api st)\<lparr>state := ret\<rparr>\<rparr>))
                 else Inr st)
                (\<lambda>st. Inr (0, st\<lparr>perf_status := PERF_STATUS_OK\<rparr>))))"

definition PyPerfTrampoline_FreeArenas :: "perf_state \<Rightarrow> perf_state" where
  "PyPerfTrampoline_FreeArenas st = free_code_arenas st"

definition PyUnstable_PerfTrampoline_SetPersistAfterFork :: "perf_state \<Rightarrow> int \<Rightarrow> int \<times> perf_state" where
  "PyUnstable_PerfTrampoline_SetPersistAfterFork st enable = (enable, st\<lparr>persist_after_fork := enable\<rparr>)"

datatype PyStatus = PyStatus_Ok | PyStatus_Error string

definition PyPerfTrampoline_AfterFork_Child ::
  "build \<Rightarrow> os_env \<Rightarrow> perf_state \<Rightarrow> fault + (PyStatus \<times> perf_state)" where
  "PyPerfTrampoline_AfterFork_Child b os st =
     (if persist_after_fork st \<noteq> 0 then
        if perf_trampoline_type st \<noteq> PERF_TRAMPOLINE_TYPE_MAP
        then Inr (PyStatus_Error
                    ''Failed to copy perf map file as perf trampoline type is not type map.'', st)
        else
          bind_fault (PyPerfTrampoline_Fini st) (\<lambda>(res, st).
            let copied = PyUnstable_CopyPerfMapFile os st in
            if fst copied \<noteq> 0
            then Inr (PyStatus_Error ''Failed to copy perf map file.'', snd copied)
            else Inr (PyStatus_Ok, snd copied))
      else
        let was_active = PyIsPerfTrampolineActive st in
        bind_fault (PyPerfTrampoline_Fini st) (\<lambda>(res, st).
          if was_active
          then bind_fault (PyPerfTrampoline_Init b os st 1) (\<lambda>(res, st). Inr (PyStatus_Ok, st))
          else Inr (PyStatus_Ok, st)))"

section \<open>Concrete inputs and derived notions\<close>

text \<open>
  A build, an environment in which every system call succeeds, and a running subsystem with
  the perf map sink and one untouched arena: the inputs at which the theorems below are
  instantiated.
\<close>

definition example_build :: build where
  "example_build = \<lparr>target = X86_64, trampoline_template = replicate 120 0x90\<rparr>"

definition example_os :: os_env where
  "example_os =
     \<lparr>mmap_anon = Some 2097152, mprotect_res = 0, calloc_ok = True, malloc_ok = True,
      getpid = 4242, getppid = 4000, gettid = 4243, open_fd = 3, sysconf_pagesize = 4096,
      mmap_file = Addr 3145728, fdopen_ok = True, device_room = 1000000,
      allocate_lock_ok = True, stack_garbage = 0, stack_buffer = 8192,
      time_microseconds = 1700000000000000, monotonic_ticks_unwind = 5000,
      monotonic_ticks_load = 5001, request_extra_index = 0, set_extra_res = 0,
      copy_perf_map_res = 0\<rparr>"

definition example_arena :: code_arena_st where
  "example_arena = \<lparr>start_addr = 1048576, current_addr = 1048576, arena_size = 65536,
                     size_left = 65536, code_size = 120\<rparr>"

definition example_state :: perf_state where
  "example_state =
     \<lparr>perf_status = PERF_STATUS_OK, extra_code_index = 0, perf_code_arena = [example_arena],
      trampoline_api = \<lparr>init_state = Some Perfmap, write_state = Some Perfmap,
                         free_state = Some Perfmap, state = NULL, code_padding = 0\<rparr>,
      persist_after_fork = 0, perf_trampoline_type = PERF_TRAMPOLINE_TYPE_MAP,
      perf_jit_map_state = \<lparr>perf_map = FILE_NULL, map_lock = False, mapped_buffer = NULL,
                             mapped_size = 0, code_id = 0\<rparr>,
      eval_frame = Eval_py_trampoline_evaluator, co_extra = (\<lambda>k. None), mem = (\<lambda>a. 0),
      jit_stream = \<lparr>contents = [], room = 0\<rparr>, jit_stream_pid = 0,
      perf_map_file = Some 4242, perf_map_lines = (\<lambda>pid. []), write_state_calls = []\<rparr>"

text \<open>
  The slot size \<^verbatim>\<open>round_up(code_size + code_padding, 16)\<close> of a new arena, the memory after
  \<^verbatim>\<open>new_code_arena\<close> has copied the template into each of its slots, and the arena record it
  pushes.
\<close>

definition slot_size :: "build \<Rightarrow> perf_state \<Rightarrow> u64" where
  "slot_size b st =
     round_up (of_nat (length (trampoline_template b)) + code_padding (trampoline_api st)) 16"

definition populated :: "build \<Rightarrow> perf_state \<Rightarrow> nat \<Rightarrow> (nat \<Rightarrow> u8)" where
  "populated b st memory =
     fold (\<lambda>i m. memcpy m (memory + i * unat (slot_size b st)) (trampoline_template b))
       [0 ..< unat (65536 div slot_size b st)] (mem st)"

definition fresh_arena :: "build \<Rightarrow> nat \<Rightarrow> code_arena_st" where
  "fresh_arena b memory =
     \<lparr>start_addr = memory, current_addr = memory, arena_size = 65536, size_left = 65536,
      code_size = of_nat (length (trampoline_template b))\<rparr>"

text \<open>The example state when all but the last 128-byte slot of its arena have been handed out.\<close>

definition exact_fit_state :: perf_state where
  "exact_fit_state =
     example_state\<lparr>perf_code_arena :=
       [example_arena\<lparr>size_left := 128, current_addr := 1113984\<rparr>]\<rparr>"

text \<open>
  What a sink callback leaves alone: the arenas, the status, the hook, the extra slots, the
  trace and the memory.
\<close>

definition sink_frame :: "perf_state \<Rightarrow> perf_state \<Rightarrow> bool" where
  "sink_frame st st' =
     (co_extra st' = co_extra st \<and> extra_code_index st' = extra_code_index st
      \<and> write_state_calls st' = write_state_calls st
      \<and> perf_code_arena st' = perf_code_arena st \<and> perf_status st' = perf_status st
      \<and> eval_frame st' = eval_frame st \<and> mem st' = mem st
      \<and> persist_after_fork st' = persist_after_fork st
      \<and> write_state (trampoline_api st') = write_state (trampoline_api st)
      \<and> init_state (trampoline_api st') = init_state (trampoline_api st)
      \<and> free_state (trampoline_api st') = free_state (trampoline_api st))"

text \<open>More concrete inputs: a code object, a host, and environments in which one call fails.\<close>

definition example_co :: PyCodeObject where
  "example_co = \<lparr>co_ident = 7, co_qualname = Some ''f'', co_filename = Some ''a.py''\<rparr>"

definition example_host :: "(nat, PyCodeObject, int) host" where
  "example_host = \<lparr>PyEval_EvalFrameDefault = (\<lambda>ts frame throw. 42),
                    PyFrame_GetCode = (\<lambda>frame. frame)\<rparr>"

definition mprotect_fails_os :: os_env where
  "mprotect_fails_os = example_os\<lparr>mprotect_res := - 1\<rparr>"

definition attached_state :: perf_state where
  "attached_state = example_state\<lparr>co_extra := (\<lambda>k. if k = (7, 0) then Some 1048576 else None)\<rparr>"

definition mmap_fails_os :: os_env where
  "mmap_fails_os = example_os\<lparr>mmap_anon := None\<rparr>"

text \<open>
  The two records one call of \<^verbatim>\<open>perf_map_jit_write_entry\<close> writes, each as the bytes of its
  \<^verbatim>\<open>perf_map_jit_write_fully\<close> calls one after the other; the code-load record is built after
  \<^verbatim>\<open>code_id\<close> was incremented (\<open>next_code_id\<close>). \<open>append_to_stream\<close> is the state after the
  stream took some bytes.
\<close>

definition unwinding_info_record :: "build \<Rightarrow> os_env \<Rightarrow> u32 \<Rightarrow> u8 list" where
  "unwinding_info_record b os csize = concat (unwinding_info_writes b os csize)"

definition next_code_id :: "perf_state \<Rightarrow> perf_state" where
  "next_code_id st =
     st\<lparr>perf_jit_map_state :=
          (perf_jit_map_state st)\<lparr>code_id := code_id (perf_jit_map_state st) + 1\<rparr>\<rparr>"

definition code_load_record ::
  "os_env \<Rightarrow> perf_state \<Rightarrow> nat \<Rightarrow> u32 \<Rightarrow> PyCodeObject \<Rightarrow> u8 list" where
  "code_load_record os st code_addr csize co =
     concat (code_load_writes os (next_code_id st) code_addr csize co)"

definition append_to_stream :: "u8 list \<Rightarrow> perf_state \<Rightarrow> perf_state" where
  "append_to_stream bytes st =
     st\<lparr>jit_stream := (jit_stream st)\<lparr>contents := contents (jit_stream st) @ bytes,
                                          room := room (jit_stream st) - length bytes\<rparr>\<rparr>"

text \<open>
  How a consumer reads the dump: little-endian fields at the head of a byte string, the
  \<^verbatim>\<open>event\<close> and \<^verbatim>\<open>size\<close> fields every record starts with, the \<^verbatim>\<open>code_id\<close> field of a code-load
  record (at offset 48), and the split of a byte stream into records by their \<^verbatim>\<open>size\<close> fields
  (\<open>None\<close> when the stream does not split).
\<close>

definition read_u32 :: "u8 list \<Rightarrow> u32" where
  "read_u32 bs =
     word_cat (word_cat (bs ! 3) (bs ! 2) :: 16 word) (word_cat (bs ! 1) (bs ! 0) :: 16 word)"

definition read_u64 :: "u8 list \<Rightarrow> u64" where
  "read_u64 bs = word_cat (read_u32 (drop 4 bs)) (read_u32 bs)"

definition record_event :: "u8 list \<Rightarrow> u32" where
  "record_event r = read_u32 r"

definition record_size :: "u8 list \<Rightarrow> nat" where
  "record_size r = unat (read_u32 (drop 4 r))"

definition record_code_id :: "u8 list \<Rightarrow> u64" where
  "record_code_id r = read_u64 (drop 48 r)"

function jitdump_records :: "u8 list \<Rightarrow> u8 list list option" where
  "jitdump_records bs =
     (if bs = [] then Some []
      else if length bs < 16 then None
      else if record_size bs < 16 then None
      else if length bs < record_size bs then None
      else case jitdump_records (drop (record_size bs) bs) of
             None \<Rightarrow> None
           | Some rs \<Rightarrow> Some (take (record_size bs) bs # rs))"
  by pat_completeness auto
termination
  by (relation "measure length") auto

declare jitdump_records.simps [simp del]

definition jit_open_state :: perf_state where
  "jit_open_state =
     example_state
       \<lparr>trampoline_api := \<lparr>init_state = Some Jitdump, write_state = Some Jitdump,
                            free_state = Some Jitdump, state = Static_perf_jit_map_state,
                            code_padding = 0x100\<rparr>,
        perf_trampoline_type := PERF_TRAMPOLINE_UNSET,
        perf_jit_map_state := \<lparr>perf_map = FILE_open, map_lock = True,
                                mapped_buffer = Addr 3145728, mapped_size = 4096, code_id = 0\<rparr>,
        jit_stream := \<lparr>contents = replicate 40 0, room = 1000000\<rparr>,
        jit_stream_pid := 4242, perf_map_file := None\<rparr>"

text \<open>
  A sequence of calls of \<^verbatim>\<open>perf_map_jit_write_entry\<close>, each with what the system answers
  during it, and the records these calls write when none of them fails, in the order they
  are written.
\<close>

fun jit_write_entries ::
  "build \<Rightarrow> perf_state \<Rightarrow> (os_env \<times> nat \<times> u32 \<times> PyCodeObject) list \<Rightarrow> fault + perf_state" where
  "jit_write_entries b st [] = Inr st"
| "jit_write_entries b st ((os, code_addr, csize, co) # entries) =
     bind_fault (perf_map_jit_write_entry b os st code_addr csize co)
       (\<lambda>st. jit_write_entries b st entries)"

fun emitted_records ::
  "build \<Rightarrow> perf_state \<Rightarrow> (os_env \<times> nat \<times> u32 \<times> PyCodeObject) list \<Rightarrow> u8 list list" where
  "emitted_records b st [] = []"
| "emitted_records b st ((os, code_addr, csize, co) # entries) =
     (if \<not> malloc_ok os then emitted_records b st entries
      else
        unwinding_info_record b os csize # code_load_record os st code_addr csize co
          # emitted_records b
              (next_code_id (append_to_stream
                 (unwinding_info_record b os csize @ code_load_record os st code_addr csize co) st))
              entries)"

text \<open>
  The file header \<^verbatim>\<open>perf_map_jit_write_header\<close> builds, and the state a successful
  \<^verbatim>\<open>perf_map_jit_init\<close> leaves when the device takes the header.
\<close>

definition jit_header :: "os_env \<Rightarrow> u32 \<Rightarrow> Header" where
  "jit_header os pid =
     \<lparr>magic = 0x4A695444, version = 1, header_size = of_nat sizeof_Header,
      elf_mach_target = ucast GetElfMachineArchitecture,
      reserved = stack_garbage os, header_process_id = pid,
      header_time_stamp = time_microseconds os, flags = 0\<rparr>"

definition jit_initialised :: "os_env \<Rightarrow> perf_state \<Rightarrow> perf_state" where
  "jit_initialised os st =
     st\<lparr>perf_jit_map_state :=
          \<lparr>perf_map = FILE_open, map_lock = True, mapped_buffer = mmap_file os,
           mapped_size = of_int (sysconf_pagesize os), code_id = 0\<rparr>,
        jit_stream := \<lparr>contents = Header_image (jit_header os (getpid os)),
                        room = device_room os - 40\<rparr>,
        jit_stream_pid := getpid os,
        trampoline_api := (trampoline_api st)\<lparr>code_padding := PERF_JIT_CODE_PADDING\<rparr>\<rparr>"

text \<open>A process that has not opened its jitdump file yet, and three stubs to record, the second
  when no memory can be allocated.\<close>

definition jit_fresh_state :: perf_state where
  "jit_fresh_state =
     example_state
       \<lparr>trampoline_api := \<lparr>init_state = Some Jitdump, write_state = Some Jitdump,
                            free_state = Some Jitdump, state = NULL, code_padding = 0\<rparr>,
        perf_trampoline_type := PERF_TRAMPOLINE_UNSET, perf_map_file := None\<rparr>"

definition stub_entries :: "(os_env \<times> nat \<times> u32 \<times> PyCodeObject) list" where
  "stub_entries = [(example_os, 1048576, 96, example_co),
                   (example_os\<lparr>malloc_ok := False\<rparr>, 1048832, 96, example_co),
                   (example_os, 1049088, 96, example_co)]"

text \<open>
  A sequence of dispatches: \<^verbatim>\<open>py_trampoline_evaluator\<close> called for one frame after another, each call
  in its own environment, the state threaded through.
\<close>

fun dispatch_all ::
  "build \<Rightarrow> ('ts, 'fr, 'r) host \<Rightarrow> perf_state \<Rightarrow> (os_env \<times> 'ts \<times> 'fr \<times> int) list
     \<Rightarrow> fault + ('r eval_result list \<times> perf_state)" where
  "dispatch_all b h st [] = Inr ([], st)"
| "dispatch_all b h st ((os, ts, frame, throw) # calls) =
     bind_fault (py_trampoline_evaluator b h os st ts frame throw) (\<lambda>(r, st).
     bind_fault (dispatch_all b h st calls) (\<lambda>(rs, st). Inr (r # rs, st)))"

text \<open>
  The extra slot of a code object, the code object a call dispatches, and the addresses of
  the sink writes a trace holds for a code object.
\<close>

definition slot :: "perf_state \<Rightarrow> nat \<Rightarrow> py_trampoline" where
  "slot st c = co_extra st (c, extra_code_index st)"

definition dispatched_code :: "('ts, 'fr, 'r) host \<Rightarrow> os_env \<times> 'ts \<times> 'fr \<times> int \<Rightarrow> nat" where
  "dispatched_code h call = co_ident (PyFrame_GetCode h (fst (snd (snd call))))"

definition writes_for :: "nat \<Rightarrow> (nat \<times> u32 \<times> nat) list \<Rightarrow> nat list" where
  "writes_for c trace = map fst (filter (\<lambda>e. snd (snd e) = c) trace)"

definition three_calls :: "(os_env \<times> nat \<times> PyCodeObject \<times> int) list" where
  "three_calls = [(example_os, 0, example_co, 0), (example_os, 0, example_co, 0),
                  (example_os, 0, example_co, 0)]"

text \<open>The environment of a child process forked by the example process.\<close>

definition child_os :: os_env where
  "child_os = example_os\<lparr>getpid := 4300, getppid := 4242, gettid := 4300,
                         mmap_anon := Some 4194304\<rparr>"

text \<open>The example process with the jitdump sink, set to keep its perf data across a fork.\<close>

definition persisting_jit_state :: perf_state where
  "persisting_jit_state = jit_open_state\<lparr>persist_after_fork := 1\<rparr>"

text \<open>A process in which the trampoline was never switched on.\<close>

definition inactive_state :: perf_state where
  "inactive_state = example_state\<lparr>eval_frame := Eval_NULL, perf_status := PERF_STATUS_NO_INIT,
                                   perf_map_file := None\<rparr>"

text \<open>
  The system calls of \<^verbatim>\<open>new_code_arena\<close> succeed and map the arena at \<open>memory\<close>; those of
  \<^verbatim>\<open>perf_map_jit_init\<close> succeed and the device takes the 40-byte header.
\<close>

definition arena_calls_succeed :: "os_env \<Rightarrow> nat \<Rightarrow> bool" where
  "arena_calls_succeed os memory =
     (mmap_anon os = Some memory \<and> mprotect_res os \<noteq> - 1 \<and> calloc_ok os)"

definition jitdump_calls_succeed :: "os_env \<Rightarrow> bool" where
  "jitdump_calls_succeed os =
     (open_fd os \<noteq> - 1 \<and> sysconf_pagesize os \<noteq> - 1 \<and> mmap_file os \<noteq> NULL
      \<and> fdopen_ok os \<and> allocate_lock_ok os \<and> 40 \<le> device_room os)"

text \<open>
  The example state with two slots left in its arena, a second code object, and three
  dispatches: of the first code object, of the second while \<^verbatim>\<open>mmap\<close> fails, and of the first
  again.
\<close>

definition two_slots_state :: perf_state where
  "two_slots_state =
     example_state\<lparr>perf_code_arena :=
       [example_arena\<lparr>size_left := 256, current_addr := 1113856\<rparr>]\<rparr>"

definition other_co :: PyCodeObject where
  "other_co = \<lparr>co_ident = 8, co_qualname = Some ''g'', co_filename = Some ''a.py''\<rparr>"

definition calls_around_failure :: "(os_env \<times> nat \<times> PyCodeObject \<times> int) list" where
  "calls_around_failure = [(example_os, 0, example_co, 0), (mmap_fails_os, 0, other_co, 0),
                           (example_os, 0, example_co, 0)]"

definition state_after_failure :: perf_state where
  "state_after_failure =
     two_slots_state
       \<lparr>perf_code_arena := [example_arena\<lparr>size_left := 128, current_addr := 1113984\<rparr>],
        write_state_calls := [(1113856, 120, 7)],
        perf_map_lines := (perf_map_lines two_slots_state)
                            (4242 := [(1113856, 120, ''py::f:a.py'')]),
        co_extra := (co_extra two_slots_state)((7, 0) := Some 1113856),
        perf_status := PERF_STATUS_FAILED\<rparr>"

text \<open>The state before each dispatch of a sequence (up to the first one that does not return).\<close>

fun states_before ::
  "build \<Rightarrow> ('ts, 'fr, 'r) host \<Rightarrow> perf_state \<Rightarrow> (os_env \<times> 'ts \<times> 'fr \<times> int) list
     \<Rightarrow> perf_state list" where
  "states_before b h st [] = []"
| "states_before b h st ((os, ts, frame, throw) # calls) =
     st # (case py_trampoline_evaluator b h os st ts frame throw of
             Inl e \<Rightarrow> []
           | Inr (r, st1) \<Rightarrow> states_before b h st1 calls)"

text \<open>An environment in which \<^verbatim>\<open>_PyCode_SetExtra\<close> fails, and the example state after a
  compilation in it.\<close>

definition set_extra_fails_os :: os_env where
  "set_extra_fails_os = example_os\<lparr>set_extra_res := - 1\<rparr>"

definition compiled_unattached_state :: perf_state where
  "compiled_unattached_state =
     example_state
       \<lparr>perf_code_arena := [example_arena\<lparr>size_left := 65408, current_addr := 1048704\<rparr>],
        write_state_calls := [(1048576, 120, 7)],
        perf_map_lines := (perf_map_lines example_state)
                            (4242 := [(1048576, 120, ''py::f:a.py'')])\<rparr>"

section \<open>Properties of \<^verbatim>\<open>round_up\<close>\<close>

lemma smod_nonneg: "0 \<le> a \<Longrightarrow> 0 < b \<Longrightarrow> a smod b = a mod (b::int)"
  by (simp add: signed_modulo_int_def sgn_if)

lemma sint_u64_cases:
  "sint (v::u64) = (if uint v < 9223372036854775808 then uint v else uint v - 18446744073709551616)"
proof -
  have c: "0 \<le> uint v" "uint v < 18446744073709551616"
    using uint_lt2p [of v] by simp_all
  have s: "sint v = (uint v + 9223372036854775808) mod 18446744073709551616 - 9223372036854775808"
    by (simp add: sint_uint signed_take_bit_eq_take_bit_shift take_bit_eq_mod)
  show ?thesis
    unfolding s using mod_add_wrap [OF c, of 9223372036854775808] by (simp split: if_splits)
qed

lemma uint_of_nonneg_sint: "0 \<le> sint (x::u64) \<Longrightarrow> uint x = sint x"
proof -
  have "uint x < 18446744073709551616"
    using uint_lt2p [of x] by simp
  then show "0 \<le> sint x \<Longrightarrow> uint x = sint x"
    by (simp add: sint_u64_cases split: if_splits)
qed

lemma round_up_int:
  assumes x: "0 \<le> sint x" and m: "0 < sint m"
  shows "uint (round_up x m) =
           (if sint x mod sint m = 0 then sint x else sint x + (sint m - sint x mod sint m))"
proof -
  let ?r = "sint x mod sint m"
  have r: "0 \<le> ?r" "?r < sint m" using m by simp_all
  have mlt: "sint m < 9223372036854775808" using sint_lt [of m] by simp
  have xlt: "sint x < 9223372036854775808" using sint_lt [of x] by simp
  have m0: "m \<noteq> 0" using m by auto
  have rw: "((word_of_int ?r :: u64) = 0) = (?r = 0)"
  proof -
    have "?r < 18446744073709551616" using r mlt by linarith
    then have "(18446744073709551616 dvd ?r) = (?r = 0)"
      using r(1) zdvd_not_zless [of ?r 18446744073709551616] by auto
    then show ?thesis
      by (simp add: word_of_int_eq_0_iff take_bit_eq_mod)
  qed
  show ?thesis
  proof (cases "?r = 0")
    case True
    then show ?thesis
      using x m m0 by (simp add: round_up_def smod_nonneg uint_of_nonneg_sint)
  next
    case False
    have "x + (m - word_of_int ?r) = word_of_int (sint x + (sint m - ?r))"
      by simp
    then have "uint (x + (m - word_of_int ?r)) = (sint x + (sint m - ?r)) mod 2 ^ 64"
      by (simp only: uint_word_of_int) simp
    also have "\<dots> = sint x + (sint m - ?r)"
      using x r mlt xlt by (simp add: mod_pos_pos_trivial)
    finally show ?thesis
      using False x m m0 rw by (simp add: round_up_def smod_nonneg Let_def)
  qed
qed

text \<open>
  C9, as amended. For a value \<open>x \<ge> 0\<close> and a multiple \<open>m > 0\<close> (both as the \<^verbatim>\<open>int64_t\<close>
  arguments), the \<^verbatim>\<open>size_t\<close> that \<^verbatim>\<open>round_up\<close> returns is at least \<open>x\<close> and is a multiple of \<open>m\<close>; and
  \<^verbatim>\<open>round_up(x, 0)\<close> returns \<open>x\<close> unchanged, for every \<open>x\<close>.
\<close>

theorem round_up_nonneg:
  "(0 \<le> sint x \<and> 0 < sint m \<longrightarrow>
      sint x \<le> uint (round_up x m) \<and> uint (round_up x m) mod sint m = 0)
   \<and> round_up x 0 = x"
proof -
  have "sint x \<le> uint (round_up x m) \<and> uint (round_up x m) mod sint m = 0"
    if x: "0 \<le> sint x" and m: "0 < sint m"
  proof -
    let ?r = "sint x mod sint m"
    have r: "0 \<le> ?r" "?r < sint m" using m by simp_all
    show ?thesis
    proof (cases "?r = 0")
      case True
      then show ?thesis using round_up_int [OF x m] by simp
    next
      case False
      have "sint m * (sint x div sint m) + ?r = sint x"
        by (rule mult_div_mod_eq)
      then have "sint x + (sint m - ?r) = sint m * (sint x div sint m + 1)"
        by (simp add: algebra_simps)
      then have "(sint x + (sint m - ?r)) mod sint m = 0"
        by (simp only: mod_mult_self1_is_0)
      then show ?thesis
        using False r round_up_int [OF x m] by simp
    qed
  qed
  moreover have "round_up x 0 = x"
    by (simp add: round_up_def)
  ultimately show ?thesis by blast
qed

theorem round_up_nonneg_witness:
  "0 \<le> sint (100 :: u64) \<and> 0 < sint (16 :: u64)
   \<and> sint (100 :: u64) \<le> uint (round_up 100 16) \<and> uint (round_up 100 16) mod sint (16 :: u64) = 0
   \<and> round_up 100 0 = 100"
  using round_up_nonneg [of 100 16] by simp

text \<open>
  C9 as stated fails for a negative value: \<^verbatim>\<open>round_up(-3, 3)\<close> finds the remainder 0 and
  returns \<open>-3\<close> converted to \<^verbatim>\<open>size_t\<close>, which is \<open>2 ^ 64 - 3\<close> and leaves the remainder 1 when
  divided by 3.
\<close>

theorem round_up_negative_counterexample:
  "0 < sint (3 :: u64) \<and> uint (round_up (- 3) 3) = 18446744073709551613
   \<and> uint (round_up (- 3) 3) mod sint (3 :: u64) = 1"
  by (simp add: round_up_def signed_modulo_int_def)

section \<open>Properties of the LEB128 encoders\<close>

lemma mask7: "(0x7f :: 'a::len word) = mask 7"
  by (simp add: mask_eq_exp_minus_1)

lemma unat_low7_u32: "unat ((v::u32) AND 0x7f) = unat v mod 128"
proof -
  have "unat (v AND mask 7) = take_bit 7 (unat v)"
    by (simp only: unsigned_take_bit_eq flip: take_bit_eq_mask)
  then show ?thesis
    by (simp add: mask7 take_bit_eq_mod)
qed

lemma unat_low7_u8: "unat ((b::u8) AND 0x7f) = unat b mod 128"
proof -
  have "unat (b AND mask 7) = take_bit 7 (unat b)"
    by (simp only: unsigned_take_bit_eq flip: take_bit_eq_mask)
  then show ?thesis
    by (simp add: mask7 take_bit_eq_mod)
qed

lemma or_0x80_is_add: "((v::u32) AND 0x7f) OR 0x80 = (v AND 0x7f) + 0x80"
proof -
  have "(v AND 0x7f) AND 0x80 = v AND (0x7f AND 0x80)"
    by (simp only: and.assoc)
  then have "(v AND 0x7f) AND 0x80 = 0"
    by simp
  then show ?thesis
    by (simp add: disjunctive_add_eq_or)
qed

lemma unat_continuation_byte:
  "unat (ucast (((v::u32) AND 0x7f) OR 0x80) :: u8) = unat v mod 128 + 128"
proof -
  have "unat ((v AND 0x7f) + 0x80) = unat v mod 128 + 128"
    by (simp add: unat_word_ariths unat_low7_u32)
  then show ?thesis
    by (simp add: or_0x80_is_add unsigned_ucast_eq take_bit_eq_mod)
qed

lemma unat_last_sleb_byte: "unat (ucast ((v::u32) AND 0x7f) :: u8) = unat v mod 128"
  by (simp add: unsigned_ucast_eq take_bit_eq_mod unat_low7_u32)

lemma unat_last_uleb_byte: "(v::u32) < 0x80 \<Longrightarrow> unat (ucast v :: u8) = unat v"
  by (simp add: unsigned_ucast_eq take_bit_eq_mod word_less_nat_alt)

lemma unat_mod128_sint: "int (unat (v::u32) mod 128) = sint v mod 128"
proof -
  have "sint v mod 2 ^ 7 = take_bit 7 (signed_take_bit 31 (uint v))"
    by (simp add: sint_uint take_bit_eq_mod)
  also have "\<dots> = take_bit 7 (uint v)"
    by (simp add: take_bit_signed_take_bit)
  also have "\<dots> = int (unat v mod 128)"
    by (simp add: take_bit_eq_mod zmod_int)
  finally show ?thesis by simp
qed

lemma uleb128_roundtrip: "uleb128_decode (uleb128_bytes v @ rest) = Some (unat v, rest)"
proof (induction v rule: uleb128_bytes.induct)
  case (1 v)
  show ?case
  proof (cases "v \<ge> 0x80")
    case True
    let ?b = "ucast ((v AND 0x7f) OR 0x80) :: u8"
    have b: "unat ?b = unat v mod 128 + 128" by (rule unat_continuation_byte)
    then have nb: "\<not> ?b < 0x80" by (simp add: word_less_nat_alt)
    have "unat (?b AND 0x7f) = unat v mod 128"
      by (simp only: unat_low7_u8 b) simp
    moreover have "unat (drop_bit 7 v) = unat v div 128"
      by (simp add: unat_drop_bit_eq drop_bit_eq_div unat_div)
    ultimately show ?thesis
      using True nb "1.IH" [OF True]
      by (subst uleb128_bytes.simps) simp
  next
    case False
    then have "v < 0x80" by simp
    then show ?thesis
      using False by (subst uleb128_bytes.simps) (simp add: unat_last_uleb_byte word_less_nat_alt)
  qed
qed

lemma sleb128_roundtrip: "sleb128_decode (sleb128_bytes v @ rest) = Some (sint v, rest)"
proof (induction v rule: sleb128_bytes.induct)
  case (1 v)
  show ?case
  proof (cases "v + 0x40 \<ge> 0x80")
    case True
    let ?b = "ucast ((v AND 0x7f) OR 0x80) :: u8"
    have b: "unat ?b = unat v mod 128 + 128" by (rule unat_continuation_byte)
    then have nb: "\<not> ?b < 0x80" by (simp add: word_less_nat_alt)
    have "unat (?b AND 0x7f) = unat v mod 128"
      by (simp only: unat_low7_u8 b) simp
    then have "int (unat (?b AND 0x7f)) = sint v mod 128"
      by (simp only: unat_mod128_sint)
    then have "uint (?b AND 0x7f) = sint v mod 128"
      by simp
    moreover have "sint (signed_drop_bit 7 v) = sint v div 128"
      by (simp add: sint_signed_drop_bit_eq drop_bit_eq_div)
    ultimately show ?thesis
      using True nb "1.IH" [OF True]
      by (subst sleb128_bytes.simps) simp
  next
    case False
    then have r: "- 64 \<le> sint v" "sint v < 64"
      by (simp_all add: sleb128_continue_iff)
    let ?b = "ucast (v AND 0x7f) :: u8"
    have "unat ?b = unat v mod 128" by (rule unat_last_sleb_byte)
    then have "int (unat ?b) = sint v mod 128"
      by (simp only: unat_mod128_sint)
    then have u: "uint ?b = sint v mod 128"
      by simp
    have lt: "?b < 0x80"
      using u by (simp add: word_less_def)
    have "(if ?b \<ge> 0x40 then uint ?b - 128 else uint ?b) = sint v"
    proof (cases "0 \<le> sint v")
      case True
      then have "sint v mod 128 = sint v" using r by simp
      then show ?thesis using u r True by (simp add: word_le_def)
    next
      case False
      have "(sint v + 128) mod 128 = sint v + 128"
      proof (rule mod_pos_pos_trivial)
        show "0 \<le> sint v + 128" using r by linarith
        show "sint v + 128 < 128" using False by linarith
      qed
      then have "sint v mod 128 = sint v + 128"
        by (simp only: mod_add_self2)
      then show ?thesis using u r False by (simp add: word_le_def)
    qed
    then show ?thesis
      using False lt by (subst sleb128_bytes.simps) simp
  qed
qed

text \<open>
  C8. Whatever the emitter has stored so far, the bytes \<^verbatim>\<open>elfctx_append_uleb128\<close> appends for a
  \<^verbatim>\<open>uint32_t\<close> \<open>v\<close> decode, by standard unsigned LEB128 decoding, to the value of \<open>v\<close> (any value
  in \<open>[0, 2 ^ 32)\<close>), and the bytes \<^verbatim>\<open>elfctx_append_sleb128\<close> appends for an \<^verbatim>\<open>int32_t\<close> \<open>w\<close> decode,
  by standard signed LEB128 decoding, to the value of \<open>w\<close> (any value in \<open>[-2 ^ 31, 2 ^ 31)\<close>); in
  both cases the decoder stops exactly at the end of the appended bytes.
\<close>

theorem leb128_decode_encode:
  "uleb128_decode (drop (length (obj ctx)) (obj (elfctx_append_uleb128 ctx v)) @ rest)
     = Some (unat v, rest)
   \<and> sleb128_decode (drop (length (obj ctx)) (obj (elfctx_append_sleb128 ctx w)) @ rest)
     = Some (sint w, rest)
   \<and> take (length (obj ctx)) (obj (elfctx_append_uleb128 ctx v)) = obj ctx
   \<and> take (length (obj ctx)) (obj (elfctx_append_sleb128 ctx w)) = obj ctx"
  by (simp add: elfctx_append_uleb128_def elfctx_append_sleb128_def
      uleb128_roundtrip sleb128_roundtrip)

section \<open>Properties of the code arena\<close>

lemma new_code_arena_mmap_failed:
  "mmap_anon os = None \<Longrightarrow>
   new_code_arena b os st = Inr (- 1, st\<lparr>perf_status := PERF_STATUS_FAILED\<rparr>)"
  by (simp add: new_code_arena_def)

lemma new_code_arena_later_failure:
  "mmap_anon os = Some memory \<Longrightarrow> slot_size b st \<noteq> 0 \<Longrightarrow>
   mprotect_res os = - 1 \<or> \<not> calloc_ok os \<Longrightarrow>
   new_code_arena b os st = Inr (- 1, st)"
  by (auto simp add: new_code_arena_def slot_size_def Let_def)

lemma new_code_arena_ok:
  "mmap_anon os = Some memory \<Longrightarrow> slot_size b st \<noteq> 0 \<Longrightarrow> mprotect_res os \<noteq> - 1 \<Longrightarrow>
   calloc_ok os \<Longrightarrow>
   new_code_arena b os st =
     Inr (0, st\<lparr>mem := populated b st memory,
               perf_code_arena := fresh_arena b memory # perf_code_arena st\<rparr>)"
  by (simp add: new_code_arena_def slot_size_def populated_def fresh_arena_def Let_def)

lemma compile_trampoline_no_arena:
  "compile_trampoline b os (st\<lparr>perf_code_arena := []\<rparr>) = Inl Null_dereference"
  by (simp add: compile_trampoline_def)

lemma compile_trampoline_from_head:
  assumes "perf_code_arena st = head # prev"
    and "\<not> size_left head \<le> round_up (code_size head + code_padding (trampoline_api st)) 16"
  shows "compile_trampoline b os st =
    Inr (Some (current_addr head),
         st\<lparr>perf_code_arena :=
              head\<lparr>size_left := size_left head
                         - round_up (code_size head + code_padding (trampoline_api st)) 16,
                    current_addr := current_addr head
                         + unat (round_up (code_size head + code_padding (trampoline_api st)) 16)\<rparr>
              # prev\<rparr>)"
  using assms
  by (simp add: compile_trampoline_def new_code_in_head_def code_arena_new_code_def Let_def)

lemma compile_trampoline_new_arena:
  assumes "perf_code_arena st = head # prev"
    and "size_left head \<le> round_up (code_size head + code_padding (trampoline_api st)) 16"
    and "mmap_anon os = Some memory" "slot_size b st \<noteq> 0" "mprotect_res os \<noteq> - 1" "calloc_ok os"
  shows "compile_trampoline b os st =
    Inr (Some memory,
         st\<lparr>mem := populated b st memory,
            perf_code_arena :=
              (fresh_arena b memory)\<lparr>size_left := 65536 - slot_size b st,
                    current_addr := memory + unat (slot_size b st)\<rparr>
              # head # prev\<rparr>)"
  using assms new_code_arena_ok [OF assms(3-6)]
  by (simp add: compile_trampoline_def bind_fault_def new_code_in_head_def
      code_arena_new_code_def Let_def fresh_arena_def slot_size_def)

lemma compile_trampoline_fails:
  assumes "perf_code_arena st = head # prev"
    and "size_left head \<le> round_up (code_size head + code_padding (trampoline_api st)) 16"
    and "new_code_arena b os st = Inr (- 1, st')"
  shows "compile_trampoline b os st = Inr (None, st')"
  using assms by (simp add: compile_trampoline_def bind_fault_def Let_def)

text \<open>
  C1: what \<^verbatim>\<open>compile_trampoline\<close> does with a head arena (and a working \<^verbatim>\<open>mmap\<close>, \<^verbatim>\<open>mprotect\<close>,
  \<^verbatim>\<open>PyMem_RawCalloc\<close>). It maps a new arena and returns that arena's first slot exactly when
  \<open>size_left \<le> S\<close>, and returns the head arena's cursor exactly when \<open>size_left > S\<close>. So with
  \<open>size_left = S\<close>, where the claim promises the last slot of the head arena, the code leaves
  that slot unused and maps a new arena.
\<close>

theorem compile_trampoline_allocation_rule:
  assumes "perf_code_arena st = head # prev"
    and "mmap_anon os = Some memory" "slot_size b st \<noteq> 0" "mprotect_res os \<noteq> - 1" "calloc_ok os"
  shows "\<exists>st'. compile_trampoline b os st =
            Inr (Some (if size_left head \<le> round_up (code_size head + code_padding (trampoline_api st)) 16
                       then memory else current_addr head), st')
          \<and> length (perf_code_arena st') =
              (if size_left head \<le> round_up (code_size head + code_padding (trampoline_api st)) 16
               then Suc (length (perf_code_arena st)) else length (perf_code_arena st))"
proof (cases "size_left head \<le> round_up (code_size head + code_padding (trampoline_api st)) 16")
  case True
  show ?thesis
    using True assms(1) compile_trampoline_new_arena [OF assms(1) True assms(2-5)] by simp
next
  case False
  show ?thesis
    using False assms(1) compile_trampoline_from_head [OF assms(1) False] by simp
qed

lemma round_up_120_16: "round_up 120 16 = 128"
  by (simp add: round_up_def signed_modulo_int_def)

theorem compile_trampoline_allocation_rule_witness:
  "\<exists>st'. compile_trampoline example_build example_os exact_fit_state = Inr (Some 2097152, st')
        \<and> length (perf_code_arena st') = 2"
proof -
  let ?head = "example_arena\<lparr>size_left := 128, current_addr := 1113984\<rparr>"
  have h1: "perf_code_arena exact_fit_state = ?head # []"
    by (simp add: exact_fit_state_def)
  have h2: "mmap_anon example_os = Some 2097152"
    by (simp add: example_os_def)
  have h3: "slot_size example_build exact_fit_state \<noteq> 0"
    by (simp add: slot_size_def example_build_def exact_fit_state_def example_state_def
        round_up_120_16)
  have h4: "mprotect_res example_os \<noteq> - 1"
    by (simp add: example_os_def)
  have h5: "calloc_ok example_os"
    by (simp add: example_os_def)
  have full: "size_left ?head
                \<le> round_up (code_size ?head + code_padding (trampoline_api exact_fit_state)) 16"
    by (simp add: example_arena_def exact_fit_state_def example_state_def round_up_120_16)
  have len: "length (perf_code_arena exact_fit_state) = 1"
    by (simp add: h1)
  show ?thesis
    using compile_trampoline_allocation_rule [OF h1 h2 h3 h4 h5]
    by (simp only: full if_True len) (simp add: numeral_2_eq_2)
qed

section \<open>What the sinks leave unchanged\<close>

lemma bind_fault_Inr:
  "(bind_fault m k = Inr y) = (\<exists>x. m = Inr x \<and> k x = Inr y)"
  by (cases m) (simp_all add: bind_fault_def)

lemma bind_fault_Inl:
  "(bind_fault m k = Inl e) = (m = Inl e \<or> (\<exists>x. m = Inr x \<and> k x = Inl e))"
  by (cases m) (simp_all add: bind_fault_def)

lemma sink_frame_refl: "sink_frame st st"
  by (simp add: sink_frame_def)

lemma sink_frame_trans: "sink_frame a b \<Longrightarrow> sink_frame b c \<Longrightarrow> sink_frame a c"
  by (simp add: sink_frame_def)

lemma write_fully_frame:
  "perf_map_jit_write_fully buffer st = Inr st' \<Longrightarrow> sink_frame st st'"
  by (auto simp: perf_map_jit_write_fully_def sink_frame_def split: if_splits FILE_ptr.splits)

lemma write_header_frame:
  "perf_map_jit_write_header os pid st = Inr st' \<Longrightarrow> sink_frame st st'"
  by (simp add: perf_map_jit_write_header_def write_fully_frame)

lemma jit_init_frame:
  "perf_map_jit_init os st = Inr (ret, st') \<Longrightarrow> sink_frame st st'"
  apply (simp add: perf_map_jit_init_def Let_def bind_fault_Inr split: if_splits)
       apply (auto simp: sink_frame_def dest!: write_header_frame)
  done

lemma write_all_frame:
  "write_all buffers st = Inr st' \<Longrightarrow> sink_frame st st'"
proof (induction buffers arbitrary: st)
  case Nil
  then show ?case by (simp add: sink_frame_refl)
next
  case (Cons buffer buffers)
  then show ?case
    by (auto simp: bind_fault_Inr dest!: write_fully_frame intro: sink_frame_trans)
qed

lemma sink_frame_jit_state:
  "sink_frame st st' \<Longrightarrow> sink_frame st (st'\<lparr>perf_jit_map_state := js\<rparr>)"
  by (simp add: sink_frame_def)

lemma jit_write_entry_frame:
  assumes "perf_map_jit_write_entry b os st a cs co = Inr st'"
  shows "sink_frame st st'"
proof -
  from assms obtain initialised st1 where
    i: "(if perf_map (perf_jit_map_state st) = FILE_NULL
         then bind_fault (perf_map_jit_init os st) (\<lambda>(ret, st). Inr (ret \<noteq> NULL, st))
         else Inr (True, st)) = Inr (initialised, st1)"
    and rest: "(if \<not> initialised then Inr st1
          else if \<not> malloc_ok os then Inr st1
          else
            bind_fault (write_all (unwinding_info_writes b os cs) st1) (\<lambda>st.
              let st = st\<lparr>perf_jit_map_state :=
                           (perf_jit_map_state st)\<lparr>code_id := code_id (perf_jit_map_state st) + 1\<rparr>\<rparr>
              in write_all (code_load_writes os st a cs co) st)) = Inr st'"
    by (auto simp: perf_map_jit_write_entry_def bind_fault_Inr)
  have f1: "sink_frame st st1"
    using i by (auto simp: bind_fault_Inr sink_frame_refl split: if_splits dest: jit_init_frame)
  have "sink_frame st1 st'"
    using rest
    by (auto simp: bind_fault_Inr Let_def sink_frame_refl split: if_splits
        dest!: write_all_frame simp: sink_frame_def)
  then show ?thesis using f1 by (rule sink_frame_trans [rotated])
qed

lemma perf_map_write_entry_frame: "sink_frame st (perf_map_write_entry os st a cs co)"
  by (simp add: perf_map_write_entry_def PyUnstable_WritePerfMapEntry_def sink_frame_def
      split: option.splits)

lemma call_write_state_effect:
  assumes "call_write_state fn b os st a cs co = Inr st'"
  shows "sink_frame (st\<lparr>write_state_calls := write_state_calls st @ [(a, cs, co_ident co)]\<rparr>) st'"
  using assms
  by (auto simp: call_write_state_def Let_def perf_map_write_entry_frame
      split: option.splits sink.splits dest: jit_write_entry_frame)

section \<open>Properties of the dispatch\<close>

lemma new_code_arena_frame:
  "new_code_arena b os st = Inr (res, st') \<Longrightarrow>
   co_extra st' = co_extra st \<and> extra_code_index st' = extra_code_index st
   \<and> write_state_calls st' = write_state_calls st \<and> trampoline_api st' = trampoline_api st
   \<and> (perf_status st' = perf_status st \<or> perf_status st' = PERF_STATUS_FAILED)"
  by (auto simp: new_code_arena_def Let_def split: option.splits if_splits)

lemma new_code_in_head_frame:
  "new_code_in_head st = Inr (res, st') \<Longrightarrow>
   co_extra st' = co_extra st \<and> extra_code_index st' = extra_code_index st
   \<and> write_state_calls st' = write_state_calls st \<and> trampoline_api st' = trampoline_api st
   \<and> perf_status st' = perf_status st \<and> res \<noteq> None"
  by (auto simp: new_code_in_head_def Let_def split: list.splits)

lemma compile_trampoline_frame:
  assumes "compile_trampoline b os st = Inr (res, st')"
  shows "co_extra st' = co_extra st \<and> extra_code_index st' = extra_code_index st
   \<and> write_state_calls st' = write_state_calls st \<and> trampoline_api st' = trampoline_api st
   \<and> (perf_status st' = perf_status st \<or> perf_status st' = PERF_STATUS_FAILED)"
  using assms
  by (auto simp: compile_trampoline_def Let_def bind_fault_Inr
      split: list.splits if_splits dest!: new_code_arena_frame new_code_in_head_frame)

lemma evaluator_not_ok:
  "perf_status st \<noteq> PERF_STATUS_OK \<Longrightarrow>
   py_trampoline_evaluator b h os st ts frame throw =
     Inr (\<lparr>returned = PyEval_EvalFrameDefault h ts frame throw, entered_through = None\<rparr>, st)"
  by (cases "perf_status st") (simp_all add: py_trampoline_evaluator_def)

lemma evaluator_reuse:
  "perf_status st = PERF_STATUS_OK \<Longrightarrow>
   co_extra st (co_ident (PyFrame_GetCode h frame), extra_code_index st) = Some f \<Longrightarrow>
   py_trampoline_evaluator b h os st ts frame throw =
     Inr (call_trampoline f ts frame throw (PyEval_EvalFrameDefault h), st)"
  by (simp add: py_trampoline_evaluator_def PyCode_GetExtra_def Let_def)

lemma evaluator_compile_failed:
  "perf_status st = PERF_STATUS_OK \<Longrightarrow>
   co_extra st (co_ident (PyFrame_GetCode h frame), extra_code_index st) = None \<Longrightarrow>
   compile_trampoline b os st = Inr (None, st') \<Longrightarrow>
   py_trampoline_evaluator b h os st ts frame throw =
     Inr (\<lparr>returned = PyEval_EvalFrameDefault h ts frame throw, entered_through = None\<rparr>, st')"
  by (simp add: py_trampoline_evaluator_def PyCode_GetExtra_def Let_def bind_fault_def)

lemma evaluator_compiled:
  "perf_status st = PERF_STATUS_OK \<Longrightarrow>
   co_extra st (co_ident (PyFrame_GetCode h frame), extra_code_index st) = None \<Longrightarrow>
   compile_trampoline b os st = Inr (Some t, st1) \<Longrightarrow>
   head_code_size st1 = Inr cs \<Longrightarrow>
   call_write_state (write_state (trampoline_api st1)) b os st1 t cs (PyFrame_GetCode h frame)
     = Inr st2 \<Longrightarrow>
   py_trampoline_evaluator b h os st ts frame throw =
     Inr (call_trampoline t ts frame throw (PyEval_EvalFrameDefault h),
          snd (PyCode_SetExtra os st2 (PyFrame_GetCode h frame) (extra_code_index st2) (Some t)))"
  by (simp add: py_trampoline_evaluator_def PyCode_GetExtra_def Let_def bind_fault_def)

text \<open>
  C2: a dispatch that needs a new arena while \<^verbatim>\<open>mmap\<close> works and \<^verbatim>\<open>mprotect\<close> or
  \<^verbatim>\<open>PyMem_RawCalloc\<close> fails. \<^verbatim>\<open>new_code_arena\<close> returns -1 and the dispatch falls back to the
  default evaluator, but nothing in the state changes: the status stays \<open>Ok\<close> where the
  claim says \<open>Failed\<close>.
\<close>

theorem dispatch_when_mprotect_or_calloc_fails:
  assumes "perf_status st = PERF_STATUS_OK"
    and "co_extra st (co_ident (PyFrame_GetCode h frame), extra_code_index st) = None"
    and "perf_code_arena st = head # prev"
    and "size_left head \<le> round_up (code_size head + code_padding (trampoline_api st)) 16"
    and "mmap_anon os = Some memory" and "slot_size b st \<noteq> 0"
    and "mprotect_res os = - 1 \<or> \<not> calloc_ok os"
  shows "new_code_arena b os st = Inr (- 1, st)
    \<and> py_trampoline_evaluator b h os st ts frame throw =
        Inr (\<lparr>returned = PyEval_EvalFrameDefault h ts frame throw, entered_through = None\<rparr>, st)
    \<and> perf_status st \<noteq> PERF_STATUS_FAILED"
proof -
  have n: "new_code_arena b os st = Inr (- 1, st)"
    using assms(5-7) by (rule new_code_arena_later_failure)
  have "compile_trampoline b os st = Inr (None, st)"
    using assms(3,4) n by (rule compile_trampoline_fails)
  then show ?thesis
    using n assms(1,2) evaluator_compile_failed [OF assms(1,2)] by simp
qed

theorem dispatch_when_mprotect_or_calloc_fails_witness:
  "new_code_arena example_build mprotect_fails_os exact_fit_state = Inr (- 1, exact_fit_state)
   \<and> py_trampoline_evaluator example_build example_host mprotect_fails_os exact_fit_state
        0 example_co 0
      = Inr (\<lparr>returned = 42, entered_through = None\<rparr>, exact_fit_state)
   \<and> perf_status exact_fit_state = PERF_STATUS_OK"
proof -
  let ?head = "example_arena\<lparr>size_left := 128, current_addr := 1113984\<rparr>"
  have h1: "perf_status exact_fit_state = PERF_STATUS_OK"
    by (simp add: exact_fit_state_def example_state_def)
  have h2: "co_extra exact_fit_state
              (co_ident (PyFrame_GetCode example_host example_co),
               extra_code_index exact_fit_state) = None"
    by (simp add: exact_fit_state_def example_state_def)
  have h3: "perf_code_arena exact_fit_state = ?head # []"
    by (simp add: exact_fit_state_def)
  have h4: "size_left ?head
              \<le> round_up (code_size ?head + code_padding (trampoline_api exact_fit_state)) 16"
    by (simp add: example_arena_def exact_fit_state_def example_state_def round_up_120_16)
  have h5: "mmap_anon mprotect_fails_os = Some 2097152"
    by (simp add: mprotect_fails_os_def example_os_def)
  have h6: "slot_size example_build exact_fit_state \<noteq> 0"
    by (simp add: slot_size_def example_build_def exact_fit_state_def example_state_def
        round_up_120_16)
  have h7: "mprotect_res mprotect_fails_os = - 1 \<or> \<not> calloc_ok mprotect_fails_os"
    by (simp add: mprotect_fails_os_def)
  show ?thesis
    using dispatch_when_mprotect_or_calloc_fails
      [OF h1 h2 h3 h4 h5 h6 h7, of 0 0] h1
    by (simp add: example_host_def)
qed

text \<open>
  C5: with no arena at all (\<^verbatim>\<open>perf_code_arena == NULL\<close>) \<^verbatim>\<open>compile_trampoline\<close> does not get as far
  as its test for that case. Its first statement reads \<^verbatim>\<open>perf_code_arena->code_size\<close>, a read
  through the null pointer, whatever the operating system would answer.
\<close>

theorem compile_trampoline_absent_head:
  "compile_trampoline b os (st\<lparr>perf_code_arena := []\<rparr>) = Inl Null_dereference"
  by (simp add: compile_trampoline_def)

lemma CompileCode_attached:
  "co_extra st (co_ident co, extra_code_index st) \<noteq> None \<Longrightarrow>
   PyUnstable_PerfTrampoline_CompileCode b os st co = Inr (0, st)"
  by (auto simp: PyUnstable_PerfTrampoline_CompileCode_def PyCode_GetExtra_def Let_def)

lemma CompileCode_unfold:
  "co_extra st (co_ident co, extra_code_index st) = None \<Longrightarrow>
   PyUnstable_PerfTrampoline_CompileCode b os st co =
     bind_fault (compile_trampoline b os st) (\<lambda>(new_trampoline, st).
       case new_trampoline of
         None \<Rightarrow> Inr (0, st)
       | Some t \<Rightarrow>
           bind_fault (head_code_size st) (\<lambda>csize.
           bind_fault (call_write_state (write_state (trampoline_api st)) b os st t csize co)
             (\<lambda>st. Inr (PyCode_SetExtra os st co (extra_code_index st) (Some t)))))"
  by (simp add: PyUnstable_PerfTrampoline_CompileCode_def PyCode_GetExtra_def Let_def)

section \<open>Properties of the jitdump sink\<close>

lemma write_loop_Nil: "write_loop [] out_file = out_file"
  by (subst write_loop.simps) simp

lemma write_loop_ok:
  assumes "length buffer \<le> room out_file"
  shows "write_loop buffer out_file =
           out_file\<lparr>contents := contents out_file @ buffer,
                    room := room out_file - length buffer\<rparr>"
proof (cases "buffer = []")
  case True
  then show ?thesis by (simp add: write_loop_Nil)
next
  case False
  then show ?thesis
    using assms
    by (subst write_loop.simps) (simp add: fwrite_def Let_def min_def write_loop_Nil)
qed

lemma write_fully_ok:
  assumes "perf_map (perf_jit_map_state st) = FILE_open"
    and "length buffer \<le> room (jit_stream st)"
  shows "perf_map_jit_write_fully buffer st =
           Inr (st\<lparr>jit_stream := (jit_stream st)\<lparr>contents := contents (jit_stream st) @ buffer,
                                   room := room (jit_stream st) - length buffer\<rparr>\<rparr>)"
  using assms by (simp add: perf_map_jit_write_fully_def write_loop_ok)

lemma write_all_ok:
  assumes "perf_map (perf_jit_map_state st) = FILE_open"
    and "length (concat buffers) \<le> room (jit_stream st)"
  shows "write_all buffers st =
           Inr (st\<lparr>jit_stream := (jit_stream st)\<lparr>contents := contents (jit_stream st) @ concat buffers,
                                   room := room (jit_stream st) - length (concat buffers)\<rparr>\<rparr>)"
  using assms
proof (induction buffers arbitrary: st)
  case Nil
  then show ?case by simp
next
  case (Cons buffer buffers)
  let ?st1 = "st\<lparr>jit_stream := (jit_stream st)\<lparr>contents := contents (jit_stream st) @ buffer,
                                   room := room (jit_stream st) - length buffer\<rparr>\<rparr>"
  have w: "perf_map_jit_write_fully buffer st = Inr ?st1"
    using Cons.prems by (intro write_fully_ok) simp_all
  have "write_all buffers ?st1 =
           Inr (?st1\<lparr>jit_stream := (jit_stream ?st1)\<lparr>contents := contents (jit_stream ?st1) @ concat buffers,
                                   room := room (jit_stream ?st1) - length (concat buffers)\<rparr>\<rparr>)"
    using Cons.prems by (intro Cons.IH) simp_all
  then show ?case
    using w by (simp add: bind_fault_def)
qed

lemma uleb128_small:
  assumes "v < 0x80"
  shows "uleb128_bytes v = [ucast v]"
proof -
  have "\<not> 0x80 \<le> v" using assms by simp
  then show ?thesis by (subst uleb128_bytes.simps) simp
qed

lemma sleb128_minus8: "sleb128_bytes (- 8) = [0x78]"
  by (subst sleb128_bytes.simps) simp

lemma length_DWRF_ALIGNNOP: "length (DWRF_ALIGNNOP p) = (8 - p mod 8) mod 8"
proof (induction p rule: DWRF_ALIGNNOP.induct)
  case (1 p)
  show ?case
  proof (cases "p mod 8 = 0")
    case True
    then show ?thesis by (subst DWRF_ALIGNNOP.simps) simp
  next
    case False
    have s: "Suc p mod 8 = (if p mod 8 = 7 then 0 else Suc (p mod 8))"
      by (simp add: mod_Suc)
    have "length (DWRF_ALIGNNOP p) = Suc (length (DWRF_ALIGNNOP (Suc p)))"
      using False by (subst DWRF_ALIGNNOP.simps) simp
    also have "\<dots> = Suc ((8 - Suc p mod 8) mod 8)"
      using "1.IH" [OF False] by simp
    also have "\<dots> = (8 - p mod 8) mod 8"
      using False s by (auto split: if_splits)
    finally show ?thesis .
  qed
qed

lemma length_le32 [simp]: "length (le32 w) = 4"
  by (simp add: le32_def)

lemma length_le64 [simp]: "length (le64 w) = 8"
  by (simp add: le64_def)

lemma length_BaseEvent_image [simp]: "length (BaseEvent_image e) = 16"
  by (simp add: BaseEvent_image_def)

lemma length_CodeLoadEvent_image [simp]: "length (CodeLoadEvent_image e) = 56"
  by (simp add: CodeLoadEvent_image_def)

lemma length_CodeUnwindingInfoEvent_image [simp]: "length (CodeUnwindingInfoEvent_image e) = 40"
  by (simp add: CodeUnwindingInfoEvent_image_def)

lemma length_EhFrameHeader_image [simp]: "length (EhFrameHeader_image e) = 20"
  by (simp add: EhFrameHeader_image_def)

lemma length_Header_image [simp]: "length (Header_image e) = 40"
  by (simp add: Header_image_def)

lemma length_cie_fields: "length (cie_fields a) = 18"
  by (cases a)
     (simp_all add: cie_fields_def DWRF_U32_def DWRF_U8_def DWRF_STR_def DWRF_UV_def DWRF_SV_def
       uleb128_small sleb128_minus8)

lemma length_fde_fields: "length (fde_fields a cs framep p) = (case a of X86_64 \<Rightarrow> 19 | AARCH64 \<Rightarrow> 25)"
  by (cases a)
     (simp_all add: fde_fields_def DWRF_U32_def DWRF_U8_def DWRF_UV_def uleb128_small)

lemma length_DWRF_ALIGNNOP_le: "length (DWRF_ALIGNNOP p) \<le> 7"
  by (simp add: length_DWRF_ALIGNNOP)

lemma length_DWRF_SECTION: "length (DWRF_SECTION p stmt) = 4 + length (stmt (p + 4))"
  by (simp add: DWRF_SECTION_def Let_def DWRF_U32_def)

lemma sum3_le_39: "x \<le> 7 \<Longrightarrow> y \<le> 25 \<Longrightarrow> z \<le> 7 \<Longrightarrow> x + (y + z) \<le> (39::nat)"
  by linarith

lemma eh_frame_size_bound:
  "length (obj (elf_init_ehframe a \<lparr>startp = sp, obj = [], eh_frame_p = ep, ctx_code_size = cs\<rparr>))
     \<le> 65"
proof -
  have f: "\<And>framep p. length (fde_fields a cs framep p) \<le> 25"
    by (cases a) (simp_all add: length_fde_fields)
  show ?thesis
    by (simp add: elf_init_ehframe_def Let_def length_DWRF_SECTION length_cie_fields)
       (rule sum3_le_39; simp add: f length_DWRF_ALIGNNOP_le)
qed

lemma write_all_appends:
  assumes "perf_map (perf_jit_map_state st) = FILE_open"
    and "length (concat buffers) \<le> room (jit_stream st)"
  shows "write_all buffers st = Inr (append_to_stream (concat buffers) st)"
  using write_all_ok [OF assms] by (simp add: append_to_stream_def)

lemma jit_write_entry_ok:
  assumes op: "perf_map (perf_jit_map_state st) = FILE_open"
    and m: "malloc_ok os"
    and r: "length (unwinding_info_record b os cs) + length (code_load_record os st a cs co)
              \<le> room (jit_stream st)"
  shows "perf_map_jit_write_entry b os st a cs co =
           Inr (next_code_id
                  (append_to_stream
                     (unwinding_info_record b os cs @ code_load_record os st a cs co) st))"
proof -
  let ?U = "unwinding_info_record b os cs"
  let ?L = "code_load_record os st a cs co"
  have w1: "write_all (unwinding_info_writes b os cs) st = Inr (append_to_stream ?U st)"
    unfolding unwinding_info_record_def
    using r by (intro write_all_appends op) (simp add: unwinding_info_record_def)
  let ?st2 = "next_code_id (append_to_stream ?U st)"
  have same: "code_load_writes os ?st2 a cs co = code_load_writes os (next_code_id st) a cs co"
    by (simp add: code_load_writes_def next_code_id_def append_to_stream_def)
  have c2: "concat (code_load_writes os ?st2 a cs co) = ?L"
    by (simp only: code_load_record_def same)
  have r2: "room (jit_stream ?st2) = room (jit_stream st) - length ?U"
    by (simp add: next_code_id_def append_to_stream_def)
  have op2: "perf_map (perf_jit_map_state ?st2) = FILE_open"
    using op by (simp add: next_code_id_def append_to_stream_def)
  have room2: "length (concat (code_load_writes os ?st2 a cs co)) \<le> room (jit_stream ?st2)"
    unfolding c2 r2 using r by linarith
  have w2: "write_all (code_load_writes os ?st2 a cs co) ?st2 = Inr (append_to_stream ?L ?st2)"
    using write_all_appends [OF op2 room2] by (simp only: c2)
  have e: "append_to_stream ?L ?st2 = next_code_id (append_to_stream (?U @ ?L) st)"
    by (simp add: next_code_id_def append_to_stream_def)
  have "perf_map_jit_write_entry b os st a cs co
          = write_all (code_load_writes os ?st2 a cs co) ?st2"
    using op m w1
    by (simp add: perf_map_jit_write_entry_def bind_fault_def Let_def next_code_id_def)
  then show ?thesis
    by (simp only: w2 e)
qed

lemma sint_of_nat_u64:
  assumes "n < 9223372036854775808"
  shows "sint (of_nat n :: u64) = int n"
proof -
  have "unat (of_nat n :: u64) = n"
    using assms by (simp add: unat_of_nat)
  then have "uint (of_nat n :: u64) = int n"
    by (simp only: uint_nat)
  then show ?thesis
    using assms by (simp only: sint_u64_cases) simp
qed

lemma round_up_8_of_nat:
  assumes "n < 4611686018427387904"
  shows "unat (round_up (of_nat n) 8) = (if n mod 8 = 0 then n else n + (8 - n mod 8))"
proof -
  have s: "sint (of_nat n :: u64) = int n"
    using assms by (intro sint_of_nat_u64) simp
  have "uint (round_up (of_nat n) 8) =
          (if int n mod 8 = 0 then int n else int n + (8 - int n mod 8))"
    using round_up_int [of "of_nat n :: u64" 8] by (simp add: s)
  then have "int (unat (round_up (of_nat n) 8)) =
          (if int n mod 8 = 0 then int n else int n + (8 - int n mod 8))"
    by simp
  also have "\<dots> = int (if n mod 8 = 0 then n else n + (8 - n mod 8))"
  proof -
    have z: "int n mod 8 = int (n mod 8)" by (simp add: zmod_int)
    have m: "n mod 8 < 8" by simp
    have e: "int n + (8 - int (n mod 8)) = int (n + (8 - n mod 8))"
      using m by linarith
    show ?thesis
    proof (cases "n mod 8 = 0")
      case True
      then show ?thesis by (simp add: z)
    next
      case False
      then show ?thesis by (simp only: z e of_nat_eq_0_iff if_False)
    qed
  qed
  finally show ?thesis by (simp only: of_nat_eq_iff)
qed

lemma round_up_8_props:
  assumes "n < 4611686018427387904"
  shows "n \<le> unat (round_up (of_nat n) 8)" "unat (round_up (of_nat n) 8) - n \<le> 7"
    "8 dvd unat (round_up (of_nat n) 8)"
proof -
  have m: "n mod 8 < 8" by simp
  show "n \<le> unat (round_up (of_nat n) 8)"
    unfolding round_up_8_of_nat [OF assms] using m by (cases "n mod 8 = 0") simp_all
  show "unat (round_up (of_nat n) 8) - n \<le> 7"
    unfolding round_up_8_of_nat [OF assms] using m by (cases "n mod 8 = 0") simp_all
  show "8 dvd unat (round_up (of_nat n) 8)"
  proof (cases "n mod 8 = 0")
    case True
    then show ?thesis by (simp add: round_up_8_of_nat [OF assms] dvd_eq_mod_eq_0)
  next
    case False
    have "n + (8 - n mod 8) = 8 * (n div 8) + 8"
      using m mult_div_mod_eq [of 8 n] by linarith
    then show ?thesis using False by (simp add: round_up_8_of_nat [OF assms])
  qed
qed

lemma read_le32: "read_u32 (le32 w @ rest) = w"
  unfolding read_u32_def le32_def
  by (rule bit_word_eqI) (auto simp: bit_simps nth_append)

lemma read_le64: "read_u64 (le64 w @ rest) = w"
  unfolding read_u64_def read_u32_def le64_def
  by (rule bit_word_eqI) (auto simp: bit_simps nth_append)

lemma record_fields_of_BaseEvent:
  "record_event (BaseEvent_image base @ rest) = event base"
  "record_size (BaseEvent_image base @ rest) = unat (event_size base)"
  by (simp_all add: record_event_def record_size_def BaseEvent_image_def read_le32)

lemma record_code_id_of_CodeLoadEvent:
  "record_code_id (CodeLoadEvent_image ev @ rest) = load_code_id ev"
  by (simp add: record_code_id_def CodeLoadEvent_image_def BaseEvent_image_def read_le64)

lemma unwinding_info_record_shape:
  "record_event (unwinding_info_record b os cs) = 4
   \<and> record_size (unwinding_info_record b os cs) = length (unwinding_info_record b os cs)
   \<and> 8 dvd length (unwinding_info_record b os cs)
   \<and> 16 \<le> length (unwinding_info_record b os cs)
   \<and> length (unwinding_info_record b os cs) \<le> 132"
proof -
  define E where "E = length (obj (elf_init_ehframe (target b)
                  \<lparr>startp = stack_buffer os, obj = [], eh_frame_p = stack_buffer os,
                   ctx_code_size = cs\<rparr>))"
  define total where "total = unat (round_up (60 + of_nat E) 8)"
  have E: "E \<le> 65" unfolding E_def by (rule eh_frame_size_bound)
  have small: "60 + E < 4611686018427387904" using E by linarith
  have eq: "(of_nat (60 + E) :: u64) = 60 + of_nat E" by simp
  note p = round_up_8_props [OF small, unfolded eq, folded total_def]
  have len: "length (unwinding_info_record b os cs) = total"
    using p(1,2)
    by (simp add: unwinding_info_record_def unwinding_info_writes_def Let_def
        sizeof_CodeUnwindingInfoEvent_def sizeof_EhFrameHeader_def
        total_def [symmetric] E_def [symmetric])
  have t: "total \<le> 132" using p(2) E by linarith
  have sz: "record_size (unwinding_info_record b os cs) = total"
    using p(1) t
    by (simp add: unwinding_info_record_def unwinding_info_writes_def Let_def
        sizeof_CodeUnwindingInfoEvent_def sizeof_EhFrameHeader_def
        total_def [symmetric] E_def [symmetric] CodeUnwindingInfoEvent_image_def
        record_fields_of_BaseEvent unat_of_nat)
  have ev: "record_event (unwinding_info_record b os cs) = 4"
    by (simp add: unwinding_info_record_def unwinding_info_writes_def Let_def
        CodeUnwindingInfoEvent_image_def record_fields_of_BaseEvent)
  show ?thesis
    using len sz ev p t by simp
qed

lemma unat_ucast_u32_u64: "unat (ucast (cs::u32) :: u64) = unat cs"
proof -
  have "unat cs < 4294967296"
    using unsigned_less [of cs, where ?'a = nat] by simp
  then show ?thesis
    by (simp add: unsigned_ucast_eq take_bit_eq_mod)
qed

lemma code_load_record_shape:
  "record_event (code_load_record os st a cs co) = 0
   \<and> length (code_load_record os st a cs co) = 57 + length (perf_map_entry_of co) + unat cs
   \<and> record_size (code_load_record os st a cs co)
       = (57 + length (perf_map_entry_of co) + unat cs) mod 4294967296
   \<and> record_code_id (code_load_record os st a cs co)
       = scast (code_id (perf_jit_map_state st) + 1)"
proof -
  have ev: "record_event (code_load_record os st a cs co) = 0"
    by (simp add: code_load_record_def code_load_writes_def Let_def CodeLoadEvent_image_def
        record_fields_of_BaseEvent)
  have len: "length (code_load_record os st a cs co)
               = 57 + length (perf_map_entry_of co) + unat cs"
    by (simp add: code_load_record_def code_load_writes_def Let_def read_bytes_def
        unat_ucast_u32_u64)
  define k where "k = sizeof_CodeLoadEvent + (length (perf_map_entry_of co) + 1)
                        + unat (ucast cs :: u64)"
  have k: "k = 57 + length (perf_map_entry_of co) + unat cs"
    by (simp add: k_def sizeof_CodeLoadEvent_def unat_ucast_u32_u64)
  have "\<exists>rest. code_load_record os st a cs co
          = BaseEvent_image \<lparr>event = 0, event_size = of_nat k,
                             time_stamp = monotonic_ticks_load os\<rparr> @ rest"
    by (simp add: code_load_record_def code_load_writes_def Let_def CodeLoadEvent_image_def k_def)
  then obtain rest where "code_load_record os st a cs co
          = BaseEvent_image \<lparr>event = 0, event_size = of_nat k,
                             time_stamp = monotonic_ticks_load os\<rparr> @ rest"
    by blast
  then have "record_size (code_load_record os st a cs co) = unat (of_nat k :: u32)"
    by (simp only: record_fields_of_BaseEvent BaseEvent.simps)
  then have sz: "record_size (code_load_record os st a cs co)
              = (57 + length (perf_map_entry_of co) + unat cs) mod 4294967296"
    by (simp only: unat_of_nat k) simp
  have id: "record_code_id (code_load_record os st a cs co)
              = scast (code_id (perf_jit_map_state st) + 1)"
    by (simp add: code_load_record_def code_load_writes_def Let_def
        record_code_id_of_CodeLoadEvent next_code_id_def)
  show ?thesis using ev len sz id by simp
qed

text \<open>
  C3, as amended. When the stream is open, the name buffer can be allocated and the device
  takes the bytes, \<^verbatim>\<open>perf_map_jit_write_entry\<close> appends exactly two records to the dump. The
  first is an \<^verbatim>\<open>UnwindingInfo\<close> record (event 4) whose \<^verbatim>\<open>size\<close> field is its length in bytes,
  and that length is a multiple of 8. The second is a \<^verbatim>\<open>CodeLoad\<close> record (event 0) of
  \<open>56 + (name length + 1) + stub size\<close> bytes, with no padding, whose \<^verbatim>\<open>size\<close> field is that
  length (modulo \<open>2 ^ 32\<close>, the width of the field).
\<close>

theorem jitdump_entry_records:
  assumes "perf_map (perf_jit_map_state st) = FILE_open" and "malloc_ok os"
    and "length (unwinding_info_record b os cs) + length (code_load_record os st a cs co)
           \<le> room (jit_stream st)"
  shows "(\<exists>st'. perf_map_jit_write_entry b os st a cs co = Inr st'
            \<and> contents (jit_stream st')
                = contents (jit_stream st) @ unwinding_info_record b os cs
                    @ code_load_record os st a cs co)
       \<and> record_event (unwinding_info_record b os cs) = 4
       \<and> record_size (unwinding_info_record b os cs) = length (unwinding_info_record b os cs)
       \<and> 8 dvd length (unwinding_info_record b os cs)
       \<and> record_event (code_load_record os st a cs co) = 0
       \<and> length (code_load_record os st a cs co)
           = 56 + (length (perf_map_entry_of co) + 1) + unat cs
       \<and> record_size (code_load_record os st a cs co)
           = length (code_load_record os st a cs co) mod 4294967296"
proof -
  have "contents (jit_stream (next_code_id (append_to_stream
           (unwinding_info_record b os cs @ code_load_record os st a cs co) st)))
        = contents (jit_stream st) @ unwinding_info_record b os cs
            @ code_load_record os st a cs co"
    by (simp add: next_code_id_def append_to_stream_def)
  then have "\<exists>st'. perf_map_jit_write_entry b os st a cs co = Inr st'
            \<and> contents (jit_stream st')
                = contents (jit_stream st) @ unwinding_info_record b os cs
                    @ code_load_record os st a cs co"
    using jit_write_entry_ok [OF assms] by simp
  then show ?thesis
    using unwinding_info_record_shape [of b os cs] code_load_record_shape [of os st a cs co]
    by simp
qed

lemma perf_map_entry_of_example: "perf_map_entry_of example_co = ''py::f:a.py''"
  by (simp add: perf_map_entry_of_def example_co_def utf8_or_empty_def c_string_def)

lemma jit_open_state_ready:
  "perf_map (perf_jit_map_state jit_open_state) = FILE_open"
  "room (jit_stream jit_open_state) = 1000000"
  "malloc_ok example_os"
  by (simp_all add: jit_open_state_def example_os_def)

lemma example_entry_fits:
  "length (unwinding_info_record example_build example_os 96)
     + length (code_load_record example_os jit_open_state 1048576 96 example_co)
   \<le> room (jit_stream jit_open_state)"
  using unwinding_info_record_shape [of example_build example_os 96]
    code_load_record_shape [of example_os jit_open_state 1048576 96 example_co]
  by (simp add: jit_open_state_ready perf_map_entry_of_example)

theorem jitdump_entry_records_witness:
  "(\<exists>st'. perf_map_jit_write_entry example_build example_os jit_open_state 1048576 96 example_co
             = Inr st'
          \<and> contents (jit_stream st')
              = contents (jit_stream jit_open_state)
                  @ unwinding_info_record example_build example_os 96
                  @ code_load_record example_os jit_open_state 1048576 96 example_co)
   \<and> record_size (unwinding_info_record example_build example_os 96)
       = length (unwinding_info_record example_build example_os 96)
   \<and> 8 dvd length (unwinding_info_record example_build example_os 96)
   \<and> record_size (code_load_record example_os jit_open_state 1048576 96 example_co) = 163"
  using jitdump_entry_records [OF jit_open_state_ready(1,3) example_entry_fits]
  by (simp add: perf_map_entry_of_example)

text \<open>
  C3 as stated fails for the code-load record: for the code object \<open>f\<close> of \<open>a.py\<close> and a
  96-byte stub the record is \<open>56 + 11 + 96 = 163\<close> bytes long, and its \<^verbatim>\<open>size\<close> field says so;
  163 is not a multiple of 8.
\<close>

theorem code_load_record_not_aligned_counterexample:
  "perf_map_jit_write_entry example_build example_os jit_open_state 1048576 96 example_co
     = Inr (next_code_id (append_to_stream
              (unwinding_info_record example_build example_os 96
               @ code_load_record example_os jit_open_state 1048576 96 example_co) jit_open_state))
   \<and> record_event (code_load_record example_os jit_open_state 1048576 96 example_co) = 0
   \<and> length (code_load_record example_os jit_open_state 1048576 96 example_co) = 163
   \<and> record_size (code_load_record example_os jit_open_state 1048576 96 example_co) = 163
   \<and> \<not> 8 dvd length (code_load_record example_os jit_open_state 1048576 96 example_co)"
  using jit_write_entry_ok [OF jit_open_state_ready(1,3) example_entry_fits]
    code_load_record_shape [of example_os jit_open_state 1048576 96 example_co]
  by (simp add: perf_map_entry_of_example)

section \<open>The code ids of a jitdump file\<close>

lemma jit_write_entry_no_buffer:
  "perf_map (perf_jit_map_state st) = FILE_open \<Longrightarrow> \<not> malloc_ok os \<Longrightarrow>
   perf_map_jit_write_entry b os st a cs co = Inr st"
  by (simp add: perf_map_jit_write_entry_def bind_fault_def)

lemma jit_write_entries_ok:
  assumes "perf_map (perf_jit_map_state st) = FILE_open"
    and "length (concat (emitted_records b st es)) \<le> room (jit_stream st)"
  shows "\<exists>st'. jit_write_entries b st es = Inr st'
           \<and> contents (jit_stream st') = contents (jit_stream st) @ concat (emitted_records b st es)"
  using assms
proof (induction es arbitrary: st)
  case Nil
  then show ?case by simp
next
  case (Cons e es)
  obtain os a cs co where e: "e = (os, a, cs, co)" by (cases e) auto
  show ?case
  proof (cases "malloc_ok os")
    case False
    have w: "perf_map_jit_write_entry b os st a cs co = Inr st"
      using Cons.prems(1) False by (rule jit_write_entry_no_buffer)
    have fit: "length (concat (emitted_records b st es)) \<le> room (jit_stream st)"
      using Cons.prems(2) False by (simp add: e)
    from Cons.IH [OF Cons.prems(1) fit] show ?thesis
      using w False by (simp add: e bind_fault_def)
  next
    case True
    let ?U = "unwinding_info_record b os cs"
    let ?L = "code_load_record os st a cs co"
    let ?st1 = "next_code_id (append_to_stream (?U @ ?L) st)"
    have fit: "length ?U + length ?L \<le> room (jit_stream st)"
      using Cons.prems(2) True by (simp add: e)
    have w: "perf_map_jit_write_entry b os st a cs co = Inr ?st1"
      using Cons.prems(1) True fit by (intro jit_write_entry_ok)
    have op1: "perf_map (perf_jit_map_state ?st1) = FILE_open"
      using Cons.prems(1) by (simp add: next_code_id_def append_to_stream_def)
    have r1: "room (jit_stream ?st1) = room (jit_stream st) - (length ?U + length ?L)"
      by (simp add: next_code_id_def append_to_stream_def)
    have c1: "contents (jit_stream ?st1) = contents (jit_stream st) @ ?U @ ?L"
      by (simp add: next_code_id_def append_to_stream_def)
    have fit1: "length (concat (emitted_records b ?st1 es)) \<le> room (jit_stream ?st1)"
      unfolding r1 using Cons.prems(2) True by (simp add: e)
    from Cons.IH [OF op1 fit1] obtain st' where
      "jit_write_entries b ?st1 es = Inr st'"
      "contents (jit_stream st') = contents (jit_stream ?st1) @ concat (emitted_records b ?st1 es)"
      by blast
    then show ?thesis
      using w c1 True by (simp add: e bind_fault_def)
  qed
qed

lemma read_u32_append: "4 \<le> length xs \<Longrightarrow> read_u32 (xs @ ys) = read_u32 xs"
  by (auto simp: read_u32_def nth_append)

lemma record_size_append:
  assumes "8 \<le> length r"
  shows "record_size (r @ rest) = record_size r"
proof -
  have "drop 4 (r @ rest) = drop 4 r @ rest" using assms by simp
  moreover have "4 \<le> length (drop 4 r)" using assms by simp
  ultimately show ?thesis
    by (simp only: record_size_def read_u32_append)
qed

lemma jitdump_records_Nil: "jitdump_records [] = Some []"
  by (subst jitdump_records.simps) simp

lemma jitdump_records_Cons:
  assumes "16 \<le> length r" and "record_size r = length r"
  shows "jitdump_records (r @ rest) =
           (case jitdump_records rest of None \<Rightarrow> None | Some rs \<Rightarrow> Some (r # rs))"
proof -
  have s: "record_size (r @ rest) = length r"
    using assms by (simp add: record_size_append)
  have "r \<noteq> []" using assms(1) by auto
  then show ?thesis
    using assms(1) by (subst jitdump_records.simps) (simp add: s split: option.splits)
qed

lemma jitdump_records_emitted:
  assumes "\<forall>e\<in>set es. 57 + length (perf_map_entry_of (snd (snd (snd e)))) + unat (fst (snd (snd e)))
                          < 4294967296"
  shows "jitdump_records (concat (emitted_records b st es)) = Some (emitted_records b st es)"
  using assms
proof (induction es arbitrary: st)
  case Nil
  then show ?case by (simp add: jitdump_records_Nil)
next
  case (Cons e es)
  obtain os a cs co where e: "e = (os, a, cs, co)" by (cases e) auto
  show ?case
  proof (cases "malloc_ok os")
    case False
    then show ?thesis
      using Cons.prems by (simp add: e Cons.IH)
  next
    case True
    let ?U = "unwinding_info_record b os cs"
    let ?L = "code_load_record os st a cs co"
    let ?st1 = "next_code_id (append_to_stream (?U @ ?L) st)"
    have small: "57 + length (perf_map_entry_of co) + unat cs < 4294967296"
      using Cons.prems by (simp add: e)
    have U: "16 \<le> length ?U" "record_size ?U = length ?U"
      using unwinding_info_record_shape [of b os cs] by simp_all
    have L: "16 \<le> length ?L" "record_size ?L = length ?L"
      using code_load_record_shape [of os st a cs co] small by simp_all
    have IH: "jitdump_records (concat (emitted_records b ?st1 es)) = Some (emitted_records b ?st1 es)"
      using Cons.prems by (intro Cons.IH) simp
    have "jitdump_records (?L @ concat (emitted_records b ?st1 es))
            = Some (?L # emitted_records b ?st1 es)"
      by (simp add: jitdump_records_Cons [OF L] IH)
    then have "jitdump_records (?U @ ?L @ concat (emitted_records b ?st1 es))
            = Some (?U # ?L # emitted_records b ?st1 es)"
      by (simp add: jitdump_records_Cons [OF U])
    then show ?thesis using True by (simp add: e)
  qed
qed

lemma code_id_after_entry:
  "code_id (perf_jit_map_state (next_code_id (append_to_stream bytes st)))
     = code_id (perf_jit_map_state st) + 1"
  by (simp add: next_code_id_def append_to_stream_def)

lemma emitted_code_ids:
  "map record_code_id (filter (\<lambda>r. record_event r = 0) (emitted_records b st es))
     = map (\<lambda>i. scast (code_id (perf_jit_map_state st) + 1 + of_nat i))
         [0 ..< length (filter (\<lambda>e. malloc_ok (fst e)) es)]"
proof (induction es arbitrary: st)
  case Nil
  then show ?case by simp
next
  case (Cons e es)
  obtain os a cs co where e: "e = (os, a, cs, co)" by (cases e) auto
  let ?n = "length (filter (\<lambda>e. malloc_ok (fst e)) es)"
  show ?case
  proof (cases "malloc_ok os")
    case False
    then show ?thesis
      by (simp add: e Cons.IH)
  next
    case True
    let ?U = "unwinding_info_record b os cs"
    let ?L = "code_load_record os st a cs co"
    let ?st1 = "next_code_id (append_to_stream (?U @ ?L) st)"
    let ?c = "code_id (perf_jit_map_state st)"
    have U: "record_event ?U \<noteq> 0"
      using unwinding_info_record_shape [of b os cs] by simp
    have L: "record_event ?L = 0" "record_code_id ?L = scast (?c + 1)"
      using code_load_record_shape [of os st a cs co] by simp_all
    have "map record_code_id (filter (\<lambda>r. record_event r = 0) (emitted_records b ?st1 es))
            = map (\<lambda>i. scast (?c + 1 + 1 + of_nat i)) [0 ..< ?n]"
      by (simp only: Cons.IH code_id_after_entry)
    also have "\<dots> = map (\<lambda>i. scast (?c + 1 + of_nat i)) (map Suc [0 ..< ?n])"
      by (simp add: ac_simps)
    finally have tl: "map record_code_id (filter (\<lambda>r. record_event r = 0) (emitted_records b ?st1 es))
            = map (\<lambda>i. scast (?c + 1 + of_nat i)) (map Suc [0 ..< ?n])" .
    have "[0 ..< Suc ?n] = 0 # map Suc [0 ..< ?n]"
      by (simp add: upt_conv_Cons map_Suc_upt del: upt_Suc)
    then show ?thesis
      using U L tl True by (simp add: e del: upt_Suc)
  qed
qed

lemma scast_of_nat_small:
  assumes "k < 2147483648"
  shows "(scast (of_nat k :: u32) :: u64) = of_nat k"
proof -
  have "unat (of_nat k :: u32) = k"
    using assms by (simp add: unat_of_nat)
  then have "uint (of_nat k :: u32) = int k"
    by (simp only: uint_nat)
  then have "sint (of_nat k :: u32) = int k"
    using assms by (simp only: sint_u32_cases) simp
  then show ?thesis
    by (simp add: scast_eq)
qed

lemma jit_write_header_ok:
  assumes "perf_map (perf_jit_map_state st) = FILE_open" and "40 \<le> room (jit_stream st)"
  shows "perf_map_jit_write_header os pid st
           = Inr (append_to_stream (Header_image (jit_header os pid)) st)"
  using write_fully_ok [OF assms(1), of "Header_image (jit_header os pid)"] assms(2)
  by (simp add: perf_map_jit_write_header_def jit_header_def append_to_stream_def)

lemma jit_init_ok:
  assumes "open_fd os \<noteq> - 1" "sysconf_pagesize os \<noteq> - 1" "mmap_file os \<noteq> NULL"
    "fdopen_ok os" "allocate_lock_ok os" "40 \<le> device_room os"
  shows "perf_map_jit_init os st = Inr (Static_perf_jit_map_state, jit_initialised os st)"
proof -
  let ?st3 = "st\<lparr>perf_jit_map_state :=
                   (perf_jit_map_state st)\<lparr>mapped_buffer := mmap_file os,
                      mapped_size := of_int (sysconf_pagesize os), perf_map := FILE_open\<rparr>,
                 jit_stream := \<lparr>contents = [], room = device_room os\<rparr>,
                 jit_stream_pid := getpid os\<rparr>"
  have h: "perf_map_jit_write_header os (getpid os) ?st3
             = Inr (append_to_stream (Header_image (jit_header os (getpid os))) ?st3)"
    using assms(6) by (intro jit_write_header_ok) simp_all
  show ?thesis
    using assms h
    by (simp add: perf_map_jit_init_def Let_def bind_fault_def jit_initialised_def
        append_to_stream_def)
qed

lemma jit_init_Static:
  assumes "perf_map_jit_init os st0 = Inr (Static_perf_jit_map_state, st)"
    and "40 \<le> device_room os"
  shows "st = jit_initialised os st0"
proof -
  have c: "open_fd os \<noteq> - 1 \<and> sysconf_pagesize os \<noteq> - 1 \<and> mmap_file os \<noteq> NULL
           \<and> fdopen_ok os \<and> allocate_lock_ok os"
    using assms(1)
    by (auto simp: perf_map_jit_init_def Let_def bind_fault_Inr split: if_splits)
  then show ?thesis
    using jit_init_ok [of os st0] assms by simp
qed

text \<open>
  C7. After a successful \<^verbatim>\<open>perf_map_jit_init\<close> (the counter is 0 and the file holds the 40-byte
  header), take any sequence of calls of \<^verbatim>\<open>perf_map_jit_write_entry\<close> whose bytes the device
  takes; \<open>n\<close> of them can allocate their name buffer, \<open>n < 2 ^ 31\<close> (the others return before they
  write or count anything). The file then splits, after the header, into records by their
  \<^verbatim>\<open>size\<close> fields, it has \<open>n\<close> code-load records (event 0), and their \<^verbatim>\<open>code_id\<close> fields are,
  in file order, \<open>1, 2, \<dots>, n\<close>: each is the number of code-load records before it plus 1,
  so they increase strictly. (\<open>n < 2 ^ 31\<close>: the counter is an \<^verbatim>\<open>int\<close>. Each code-load record is
  shorter than \<open>2 ^ 32\<close> bytes, so that its \<^verbatim>\<open>size\<close> field can hold its length.)
\<close>

theorem jitdump_code_ids:
  assumes "perf_map_jit_init os0 st0 = Inr (Static_perf_jit_map_state, st)"
    and "40 \<le> device_room os0"
    and "length (concat (emitted_records b st es)) \<le> room (jit_stream st)"
    and "\<forall>e\<in>set es. 57 + length (perf_map_entry_of (snd (snd (snd e)))) + unat (fst (snd (snd e)))
                          < 4294967296"
    and "n = length (filter (\<lambda>e. malloc_ok (fst e)) es)" and "n < 2147483648"
  shows "\<exists>st' rs. jit_write_entries b st es = Inr st'
           \<and> length (contents (jit_stream st)) = 40
           \<and> jitdump_records (drop 40 (contents (jit_stream st'))) = Some rs
           \<and> length (filter (\<lambda>r. record_event r = 0) rs) = n
           \<and> map record_code_id (filter (\<lambda>r. record_event r = 0) rs)
               = map of_nat [1 ..< Suc n]"
proof -
  have st: "st = jit_initialised os0 st0"
    using assms(1,2) by (rule jit_init_Static)
  have op: "perf_map (perf_jit_map_state st) = FILE_open"
    and c0: "code_id (perf_jit_map_state st) = 0"
    and h40: "length (contents (jit_stream st)) = 40"
    by (simp_all add: st jit_initialised_def)
  obtain st' where run: "jit_write_entries b st es = Inr st'"
    and c: "contents (jit_stream st') = contents (jit_stream st) @ concat (emitted_records b st es)"
    using jit_write_entries_ok [OF op assms(3)] by blast
  have p: "jitdump_records (drop 40 (contents (jit_stream st'))) = Some (emitted_records b st es)"
    using jitdump_records_emitted [OF assms(4)] by (simp add: c h40)
  have ids: "map record_code_id (filter (\<lambda>r. record_event r = 0) (emitted_records b st es))
               = map (\<lambda>i. scast (1 + of_nat i :: u32)) [0 ..< n]"
    using emitted_code_ids [of b st es] by (simp add: c0 assms(5))
  have "map (\<lambda>i. (scast (1 + of_nat i :: u32) :: u64)) [0 ..< n]
          = map (\<lambda>i. of_nat (Suc i)) [0 ..< n]"
  proof (rule map_cong [OF refl])
    fix i assume "i \<in> set [0 ..< n]"
    then have "Suc i < 2147483648" using assms(6) by simp
    then have "(scast (of_nat (Suc i) :: u32) :: u64) = of_nat (Suc i)"
      by (rule scast_of_nat_small)
    then show "(scast (1 + of_nat i :: u32) :: u64) = of_nat (Suc i)" by simp
  qed
  also have "\<dots> = map of_nat (map Suc [0 ..< n])"
    by simp
  also have "\<dots> = map of_nat [1 ..< Suc n]"
    by (simp only: map_Suc_upt) simp
  finally have ids': "map record_code_id (filter (\<lambda>r. record_event r = 0) (emitted_records b st es))
               = map of_nat [1 ..< Suc n]"
    using ids by simp
  have "length (filter (\<lambda>r. record_event r = 0) (emitted_records b st es)) = n"
  proof -
    have "length (map record_code_id (filter (\<lambda>r. record_event r = 0) (emitted_records b st es)))
            = length (map (\<lambda>i. (scast (1 + of_nat i :: u32) :: u64)) [0 ..< n])"
      by (simp only: ids)
    then show ?thesis by simp
  qed
  then show ?thesis
    using run h40 p ids' by blast
qed

lemma jit_fresh_state_init:
  "perf_map_jit_init example_os jit_fresh_state
     = Inr (Static_perf_jit_map_state, jit_initialised example_os jit_fresh_state)"
  by (rule jit_init_ok) (simp_all add: example_os_def)

lemma stub_entries_fit:
  "length (concat (emitted_records example_build
                     (jit_initialised example_os jit_fresh_state) stub_entries))
     \<le> room (jit_stream (jit_initialised example_os jit_fresh_state))"
proof -
  have r: "room (jit_stream (jit_initialised example_os jit_fresh_state)) = 999960"
    by (simp add: jit_initialised_def example_os_def)
  have u: "length (unwinding_info_record example_build example_os 96) \<le> 132"
    using unwinding_info_record_shape [of example_build example_os 96] by simp
  have l: "length (code_load_record example_os st a 96 example_co) = 163" for st a
    using code_load_record_shape [of example_os st a 96 example_co]
    by (simp add: perf_map_entry_of_example)
  have m: "malloc_ok example_os"
    by (simp add: example_os_def)
  show ?thesis
    using u by (simp add: stub_entries_def r l m)
qed

lemma stub_entries_facts:
  "40 \<le> device_room example_os"
  "\<forall>e\<in>set stub_entries.
     57 + length (perf_map_entry_of (snd (snd (snd e)))) + unat (fst (snd (snd e))) < 4294967296"
  "2 = length (filter (\<lambda>e. malloc_ok (fst e)) stub_entries)"
  by (simp_all add: stub_entries_def example_os_def perf_map_entry_of_example)

theorem jitdump_code_ids_witness:
  "\<exists>st' rs. jit_write_entries example_build (jit_initialised example_os jit_fresh_state)
               stub_entries = Inr st'
     \<and> length (contents (jit_stream (jit_initialised example_os jit_fresh_state))) = 40
     \<and> jitdump_records (drop 40 (contents (jit_stream st'))) = Some rs
     \<and> length (filter (\<lambda>r. record_event r = 0) rs) = 2
     \<and> map record_code_id (filter (\<lambda>r. record_event r = 0) rs) = [1, 2]"
  using jitdump_code_ids [OF jit_fresh_state_init stub_entries_facts(1) stub_entries_fit
      stub_entries_facts(2,3)]
  by (simp add: upt_rec)

section \<open>Sequences of dispatches\<close>

lemma evaluator_cases:
  assumes run: "py_trampoline_evaluator b h os st ts frame throw = Inr (r, st')"
    and set: "set_extra_res os = 0"
  defines "c0 \<equiv> co_ident (PyFrame_GetCode h frame)"
  shows "(entered_through r = None \<and> co_extra st' = co_extra st
            \<and> write_state_calls st' = write_state_calls st
            \<and> extra_code_index st' = extra_code_index st
            \<and> (perf_status st' = perf_status st \<or> perf_status st' = PERF_STATUS_FAILED)
            \<and> (perf_status st = PERF_STATUS_OK \<longrightarrow> slot st c0 = None))
       \<or> (\<exists>t. perf_status st = PERF_STATUS_OK \<and> slot st c0 = Some t
              \<and> entered_through r = Some t \<and> st' = st)
       \<or> (\<exists>t cs. perf_status st = PERF_STATUS_OK \<and> slot st c0 = None
              \<and> entered_through r = Some t
              \<and> co_extra st' = (co_extra st)((c0, extra_code_index st) := Some t)
              \<and> write_state_calls st' = write_state_calls st @ [(t, cs, c0)]
              \<and> extra_code_index st' = extra_code_index st
              \<and> (perf_status st' = perf_status st \<or> perf_status st' = PERF_STATUS_FAILED))"
proof (cases "perf_status st = PERF_STATUS_OK")
  case False
  then show ?thesis
    using run evaluator_not_ok [of st b h os ts frame throw] by auto
next
  case ok: True
  show ?thesis
  proof (cases "slot st c0")
    case (Some f)
    then show ?thesis
      using run ok evaluator_reuse [of st h frame f b os ts throw]
      by (auto simp: slot_def c0_def call_trampoline_def)
  next
    case None
    then have none: "co_extra st (co_ident (PyFrame_GetCode h frame), extra_code_index st) = None"
      by (simp add: slot_def c0_def)
    have "\<exists>p. compile_trampoline b os st = Inr p"
      using run ok none
      by (cases "compile_trampoline b os st")
         (auto simp: py_trampoline_evaluator_def PyCode_GetExtra_def Let_def bind_fault_def)
    then obtain res st1 where ct: "compile_trampoline b os st = Inr (res, st1)"
      by (metis surj_pair)
    note fr = compile_trampoline_frame [OF ct]
    show ?thesis
    proof (cases res)
      case N: None
      show ?thesis
        using run evaluator_compile_failed [OF ok none ct [unfolded N], of ts throw] fr None
        by auto
    next
      case S: (Some t)
      have ev: "py_trampoline_evaluator b h os st ts frame throw =
          bind_fault (head_code_size st1) (\<lambda>csize.
            bind_fault (call_write_state (write_state (trampoline_api st1)) b os st1 t csize
                          (PyFrame_GetCode h frame))
              (\<lambda>st. let st = snd (PyCode_SetExtra os st (PyFrame_GetCode h frame)
                                     (extra_code_index st) (Some t))
                    in Inr (call_trampoline t ts frame throw (PyEval_EvalFrameDefault h), st)))"
        using ok none ct S
        by (simp add: py_trampoline_evaluator_def PyCode_GetExtra_def Let_def bind_fault_def)
      obtain cs st2 where hs: "head_code_size st1 = Inr cs"
        and ws: "call_write_state (write_state (trampoline_api st1)) b os st1 t cs
                   (PyFrame_GetCode h frame) = Inr st2"
        and res: "r = call_trampoline t ts frame throw (PyEval_EvalFrameDefault h)"
                 "st' = snd (PyCode_SetExtra os st2 (PyFrame_GetCode h frame)
                                     (extra_code_index st2) (Some t))"
        using run unfolding ev by (auto simp: bind_fault_Inr Let_def)
      note sf = call_write_state_effect [OF ws]
      show ?thesis
        using res sf fr None ok set
        by (auto simp: PyCode_SetExtra_def sink_frame_def call_trampoline_def c0_def)
    qed
  qed
qed

lemma evaluator_step:
  assumes run: "py_trampoline_evaluator b h os st ts frame throw = Inr (r, st')"
    and set: "set_extra_res os = 0"
  defines "c0 \<equiv> co_ident (PyFrame_GetCode h frame)"
  shows "extra_code_index st' = extra_code_index st"
    and "perf_status st' = PERF_STATUS_OK \<Longrightarrow> perf_status st = PERF_STATUS_OK"
    and "slot st c = Some t \<Longrightarrow> slot st' c = Some t"
    and "c \<noteq> c0 \<Longrightarrow> slot st' c = slot st c"
    and "\<exists>new. write_state_calls st' = write_state_calls st @ new
           \<and> (\<forall>c. writes_for c new =
                  (if c = c0 \<and> slot st c = None
                   then (case slot st' c of None \<Rightarrow> [] | Some t \<Rightarrow> [t]) else []))"
    and "entered_through r = None \<or> entered_through r = slot st' c0"
    and "perf_status st' = PERF_STATUS_OK \<Longrightarrow> slot st c0 = Some t \<Longrightarrow> entered_through r = Some t"
proof -
  note cases = evaluator_cases [OF run set, folded c0_def]
  show "extra_code_index st' = extra_code_index st"
    using cases by auto
  show "perf_status st' = PERF_STATUS_OK \<Longrightarrow> perf_status st = PERF_STATUS_OK"
    using cases by auto
  show "slot st c = Some t \<Longrightarrow> slot st' c = Some t"
    using cases by (auto simp: slot_def)
  show "c \<noteq> c0 \<Longrightarrow> slot st' c = slot st c"
    using cases by (auto simp: slot_def)
  show "\<exists>new. write_state_calls st' = write_state_calls st @ new
           \<and> (\<forall>c. writes_for c new =
                  (if c = c0 \<and> slot st c = None
                   then (case slot st' c of None \<Rightarrow> [] | Some t \<Rightarrow> [t]) else []))"
    using cases by (auto simp: slot_def writes_for_def)
  show "entered_through r = None \<or> entered_through r = slot st' c0"
    using cases by (auto simp: slot_def)
  show "perf_status st' = PERF_STATUS_OK \<Longrightarrow> slot st c0 = Some t \<Longrightarrow> entered_through r = Some t"
    using cases by auto
qed

lemma dispatch_all_Cons:
  assumes "dispatch_all b h st (call # calls) = Inr (rs, st')"
  shows "\<exists>r st1 rs'.
           py_trampoline_evaluator b h (fst call) st (fst (snd call)) (fst (snd (snd call)))
               (snd (snd (snd call))) = Inr (r, st1)
         \<and> dispatch_all b h st1 calls = Inr (rs', st') \<and> rs = r # rs'"
  using assms by (cases call) (auto simp: bind_fault_Inr)

lemma dispatch_all_basic:
  assumes "dispatch_all b h st calls = Inr (rs, st')"
    and "\<forall>call\<in>set calls. set_extra_res (fst call) = 0"
  shows "extra_code_index st' = extra_code_index st \<and> length rs = length calls
         \<and> (perf_status st' = PERF_STATUS_OK \<longrightarrow> perf_status st = PERF_STATUS_OK)"
  using assms
proof (induction calls arbitrary: st rs)
  case Nil
  then show ?case by simp
next
  case (Cons call calls)
  obtain r st1 rs' where
    step: "py_trampoline_evaluator b h (fst call) st (fst (snd call)) (fst (snd (snd call)))
               (snd (snd (snd call))) = Inr (r, st1)"
    and rest: "dispatch_all b h st1 calls = Inr (rs', st')" and rs: "rs = r # rs'"
    using dispatch_all_Cons [OF Cons.prems(1)] by blast
  have set: "set_extra_res (fst call) = 0" using Cons.prems(2) by simp
  have ih: "extra_code_index st' = extra_code_index st1 \<and> length rs' = length calls
         \<and> (perf_status st' = PERF_STATUS_OK \<longrightarrow> perf_status st1 = PERF_STATUS_OK)"
    using Cons.IH [OF rest] Cons.prems(2) by simp
  show ?case
    using ih evaluator_step(1,2) [OF step set] rs by simp
qed

lemma dispatch_all_slot_stable:
  assumes "dispatch_all b h st calls = Inr (rs, st')"
    and "\<forall>call\<in>set calls. set_extra_res (fst call) = 0"
    and "slot st c = Some t"
  shows "slot st' c = Some t"
  using assms
proof (induction calls arbitrary: st rs)
  case Nil
  then show ?case by simp
next
  case (Cons call calls)
  obtain r st1 rs' where
    step: "py_trampoline_evaluator b h (fst call) st (fst (snd call)) (fst (snd (snd call)))
               (snd (snd (snd call))) = Inr (r, st1)"
    and rest: "dispatch_all b h st1 calls = Inr (rs', st')" and rs: "rs = r # rs'"
    using dispatch_all_Cons [OF Cons.prems(1)] by blast
  have set: "set_extra_res (fst call) = 0" using Cons.prems(2) by simp
  have "slot st1 c = Some t"
    using evaluator_step(3) [OF step set Cons.prems(3)] .
  then show ?case
    using Cons.IH [OF rest] Cons.prems(2) by simp
qed

lemma writes_for_append: "writes_for c (xs @ ys) = writes_for c xs @ writes_for c ys"
  by (simp add: writes_for_def)

lemma dispatch_all_writes:
  assumes "dispatch_all b h st calls = Inr (rs, st')"
    and "\<forall>call\<in>set calls. set_extra_res (fst call) = 0"
  shows "\<exists>new. write_state_calls st' = write_state_calls st @ new
           \<and> (\<forall>c. writes_for c new =
                  (if slot st c = None
                   then (case slot st' c of None \<Rightarrow> [] | Some t \<Rightarrow> [t]) else []))"
  using assms
proof (induction calls arbitrary: st rs)
  case Nil
  then show ?case by (auto simp: writes_for_def)
next
  case (Cons call calls)
  obtain r st1 rs' where
    step: "py_trampoline_evaluator b h (fst call) st (fst (snd call)) (fst (snd (snd call)))
               (snd (snd (snd call))) = Inr (r, st1)"
    and rest: "dispatch_all b h st1 calls = Inr (rs', st')" and rs: "rs = r # rs'"
    using dispatch_all_Cons [OF Cons.prems(1)] by blast
  have set: "set_extra_res (fst call) = 0" and sets: "\<forall>call\<in>set calls. set_extra_res (fst call) = 0"
    using Cons.prems(2) by simp_all
  define c0 where "c0 = co_ident (PyFrame_GetCode h (fst (snd (snd call))))"
  obtain new1 where n1: "write_state_calls st1 = write_state_calls st @ new1"
    and w1: "\<And>c. writes_for c new1 =
                  (if c = c0 \<and> slot st c = None
                   then (case slot st1 c of None \<Rightarrow> [] | Some t \<Rightarrow> [t]) else [])"
    using evaluator_step(5) [OF step set] unfolding c0_def by blast
  obtain new2 where n2: "write_state_calls st' = write_state_calls st1 @ new2"
    and w2: "\<And>c. writes_for c new2 =
                  (if slot st1 c = None
                   then (case slot st' c of None \<Rightarrow> [] | Some t \<Rightarrow> [t]) else [])"
    using Cons.IH [OF rest sets] by blast
  have "writes_for c (new1 @ new2) =
          (if slot st c = None then (case slot st' c of None \<Rightarrow> [] | Some t \<Rightarrow> [t]) else [])" for c
  proof (cases "slot st c")
    case (Some t)
    then have "slot st1 c = Some t"
      using evaluator_step(3) [OF step set] by simp
    then show ?thesis
      using Some by (simp add: writes_for_append w1 w2)
  next
    case None
    show ?thesis
    proof (cases "slot st1 c")
      case n: None
      then show ?thesis
        using None by (auto simp add: writes_for_append w1 w2)
    next
      case s: (Some t)
      have "c = c0"
        using evaluator_step(4) [OF step set, of c] None s unfolding c0_def by auto
      moreover have "slot st' c = Some t"
        using dispatch_all_slot_stable [OF rest sets s] .
      ultimately show ?thesis
        using None s by (simp add: writes_for_append w1 w2)
    qed
  qed
  then show ?case
    using n1 n2 by (intro exI [of _ "new1 @ new2"]) simp
qed

lemma dispatch_all_entered:
  assumes "dispatch_all b h st calls = Inr (rs, st')"
    and "\<forall>call\<in>set calls. set_extra_res (fst call) = 0"
    and "i < length calls"
  shows "entered_through (rs ! i) = None
         \<or> entered_through (rs ! i) = slot st' (dispatched_code h (calls ! i))"
  using assms
proof (induction calls arbitrary: st rs i)
  case Nil
  then show ?case by simp
next
  case (Cons call calls)
  obtain r st1 rs' where
    step: "py_trampoline_evaluator b h (fst call) st (fst (snd call)) (fst (snd (snd call)))
               (snd (snd (snd call))) = Inr (r, st1)"
    and rest: "dispatch_all b h st1 calls = Inr (rs', st')" and rs: "rs = r # rs'"
    using dispatch_all_Cons [OF Cons.prems(1)] by blast
  have set: "set_extra_res (fst call) = 0" and sets: "\<forall>call\<in>set calls. set_extra_res (fst call) = 0"
    using Cons.prems(2) by simp_all
  show ?case
  proof (cases i)
    case 0
    show ?thesis
    proof (cases "entered_through r")
      case None
      then show ?thesis by (simp add: rs 0)
    next
      case (Some t)
      then have "slot st1 (dispatched_code h call) = Some t"
        using evaluator_step(6) [OF step set] by (simp add: dispatched_code_def)
      then have "slot st' (dispatched_code h call) = Some t"
        by (rule dispatch_all_slot_stable [OF rest sets])
      then show ?thesis by (simp add: rs 0 Some)
    qed
  next
    case (Suc k)
    then show ?thesis
      using Cons.IH [OF rest sets, of k] Cons.prems(3) by (simp add: rs)
  qed
qed

lemma example_first_dispatch:
  "\<exists>r st1. py_trampoline_evaluator example_build example_host example_os example_state 0 example_co 0
             = Inr (r, st1)
     \<and> entered_through r = Some 1048576 \<and> perf_status st1 = PERF_STATUS_OK
     \<and> co_extra st1 (7, 0) = Some 1048576 \<and> extra_code_index st1 = 0"
proof -
  have slot: "co_extra example_state (co_ident (PyFrame_GetCode example_host example_co),
                extra_code_index example_state) = None"
    by (simp add: example_state_def)
  have ok: "perf_status example_state = PERF_STATUS_OK"
    by (simp add: example_state_def)
  have h3: "perf_code_arena example_state = example_arena # []"
    by (simp add: example_state_def)
  have h4: "\<not> size_left example_arena
              \<le> round_up (code_size example_arena + code_padding (trampoline_api example_state)) 16"
    by (simp add: example_arena_def example_state_def round_up_120_16)
  note c = compile_trampoline_from_head [OF h3 h4, of example_build example_os]
  obtain st1 where c1: "compile_trampoline example_build example_os example_state
                          = Inr (Some 1048576, st1)"
    and w1: "write_state (trampoline_api st1) = Some Perfmap"
    and a1: "perf_code_arena st1 \<noteq> []"
    and s1: "perf_status st1 = PERF_STATUS_OK" and i1: "extra_code_index st1 = 0"
    using c by (simp add: example_arena_def example_state_def)
  obtain cs where hs: "head_code_size st1 = Inr cs"
    using a1 by (cases "perf_code_arena st1") (simp_all add: head_code_size_def)
  obtain st2 where ws: "call_write_state (write_state (trampoline_api st1)) example_build
                          example_os st1 1048576 cs (PyFrame_GetCode example_host example_co) = Inr st2"
    by (simp add: w1 call_write_state_def Let_def)
  note sf = call_write_state_effect [OF ws]
  note ev = evaluator_compiled [OF ok slot c1 hs ws, of 0 0]
  show ?thesis
    using sf s1 i1 unfolding ev
    by (simp add: call_trampoline_def PyCode_SetExtra_def example_os_def sink_frame_def
        example_host_def example_co_def)
qed

lemma example_run:
  "\<exists>rs st'. dispatch_all example_build example_host example_state three_calls = Inr (rs, st')
      \<and> entered_through (rs ! 0) = Some 1048576 \<and> perf_status st' = PERF_STATUS_OK"
proof -
  obtain r st1 where d1: "py_trampoline_evaluator example_build example_host example_os
      example_state 0 example_co 0 = Inr (r, st1)"
    and r: "entered_through r = Some 1048576" and ok: "perf_status st1 = PERF_STATUS_OK"
    and s: "co_extra st1 (7, 0) = Some 1048576" and i: "extra_code_index st1 = 0"
    using example_first_dispatch by blast
  have s': "co_extra st1 (co_ident (PyFrame_GetCode example_host example_co),
               extra_code_index st1) = Some 1048576"
    using s i by (simp add: example_host_def example_co_def)
  note d2 = evaluator_reuse [OF ok s', of example_build example_os 0 0]
  show ?thesis
    using r ok by (simp add: three_calls_def d1 d2 bind_fault_def)
qed

section \<open>The child after a fork\<close>

lemma Init_jitdump_ok:
  assumes "eval_frame st = Eval_NULL \<or> eval_frame st = Eval_py_trampoline_evaluator"
    and "state (trampoline_api st) = NULL" and "init_state (trampoline_api st) = Some Jitdump"
    and "mmap_anon os = Some memory" and "slot_size b st \<noteq> 0" and "mprotect_res os \<noteq> - 1"
    and "calloc_ok os" and "request_extra_index os \<noteq> - 1"
    and "open_fd os \<noteq> - 1" and "sysconf_pagesize os \<noteq> - 1" and "mmap_file os \<noteq> NULL"
    and "fdopen_ok os" and "allocate_lock_ok os" and "40 \<le> device_room os"
  shows "\<exists>st'. PyPerfTrampoline_Init b os st 1 = Inr (0, st')
    \<and> perf_status st' = PERF_STATUS_OK \<and> PyIsPerfTrampolineActive st'
    \<and> extra_code_index st' = request_extra_index os
    \<and> perf_code_arena st' = fresh_arena b memory # perf_code_arena st
    \<and> state (trampoline_api st') = Static_perf_jit_map_state
    \<and> perf_map (perf_jit_map_state st') = FILE_open
    \<and> code_id (perf_jit_map_state st') = 0
    \<and> jit_stream st' = \<lparr>contents = Header_image (jit_header os (getpid os)),
                          room = device_room os - 40\<rparr>
    \<and> jit_stream_pid st' = getpid os"
proof -
  have ss: "slot_size b (st\<lparr>eval_frame := Eval_py_trampoline_evaluator\<rparr>) \<noteq> 0"
    using assms(5) by (simp add: slot_size_def)
  note arena = new_code_arena_ok [OF assms(4) ss assms(6,7)]
  note init = jit_init_ok [OF assms(9-14)]
  show ?thesis
    using assms(1,2,3,8)
    by (auto simp add: PyPerfTrampoline_Init_def Let_def arena init bind_fault_def
        call_init_state_def PyInterpreterState_SetEvalFrameFunc_def jit_initialised_def
        PyIsPerfTrampolineActive_def)
qed

lemma Fini_jitdump:
  assumes "perf_status st = PERF_STATUS_OK" and "eval_frame st = Eval_py_trampoline_evaluator"
    and "free_state (trampoline_api st) = Some Jitdump"
    and "perf_map (perf_jit_map_state st) = FILE_open" and "map_lock (perf_jit_map_state st)"
  shows "PyPerfTrampoline_Fini st =
    Inr (0, st\<lparr>eval_frame := Eval_NULL,
               perf_jit_map_state :=
                 (perf_jit_map_state st)\<lparr>perf_map := FILE_NULL, map_lock := False\<rparr>,
               trampoline_api := (trampoline_api st)\<lparr>state := NULL\<rparr>,
               perf_trampoline_type := PERF_TRAMPOLINE_UNSET,
               extra_code_index := - 1, perf_status := PERF_STATUS_NO_INIT\<rparr>)"
  using assms
  by (simp add: PyPerfTrampoline_Fini_def Let_def
      PyInterpreterState_SetEvalFrameFunc_def call_free_state_def perf_map_jit_fini_def
      bind_fault_def)

lemma after_fork_restart_jitdump:
  assumes "persist_after_fork st = 0" and "PyIsPerfTrampolineActive st"
    and "perf_status st = PERF_STATUS_OK"
    and "init_state (trampoline_api st) = Some Jitdump"
    and "free_state (trampoline_api st) = Some Jitdump"
    and "perf_map (perf_jit_map_state st) = FILE_open" and "map_lock (perf_jit_map_state st)"
    and "mmap_anon os = Some memory" and "slot_size b st \<noteq> 0" and "mprotect_res os \<noteq> - 1"
    and "calloc_ok os" and "request_extra_index os \<noteq> - 1"
    and "open_fd os \<noteq> - 1" and "sysconf_pagesize os \<noteq> - 1" and "mmap_file os \<noteq> NULL"
    and "fdopen_ok os" and "allocate_lock_ok os" and "40 \<le> device_room os"
  shows "\<exists>st'. PyPerfTrampoline_AfterFork_Child b os st = Inr (PyStatus_Ok, st')
    \<and> perf_status st' = PERF_STATUS_OK \<and> PyIsPerfTrampolineActive st'
    \<and> extra_code_index st' = request_extra_index os
    \<and> perf_code_arena st' = fresh_arena b memory # perf_code_arena st
    \<and> state (trampoline_api st') = Static_perf_jit_map_state
    \<and> perf_map (perf_jit_map_state st') = FILE_open
    \<and> code_id (perf_jit_map_state st') = 0
    \<and> jit_stream st' = \<lparr>contents = Header_image (jit_header os (getpid os)),
                          room = device_room os - 40\<rparr>
    \<and> jit_stream_pid st' = getpid os"
proof -
  let ?st1 = "st\<lparr>eval_frame := Eval_NULL,
               perf_jit_map_state :=
                 (perf_jit_map_state st)\<lparr>perf_map := FILE_NULL, map_lock := False\<rparr>,
               trampoline_api := (trampoline_api st)\<lparr>state := NULL\<rparr>,
               perf_trampoline_type := PERF_TRAMPOLINE_UNSET,
               extra_code_index := - 1, perf_status := PERF_STATUS_NO_INIT\<rparr>"
  have active: "eval_frame st = Eval_py_trampoline_evaluator"
    using assms(2) by (simp add: PyIsPerfTrampolineActive_def)
  note fini = Fini_jitdump [OF assms(3) active assms(5,6,7)]
  have "\<exists>st'. PyPerfTrampoline_Init b os ?st1 1 = Inr (0, st')
    \<and> perf_status st' = PERF_STATUS_OK \<and> PyIsPerfTrampolineActive st'
    \<and> extra_code_index st' = request_extra_index os
    \<and> perf_code_arena st' = fresh_arena b memory # perf_code_arena ?st1
    \<and> state (trampoline_api st') = Static_perf_jit_map_state
    \<and> perf_map (perf_jit_map_state st') = FILE_open
    \<and> code_id (perf_jit_map_state st') = 0
    \<and> jit_stream st' = \<lparr>contents = Header_image (jit_header os (getpid os)),
                          room = device_room os - 40\<rparr>
    \<and> jit_stream_pid st' = getpid os"
    using assms(4,9)
    by (intro Init_jitdump_ok assms(8,10-18)) (simp_all add: slot_size_def)
  then obtain st' where i: "PyPerfTrampoline_Init b os ?st1 1 = Inr (0, st')"
    and p: "perf_status st' = PERF_STATUS_OK" "PyIsPerfTrampolineActive st'"
      "extra_code_index st' = request_extra_index os"
      "perf_code_arena st' = fresh_arena b memory # perf_code_arena st"
      "state (trampoline_api st') = Static_perf_jit_map_state"
      "perf_map (perf_jit_map_state st') = FILE_open"
      "code_id (perf_jit_map_state st') = 0"
      "jit_stream st' = \<lparr>contents = Header_image (jit_header os (getpid os)),
                          room = device_room os - 40\<rparr>"
      "jit_stream_pid st' = getpid os"
    by auto
  have "PyPerfTrampoline_AfterFork_Child b os st = Inr (PyStatus_Ok, st')"
    using assms(1,2) by (simp add: PyPerfTrampoline_AfterFork_Child_def fini i bind_fault_def)
  then show ?thesis
    using p by simp
qed

lemma Init_perfmap_ok:
  assumes "eval_frame st = Eval_NULL \<or> eval_frame st = Eval_py_trampoline_evaluator"
    and "state (trampoline_api st) = NULL" and "init_state (trampoline_api st) = Some Perfmap"
    and "mmap_anon os = Some memory" and "slot_size b st \<noteq> 0" and "mprotect_res os \<noteq> - 1"
    and "calloc_ok os" and "request_extra_index os \<noteq> - 1"
  shows "\<exists>st'. PyPerfTrampoline_Init b os st 1 = Inr (0, st')
    \<and> perf_status st' = PERF_STATUS_OK \<and> PyIsPerfTrampolineActive st'
    \<and> extra_code_index st' = request_extra_index os
    \<and> perf_code_arena st' = fresh_arena b memory # perf_code_arena st
    \<and> perf_trampoline_type st' = PERF_TRAMPOLINE_TYPE_MAP
    \<and> perf_map_file st' = Some (getpid os)"
proof -
  have ss: "slot_size b (st\<lparr>eval_frame := Eval_py_trampoline_evaluator\<rparr>) \<noteq> 0"
    using assms(5) by (simp add: slot_size_def)
  note arena = new_code_arena_ok [OF assms(4) ss assms(6,7)]
  show ?thesis
    using assms(1,2,3,8)
    by (auto simp add: PyPerfTrampoline_Init_def Let_def arena bind_fault_def
        call_init_state_def PyInterpreterState_SetEvalFrameFunc_def perf_map_init_state_def
        PyUnstable_PerfMapState_Init_def PyIsPerfTrampolineActive_def)
qed

lemma Fini_perfmap:
  assumes "perf_status st = PERF_STATUS_OK" and "eval_frame st = Eval_py_trampoline_evaluator"
    and "free_state (trampoline_api st) = Some Perfmap"
  shows "PyPerfTrampoline_Fini st =
    Inr (0, st\<lparr>eval_frame := Eval_NULL, perf_map_file := None,
               perf_trampoline_type := PERF_TRAMPOLINE_UNSET,
               extra_code_index := - 1, perf_status := PERF_STATUS_NO_INIT\<rparr>)"
  using assms
  by (simp add: PyPerfTrampoline_Fini_def Let_def
      PyInterpreterState_SetEvalFrameFunc_def call_free_state_def perf_map_free_state_def
      PyUnstable_PerfMapState_Fini_def bind_fault_def)

lemma after_fork_restart_perfmap:
  assumes "persist_after_fork st = 0" and "PyIsPerfTrampolineActive st"
    and "perf_status st = PERF_STATUS_OK"
    and "init_state (trampoline_api st) = Some Perfmap"
    and "free_state (trampoline_api st) = Some Perfmap"
    and "state (trampoline_api st) = NULL"
    and "mmap_anon os = Some memory" and "slot_size b st \<noteq> 0" and "mprotect_res os \<noteq> - 1"
    and "calloc_ok os" and "request_extra_index os \<noteq> - 1"
  shows "\<exists>st'. PyPerfTrampoline_AfterFork_Child b os st = Inr (PyStatus_Ok, st')
    \<and> perf_status st' = PERF_STATUS_OK \<and> PyIsPerfTrampolineActive st'
    \<and> extra_code_index st' = request_extra_index os
    \<and> perf_code_arena st' = fresh_arena b memory # perf_code_arena st
    \<and> perf_trampoline_type st' = PERF_TRAMPOLINE_TYPE_MAP
    \<and> perf_map_file st' = Some (getpid os)"
proof -
  let ?st1 = "st\<lparr>eval_frame := Eval_NULL, perf_map_file := None,
               perf_trampoline_type := PERF_TRAMPOLINE_UNSET,
               extra_code_index := - 1, perf_status := PERF_STATUS_NO_INIT\<rparr>"
  have active: "eval_frame st = Eval_py_trampoline_evaluator"
    using assms(2) by (simp add: PyIsPerfTrampolineActive_def)
  note fini = Fini_perfmap [OF assms(3) active assms(5)]
  have "\<exists>st'. PyPerfTrampoline_Init b os ?st1 1 = Inr (0, st')
    \<and> perf_status st' = PERF_STATUS_OK \<and> PyIsPerfTrampolineActive st'
    \<and> extra_code_index st' = request_extra_index os
    \<and> perf_code_arena st' = fresh_arena b memory # perf_code_arena ?st1
    \<and> perf_trampoline_type st' = PERF_TRAMPOLINE_TYPE_MAP
    \<and> perf_map_file st' = Some (getpid os)"
    using assms(4,6,8)
    by (intro Init_perfmap_ok assms(7,9-11)) (simp_all add: slot_size_def)
  then obtain st' where i: "PyPerfTrampoline_Init b os ?st1 1 = Inr (0, st')"
    and p: "perf_status st' = PERF_STATUS_OK" "PyIsPerfTrampolineActive st'"
      "extra_code_index st' = request_extra_index os"
      "perf_code_arena st' = fresh_arena b memory # perf_code_arena st"
      "perf_trampoline_type st' = PERF_TRAMPOLINE_TYPE_MAP"
      "perf_map_file st' = Some (getpid os)"
    by auto
  have "PyPerfTrampoline_AfterFork_Child b os st = Inr (PyStatus_Ok, st')"
    using assms(1,2) by (simp add: PyPerfTrampoline_AfterFork_Child_def fini i bind_fault_def)
  then show ?thesis
    using p by simp
qed

text \<open>
  C4, as the code has it. In the child after a fork:
  \<^item> with \<^verbatim>\<open>persist_after_fork\<close> set and a sink that is not the perf map sink (the jitdump sink
    leaves \<^verbatim>\<open>perf_trampoline_type\<close> unset), \<^verbatim>\<open>_PyPerfTrampoline_AfterFork_Child\<close> returns an error
    status and changes nothing: no tear-down, no new file, no new arena;
  \<^item> with \<^verbatim>\<open>persist_after_fork\<close> clear and the trampoline not active, it returns \<open>Ok\<close> and the
    state is the one \<^verbatim>\<open>_PyPerfTrampoline_Fini\<close> leaves;
  \<^item> with \<^verbatim>\<open>persist_after_fork\<close> clear, the trampoline active with status \<open>Ok\<close> and the jitdump
    sink open, when the system calls succeed it returns \<open>Ok\<close>, the trampoline is active again
    with status \<open>Ok\<close> and a newly requested extra index, a fresh arena is on top of the arenas
    inherited from the parent, and the jitdump file is a new one: opened for the child's pid,
    holding the header only, with the code id counter at 0;
  \<^item> the same with the perf map sink: the perf map file is re-opened for the child's pid.
\<close>

theorem after_fork_child:
  "(persist_after_fork st \<noteq> 0 \<and> perf_trampoline_type st \<noteq> PERF_TRAMPOLINE_TYPE_MAP \<longrightarrow>
      PyPerfTrampoline_AfterFork_Child b os st =
        Inr (PyStatus_Error
               ''Failed to copy perf map file as perf trampoline type is not type map.'', st))
   \<and> (persist_after_fork st = 0 \<and> \<not> PyIsPerfTrampolineActive st
        \<and> PyPerfTrampoline_Fini st = Inr (r, st1) \<longrightarrow>
      PyPerfTrampoline_AfterFork_Child b os st = Inr (PyStatus_Ok, st1))
   \<and> (persist_after_fork st = 0 \<and> PyIsPerfTrampolineActive st
        \<and> perf_status st = PERF_STATUS_OK
        \<and> init_state (trampoline_api st) = Some Jitdump
        \<and> free_state (trampoline_api st) = Some Jitdump
        \<and> perf_map (perf_jit_map_state st) = FILE_open \<and> map_lock (perf_jit_map_state st)
        \<and> arena_calls_succeed os memory \<and> slot_size b st \<noteq> 0
        \<and> request_extra_index os \<noteq> - 1 \<and> jitdump_calls_succeed os \<longrightarrow>
      (\<exists>st'. PyPerfTrampoline_AfterFork_Child b os st = Inr (PyStatus_Ok, st')
         \<and> perf_status st' = PERF_STATUS_OK \<and> PyIsPerfTrampolineActive st'
         \<and> extra_code_index st' = request_extra_index os
         \<and> perf_code_arena st' = fresh_arena b memory # perf_code_arena st
         \<and> state (trampoline_api st') = Static_perf_jit_map_state
         \<and> perf_map (perf_jit_map_state st') = FILE_open
         \<and> code_id (perf_jit_map_state st') = 0
         \<and> jit_stream st' = \<lparr>contents = Header_image (jit_header os (getpid os)),
                               room = device_room os - 40\<rparr>
         \<and> jit_stream_pid st' = getpid os))
   \<and> (persist_after_fork st = 0 \<and> PyIsPerfTrampolineActive st
        \<and> perf_status st = PERF_STATUS_OK
        \<and> init_state (trampoline_api st) = Some Perfmap
        \<and> free_state (trampoline_api st) = Some Perfmap
        \<and> state (trampoline_api st) = NULL
        \<and> arena_calls_succeed os memory \<and> slot_size b st \<noteq> 0
        \<and> request_extra_index os \<noteq> - 1 \<longrightarrow>
      (\<exists>st'. PyPerfTrampoline_AfterFork_Child b os st = Inr (PyStatus_Ok, st')
         \<and> perf_status st' = PERF_STATUS_OK \<and> PyIsPerfTrampolineActive st'
         \<and> extra_code_index st' = request_extra_index os
         \<and> perf_code_arena st' = fresh_arena b memory # perf_code_arena st
         \<and> perf_trampoline_type st' = PERF_TRAMPOLINE_TYPE_MAP
         \<and> perf_map_file st' = Some (getpid os)))"
proof (intro conjI impI)
  assume "persist_after_fork st \<noteq> 0 \<and> perf_trampoline_type st \<noteq> PERF_TRAMPOLINE_TYPE_MAP"
  then show "PyPerfTrampoline_AfterFork_Child b os st =
        Inr (PyStatus_Error
               ''Failed to copy perf map file as perf trampoline type is not type map.'', st)"
    by (simp add: PyPerfTrampoline_AfterFork_Child_def)
next
  assume "persist_after_fork st = 0 \<and> \<not> PyIsPerfTrampolineActive st
        \<and> PyPerfTrampoline_Fini st = Inr (r, st1)"
  then show "PyPerfTrampoline_AfterFork_Child b os st = Inr (PyStatus_Ok, st1)"
    by (simp add: PyPerfTrampoline_AfterFork_Child_def bind_fault_def)
next
  assume a: "persist_after_fork st = 0 \<and> PyIsPerfTrampolineActive st
        \<and> perf_status st = PERF_STATUS_OK
        \<and> init_state (trampoline_api st) = Some Jitdump
        \<and> free_state (trampoline_api st) = Some Jitdump
        \<and> perf_map (perf_jit_map_state st) = FILE_open \<and> map_lock (perf_jit_map_state st)
        \<and> arena_calls_succeed os memory \<and> slot_size b st \<noteq> 0
        \<and> request_extra_index os \<noteq> - 1 \<and> jitdump_calls_succeed os"
  then show "\<exists>st'. PyPerfTrampoline_AfterFork_Child b os st = Inr (PyStatus_Ok, st')
         \<and> perf_status st' = PERF_STATUS_OK \<and> PyIsPerfTrampolineActive st'
         \<and> extra_code_index st' = request_extra_index os
         \<and> perf_code_arena st' = fresh_arena b memory # perf_code_arena st
         \<and> state (trampoline_api st') = Static_perf_jit_map_state
         \<and> perf_map (perf_jit_map_state st') = FILE_open
         \<and> code_id (perf_jit_map_state st') = 0
         \<and> jit_stream st' = \<lparr>contents = Header_image (jit_header os (getpid os)),
                               room = device_room os - 40\<rparr>
         \<and> jit_stream_pid st' = getpid os"
    by (intro after_fork_restart_jitdump)
       (simp_all add: arena_calls_succeed_def jitdump_calls_succeed_def)
next
  assume a: "persist_after_fork st = 0 \<and> PyIsPerfTrampolineActive st
        \<and> perf_status st = PERF_STATUS_OK
        \<and> init_state (trampoline_api st) = Some Perfmap
        \<and> free_state (trampoline_api st) = Some Perfmap
        \<and> state (trampoline_api st) = NULL
        \<and> arena_calls_succeed os memory \<and> slot_size b st \<noteq> 0
        \<and> request_extra_index os \<noteq> - 1"
  then show "\<exists>st'. PyPerfTrampoline_AfterFork_Child b os st = Inr (PyStatus_Ok, st')
         \<and> perf_status st' = PERF_STATUS_OK \<and> PyIsPerfTrampolineActive st'
         \<and> extra_code_index st' = request_extra_index os
         \<and> perf_code_arena st' = fresh_arena b memory # perf_code_arena st
         \<and> perf_trampoline_type st' = PERF_TRAMPOLINE_TYPE_MAP
         \<and> perf_map_file st' = Some (getpid os)"
    by (intro after_fork_restart_perfmap) (simp_all add: arena_calls_succeed_def)
qed

lemma round_up_376_16: "round_up 376 16 = 384"
  by (simp add: round_up_def signed_modulo_int_def)

lemma child_os_calls:
  "arena_calls_succeed child_os 4194304" "jitdump_calls_succeed child_os"
  "request_extra_index child_os \<noteq> - 1" "getpid child_os = 4300" "device_room child_os = 1000000"
  by (simp_all add: arena_calls_succeed_def jitdump_calls_succeed_def child_os_def example_os_def)

lemma example_slot_sizes:
  "slot_size example_build jit_open_state \<noteq> 0" "slot_size example_build example_state \<noteq> 0"
  by (simp_all add: slot_size_def example_build_def jit_open_state_def example_state_def
      round_up_376_16 round_up_120_16)

theorem after_fork_child_witness:
  "PyPerfTrampoline_AfterFork_Child example_build child_os persisting_jit_state =
     Inr (PyStatus_Error
            ''Failed to copy perf map file as perf trampoline type is not type map.'',
          persisting_jit_state)
   \<and> PyPerfTrampoline_AfterFork_Child example_build child_os inactive_state
       = Inr (PyStatus_Ok, inactive_state)
   \<and> (\<exists>st'. PyPerfTrampoline_AfterFork_Child example_build child_os jit_open_state
               = Inr (PyStatus_Ok, st')
         \<and> perf_status st' = PERF_STATUS_OK \<and> PyIsPerfTrampolineActive st'
         \<and> perf_code_arena st' = [fresh_arena example_build 4194304, example_arena]
         \<and> code_id (perf_jit_map_state st') = 0
         \<and> length (contents (jit_stream st')) = 40
         \<and> jit_stream_pid st' = 4300)
   \<and> (\<exists>st'. PyPerfTrampoline_AfterFork_Child example_build child_os example_state
               = Inr (PyStatus_Ok, st')
         \<and> perf_status st' = PERF_STATUS_OK \<and> PyIsPerfTrampolineActive st'
         \<and> perf_code_arena st' = [fresh_arena example_build 4194304, example_arena]
         \<and> perf_map_file st' = Some 4300)"
proof (intro conjI)
  have "persist_after_fork persisting_jit_state \<noteq> 0
        \<and> perf_trampoline_type persisting_jit_state \<noteq> PERF_TRAMPOLINE_TYPE_MAP"
    by (simp add: persisting_jit_state_def jit_open_state_def)
  then show "PyPerfTrampoline_AfterFork_Child example_build child_os persisting_jit_state =
     Inr (PyStatus_Error
            ''Failed to copy perf map file as perf trampoline type is not type map.'',
          persisting_jit_state)"
    using after_fork_child [where st = persisting_jit_state and b = example_build and os = child_os]
    by (simp only: simp_thms)
next
  have "persist_after_fork inactive_state = 0 \<and> \<not> PyIsPerfTrampolineActive inactive_state
        \<and> PyPerfTrampoline_Fini inactive_state = Inr (0, inactive_state)"
    by (simp add: inactive_state_def example_state_def PyIsPerfTrampolineActive_def
        PyPerfTrampoline_Fini_def)
  then show "PyPerfTrampoline_AfterFork_Child example_build child_os inactive_state
       = Inr (PyStatus_Ok, inactive_state)"
    using after_fork_child [where st = inactive_state and r = 0 and ?st1.0 = inactive_state
        and b = example_build and os = child_os]
    by (simp only: simp_thms)
next
  have "persist_after_fork jit_open_state = 0 \<and> PyIsPerfTrampolineActive jit_open_state
        \<and> perf_status jit_open_state = PERF_STATUS_OK
        \<and> init_state (trampoline_api jit_open_state) = Some Jitdump
        \<and> free_state (trampoline_api jit_open_state) = Some Jitdump
        \<and> perf_map (perf_jit_map_state jit_open_state) = FILE_open
        \<and> map_lock (perf_jit_map_state jit_open_state)
        \<and> arena_calls_succeed child_os 4194304 \<and> slot_size example_build jit_open_state \<noteq> 0
        \<and> request_extra_index child_os \<noteq> - 1 \<and> jitdump_calls_succeed child_os"
    by (simp add: child_os_calls example_slot_sizes)
       (simp add: jit_open_state_def example_state_def PyIsPerfTrampolineActive_def)
  then have "\<exists>st'. PyPerfTrampoline_AfterFork_Child example_build child_os jit_open_state
                      = Inr (PyStatus_Ok, st')
         \<and> perf_status st' = PERF_STATUS_OK \<and> PyIsPerfTrampolineActive st'
         \<and> extra_code_index st' = request_extra_index child_os
         \<and> perf_code_arena st' = fresh_arena example_build 4194304 # perf_code_arena jit_open_state
         \<and> state (trampoline_api st') = Static_perf_jit_map_state
         \<and> perf_map (perf_jit_map_state st') = FILE_open
         \<and> code_id (perf_jit_map_state st') = 0
         \<and> jit_stream st' = \<lparr>contents = Header_image (jit_header child_os (getpid child_os)),
                               room = device_room child_os - 40\<rparr>
         \<and> jit_stream_pid st' = getpid child_os"
    using after_fork_child [where st = jit_open_state and b = example_build and os = child_os
        and memory = 4194304]
    by (simp only: simp_thms)
  then show "\<exists>st'. PyPerfTrampoline_AfterFork_Child example_build child_os jit_open_state
               = Inr (PyStatus_Ok, st')
         \<and> perf_status st' = PERF_STATUS_OK \<and> PyIsPerfTrampolineActive st'
         \<and> perf_code_arena st' = [fresh_arena example_build 4194304, example_arena]
         \<and> code_id (perf_jit_map_state st') = 0
         \<and> length (contents (jit_stream st')) = 40
         \<and> jit_stream_pid st' = 4300"
    by (auto simp: child_os_calls jit_open_state_def example_state_def)
next
  have "persist_after_fork example_state = 0 \<and> PyIsPerfTrampolineActive example_state
        \<and> perf_status example_state = PERF_STATUS_OK
        \<and> init_state (trampoline_api example_state) = Some Perfmap
        \<and> free_state (trampoline_api example_state) = Some Perfmap
        \<and> state (trampoline_api example_state) = NULL
        \<and> arena_calls_succeed child_os 4194304 \<and> slot_size example_build example_state \<noteq> 0
        \<and> request_extra_index child_os \<noteq> - 1"
    by (simp add: child_os_calls example_slot_sizes)
       (simp add: example_state_def PyIsPerfTrampolineActive_def)
  then have "\<exists>st'. PyPerfTrampoline_AfterFork_Child example_build child_os example_state
                      = Inr (PyStatus_Ok, st')
         \<and> perf_status st' = PERF_STATUS_OK \<and> PyIsPerfTrampolineActive st'
         \<and> extra_code_index st' = request_extra_index child_os
         \<and> perf_code_arena st' = fresh_arena example_build 4194304 # perf_code_arena example_state
         \<and> perf_trampoline_type st' = PERF_TRAMPOLINE_TYPE_MAP
         \<and> perf_map_file st' = Some (getpid child_os)"
    using after_fork_child [where st = example_state and b = example_build and os = child_os
        and memory = 4194304]
    by (simp only: simp_thms)
  then show "\<exists>st'. PyPerfTrampoline_AfterFork_Child example_build child_os example_state
               = Inr (PyStatus_Ok, st')
         \<and> perf_status st' = PERF_STATUS_OK \<and> PyIsPerfTrampolineActive st'
         \<and> perf_code_arena st' = [fresh_arena example_build 4194304, example_arena]
         \<and> perf_map_file st' = Some 4300"
    by (auto simp: child_os_calls example_state_def)
qed

text \<open>
  C4 as stated fails when \<^verbatim>\<open>persist_after_fork\<close> is set and the sink is jitdump: in the child
  (pid 4300) of the example process (pid 4242) the call returns an error status and the state
  is the parent's, untouched: the trampoline still active on the parent's arena, the stream
  still the one the parent opened for its pid, nothing torn down and nothing re-initialised.
\<close>

theorem after_fork_jitdump_persist_counterexample:
  "PyPerfTrampoline_AfterFork_Child example_build child_os persisting_jit_state
     = Inr (PyStatus_Error
              ''Failed to copy perf map file as perf trampoline type is not type map.'',
            persisting_jit_state)
   \<and> persist_after_fork persisting_jit_state = 1
   \<and> write_state (trampoline_api persisting_jit_state) = Some Jitdump
   \<and> PyIsPerfTrampolineActive persisting_jit_state
   \<and> perf_status persisting_jit_state = PERF_STATUS_OK
   \<and> perf_code_arena persisting_jit_state = [example_arena]
   \<and> perf_map (perf_jit_map_state persisting_jit_state) = FILE_open
   \<and> jit_stream_pid persisting_jit_state = 4242
   \<and> getpid child_os = 4300"
  by (simp add: PyPerfTrampoline_AfterFork_Child_def persisting_jit_state_def jit_open_state_def
      example_state_def child_os_def example_os_def PyIsPerfTrampolineActive_def)

section \<open>Dispatches around a failed allocation\<close>

lemma first_of_three:
  "py_trampoline_evaluator example_build example_host example_os two_slots_state 0 example_co 0
     = Inr (\<lparr>returned = 42, entered_through = Some 1113856\<rparr>,
            state_after_failure\<lparr>perf_status := PERF_STATUS_OK\<rparr>)"
  by (simp add: py_trampoline_evaluator_def PyCode_GetExtra_def Let_def two_slots_state_def
      example_state_def example_host_def example_co_def compile_trampoline_def
      example_arena_def round_up_120_16 new_code_in_head_def code_arena_new_code_def
      bind_fault_def head_code_size_def call_write_state_def perf_map_write_entry_def
      example_os_def PyUnstable_WritePerfMapEntry_def PyCode_SetExtra_def call_trampoline_def
      perf_map_entry_of_def utf8_or_empty_def c_string_def state_after_failure_def)

lemma second_of_three:
  "py_trampoline_evaluator example_build example_host mmap_fails_os
       (state_after_failure\<lparr>perf_status := PERF_STATUS_OK\<rparr>) 0 other_co 0
     = Inr (\<lparr>returned = 42, entered_through = None\<rparr>, state_after_failure)"
  by (simp add: py_trampoline_evaluator_def PyCode_GetExtra_def Let_def two_slots_state_def
      example_state_def example_host_def other_co_def compile_trampoline_def
      example_arena_def round_up_120_16 new_code_arena_def mmap_fails_os_def example_os_def
      bind_fault_def state_after_failure_def)

lemma third_of_three:
  "py_trampoline_evaluator example_build example_host example_os state_after_failure 0 example_co 0
     = Inr (\<lparr>returned = 42, entered_through = None\<rparr>, state_after_failure)"
  by (simp add: py_trampoline_evaluator_def example_host_def state_after_failure_def)

lemma run_around_failure:
  "dispatch_all example_build example_host two_slots_state calls_around_failure
     = Inr ([\<lparr>returned = 42, entered_through = Some 1113856\<rparr>,
             \<lparr>returned = 42, entered_through = None\<rparr>,
             \<lparr>returned = 42, entered_through = None\<rparr>], state_after_failure)"
  by (simp add: calls_around_failure_def first_of_three second_of_three third_of_three
      bind_fault_def)

lemma states_around_failure:
  "states_before example_build example_host two_slots_state calls_around_failure
     = [two_slots_state, state_after_failure\<lparr>perf_status := PERF_STATUS_OK\<rparr>,
        state_after_failure]"
  by (simp add: calls_around_failure_def first_of_three second_of_three third_of_three)

lemma states_before_Cons:
  assumes "py_trampoline_evaluator b h (fst call) st (fst (snd call)) (fst (snd (snd call)))
               (snd (snd (snd call))) = Inr (r, st1)"
  shows "states_before b h st (call # calls) = st # states_before b h st1 calls"
  using assms by (cases call) simp

lemma states_before_slot:
  assumes "dispatch_all b h st calls = Inr (rs, st')"
    and "\<forall>call\<in>set calls. set_extra_res (fst call) = 0"
    and "j < length calls" and "slot st c = Some t"
  shows "slot (states_before b h st calls ! j) c = Some t"
  using assms
proof (induction calls arbitrary: st rs j)
  case Nil
  then show ?case by simp
next
  case (Cons call calls)
  obtain r st1 rs' where
    step: "py_trampoline_evaluator b h (fst call) st (fst (snd call)) (fst (snd (snd call)))
               (snd (snd (snd call))) = Inr (r, st1)"
    and rest: "dispatch_all b h st1 calls = Inr (rs', st')" and rs: "rs = r # rs'"
    using dispatch_all_Cons [OF Cons.prems(1)] by blast
  have set: "set_extra_res (fst call) = 0" and sets: "\<forall>call\<in>set calls. set_extra_res (fst call) = 0"
    using Cons.prems(2) by simp_all
  show ?case
  proof (cases j)
    case 0
    then show ?thesis
      using Cons.prems(4) by (simp add: states_before_Cons [OF step])
  next
    case (Suc k)
    have "slot st1 c = Some t"
      using evaluator_step(3) [OF step set Cons.prems(4)] .
    then have "slot (states_before b h st1 calls ! k) c = Some t"
      using Cons.IH [OF rest sets, of k] Cons.prems(3) Suc by simp
    then show ?thesis
      by (simp add: states_before_Cons [OF step] Suc)
  qed
qed

lemma states_before_status:
  assumes "dispatch_all b h st calls = Inr (rs, st')"
    and "\<forall>call\<in>set calls. set_extra_res (fst call) = 0"
    and "perf_status st' = PERF_STATUS_OK" and "j < length calls"
  shows "perf_status (states_before b h st calls ! j) = PERF_STATUS_OK"
  using assms
proof (induction calls arbitrary: st rs j)
  case Nil
  then show ?case by simp
next
  case (Cons call calls)
  obtain r st1 rs' where
    step: "py_trampoline_evaluator b h (fst call) st (fst (snd call)) (fst (snd (snd call)))
               (snd (snd (snd call))) = Inr (r, st1)"
    and rest: "dispatch_all b h st1 calls = Inr (rs', st')" and rs: "rs = r # rs'"
    using dispatch_all_Cons [OF Cons.prems(1)] by blast
  have sets: "\<forall>call\<in>set calls. set_extra_res (fst call) = 0"
    using Cons.prems(2) by simp
  show ?case
  proof (cases j)
    case 0
    then show ?thesis
      using dispatch_all_basic [OF Cons.prems(1,2)] Cons.prems(3)
      by (simp add: states_before_Cons [OF step])
  next
    case (Suc k)
    then show ?thesis
      using Cons.IH [OF rest sets Cons.prems(3), of k] Cons.prems(4)
      by (simp add: states_before_Cons [OF step])
  qed
qed

lemma dispatch_while_ok:
  assumes "dispatch_all b h st calls = Inr (rs, st')"
    and "j < length calls"
    and "perf_status (states_before b h st calls ! j) = PERF_STATUS_OK"
    and "slot (states_before b h st calls ! j) (dispatched_code h (calls ! j)) = Some t"
  shows "entered_through (rs ! j) = Some t"
  using assms
proof (induction calls arbitrary: st rs j)
  case Nil
  then show ?case by simp
next
  case (Cons call calls)
  obtain r st1 rs' where
    step: "py_trampoline_evaluator b h (fst call) st (fst (snd call)) (fst (snd (snd call)))
               (snd (snd (snd call))) = Inr (r, st1)"
    and rest: "dispatch_all b h st1 calls = Inr (rs', st')" and rs: "rs = r # rs'"
    using dispatch_all_Cons [OF Cons.prems(1)] by blast
  note sb = states_before_Cons [OF step, of calls]
  show ?case
  proof (cases j)
    case 0
    have ok: "perf_status st = PERF_STATUS_OK"
      using Cons.prems(3) by (simp add: sb 0)
    have s: "co_extra st (co_ident (PyFrame_GetCode h (fst (snd (snd call)))), extra_code_index st)
               = Some t"
      using Cons.prems(4) by (simp add: sb 0 slot_def dispatched_code_def)
    have "r = call_trampoline t (fst (snd call)) (fst (snd (snd call))) (snd (snd (snd call)))
                (PyEval_EvalFrameDefault h)"
      using step by (simp add: evaluator_reuse [OF ok s])
    then show ?thesis
      by (simp add: rs 0 call_trampoline_def)
  next
    case (Suc k)
    then show ?thesis
      using Cons.IH [OF rest, of k] Cons.prems(2,3,4) by (simp add: sb rs)
  qed
qed

lemma dispatch_while_not_ok:
  assumes "dispatch_all b h st calls = Inr (rs, st')"
    and "j < length calls"
    and "perf_status (states_before b h st calls ! j) \<noteq> PERF_STATUS_OK"
  shows "entered_through (rs ! j) = None"
  using assms
proof (induction calls arbitrary: st rs j)
  case Nil
  then show ?case by simp
next
  case (Cons call calls)
  obtain r st1 rs' where
    step: "py_trampoline_evaluator b h (fst call) st (fst (snd call)) (fst (snd (snd call)))
               (snd (snd (snd call))) = Inr (r, st1)"
    and rest: "dispatch_all b h st1 calls = Inr (rs', st')" and rs: "rs = r # rs'"
    using dispatch_all_Cons [OF Cons.prems(1)] by blast
  note sb = states_before_Cons [OF step, of calls]
  show ?case
  proof (cases j)
    case 0
    have "perf_status st \<noteq> PERF_STATUS_OK"
      using Cons.prems(3) by (simp add: sb 0)
    then have "entered_through r = None"
      using step by (auto simp add: evaluator_not_ok)
    then show ?thesis
      by (simp add: rs 0)
  next
    case (Suc k)
    then show ?thesis
      using Cons.IH [OF rest, of k] Cons.prems(2,3) by (simp add: sb rs)
  qed
qed

lemma dispatch_later_while_ok:
  assumes "dispatch_all b h st calls = Inr (rs, st')"
    and "\<forall>call\<in>set calls. set_extra_res (fst call) = 0"
    and "i < j" and "j < length calls"
    and "dispatched_code h (calls ! j) = dispatched_code h (calls ! i)"
    and "entered_through (rs ! i) = Some t"
    and "perf_status (states_before b h st calls ! j) = PERF_STATUS_OK"
  shows "entered_through (rs ! j) = Some t"
  using assms
proof (induction calls arbitrary: st rs i j)
  case Nil
  then show ?case by simp
next
  case (Cons call calls)
  obtain r st1 rs' where
    step: "py_trampoline_evaluator b h (fst call) st (fst (snd call)) (fst (snd (snd call)))
               (snd (snd (snd call))) = Inr (r, st1)"
    and rest: "dispatch_all b h st1 calls = Inr (rs', st')" and rs: "rs = r # rs'"
    using dispatch_all_Cons [OF Cons.prems(1)] by blast
  have set: "set_extra_res (fst call) = 0" and sets: "\<forall>call\<in>set calls. set_extra_res (fst call) = 0"
    using Cons.prems(2) by simp_all
  note sb = states_before_Cons [OF step, of calls]
  obtain j' where j: "j = Suc j'"
    using Cons.prems(3) by (cases j) simp_all
  have j': "j' < length calls"
    using Cons.prems(4) by (simp add: j)
  have ok: "perf_status (states_before b h st1 calls ! j') = PERF_STATUS_OK"
    using Cons.prems(7) by (simp add: sb j)
  show ?case
  proof (cases i)
    case 0
    then have "entered_through r = Some t"
      using Cons.prems(6) by (simp add: rs)
    then have "slot st1 (dispatched_code h call) = Some t"
      using evaluator_step(6) [OF step set] by (simp add: dispatched_code_def)
    then have "slot (states_before b h st1 calls ! j') (dispatched_code h call) = Some t"
      by (rule states_before_slot [OF rest sets j'])
    then have "slot (states_before b h st1 calls ! j') (dispatched_code h (calls ! j')) = Some t"
      using Cons.prems(5) by (simp add: j 0)
    then have "entered_through (rs' ! j') = Some t"
      by (rule dispatch_while_ok [OF rest j' ok])
    then show ?thesis by (simp add: rs j)
  next
    case (Suc k)
    then show ?thesis
      using Cons.IH [OF rest sets _ j' _ _ ok, of k] Cons.prems(3,5,6)
      by (simp add: rs j)
  qed
qed

text \<open>
  C6, as amended. Take any sequence of dispatches that runs to its end, every
  \<^verbatim>\<open>_PyCode_SetExtra\<close> of which succeeds. The extra index stays what it was. A code object whose
  slot holds an address keeps that address. The sink writes of the run for a code object \<open>c\<close>
  are: none, if the slot of \<open>c\<close> was set before the run or is still empty after it; exactly
  one, for the address the slot holds after the run, if the run set it: however many
  dispatches of \<open>c\<close> the run has. Every dispatch enters the default evaluator directly or
  through the address the slot of its code object holds after the run, so no code object is
  ever given two addresses. A dispatch made while the status is not \<open>Ok\<close> enters the default
  evaluator directly, whatever the slot holds. Once a dispatch of a code object went through a
  stub, every later dispatch of that code object made while the status is \<open>Ok\<close> goes through
  the same stub.
\<close>

theorem trampoline_assigned_once:
  assumes "dispatch_all b h st calls = Inr (rs, st')"
    and "\<forall>call\<in>set calls. set_extra_res (fst call) = 0"
  shows "extra_code_index st' = extra_code_index st \<and> length rs = length calls
    \<and> (\<exists>new. write_state_calls st' = write_state_calls st @ new
          \<and> (\<forall>c. (\<forall>t. slot st c = Some t \<longrightarrow> slot st' c = Some t)
                 \<and> writes_for c new =
                     (if slot st c = None
                      then (case slot st' c of None \<Rightarrow> [] | Some t \<Rightarrow> [t]) else [])))
    \<and> (\<forall>i<length calls. entered_through (rs ! i) = None
            \<or> entered_through (rs ! i) = slot st' (dispatched_code h (calls ! i)))
    \<and> (\<forall>j<length calls. perf_status (states_before b h st calls ! j) \<noteq> PERF_STATUS_OK
            \<longrightarrow> entered_through (rs ! j) = None)
    \<and> (\<forall>i j t. i < j \<and> j < length calls
              \<and> dispatched_code h (calls ! j) = dispatched_code h (calls ! i)
              \<and> entered_through (rs ! i) = Some t
              \<and> perf_status (states_before b h st calls ! j) = PERF_STATUS_OK
            \<longrightarrow> entered_through (rs ! j) = Some t)"
proof (intro conjI)
  show "extra_code_index st' = extra_code_index st" and "length rs = length calls"
    using dispatch_all_basic [OF assms] by simp_all
  show "\<exists>new. write_state_calls st' = write_state_calls st @ new
          \<and> (\<forall>c. (\<forall>t. slot st c = Some t \<longrightarrow> slot st' c = Some t)
                 \<and> writes_for c new =
                     (if slot st c = None
                      then (case slot st' c of None \<Rightarrow> [] | Some t \<Rightarrow> [t]) else []))"
    using dispatch_all_writes [OF assms] dispatch_all_slot_stable [OF assms] by blast
  show "\<forall>i<length calls. entered_through (rs ! i) = None
            \<or> entered_through (rs ! i) = slot st' (dispatched_code h (calls ! i))"
    using dispatch_all_entered [OF assms] by blast
  show "\<forall>j<length calls. perf_status (states_before b h st calls ! j) \<noteq> PERF_STATUS_OK
            \<longrightarrow> entered_through (rs ! j) = None"
    using dispatch_while_not_ok [OF assms(1)] by blast
  show "\<forall>i j t. i < j \<and> j < length calls
              \<and> dispatched_code h (calls ! j) = dispatched_code h (calls ! i)
              \<and> entered_through (rs ! i) = Some t
              \<and> perf_status (states_before b h st calls ! j) = PERF_STATUS_OK
            \<longrightarrow> entered_through (rs ! j) = Some t"
    using dispatch_later_while_ok [OF assms] by blast
qed

theorem trampoline_assigned_once_witness:
  "(\<exists>rs st' new. dispatch_all example_build example_host example_state three_calls = Inr (rs, st')
     \<and> length rs = 3
     \<and> write_state_calls st' = write_state_calls example_state @ new
     \<and> writes_for 7 new = [1048576]
     \<and> slot st' 7 = Some 1048576
     \<and> map entered_through rs = [Some 1048576, Some 1048576, Some 1048576])
   \<and> (\<exists>rs st'. dispatch_all example_build example_host two_slots_state calls_around_failure
                  = Inr (rs, st')
     \<and> perf_status (states_before example_build example_host two_slots_state
                       calls_around_failure ! 2) = PERF_STATUS_FAILED
     \<and> entered_through (rs ! 2) = None)"
proof (intro conjI)
  obtain rs st' where run: "dispatch_all example_build example_host example_state three_calls
                              = Inr (rs, st')"
    and r0: "entered_through (rs ! 0) = Some 1048576" and ok: "perf_status st' = PERF_STATUS_OK"
    using example_run by blast
  have sets: "\<forall>call\<in>set three_calls. set_extra_res (fst call) = 0"
    by (simp add: three_calls_def example_os_def)
  have code: "dispatched_code example_host (three_calls ! i) = 7" if "i < 3" for i
    using that
    by (auto simp: three_calls_def dispatched_code_def example_host_def example_co_def
        less_Suc_eq numeral_3_eq_3)
  have empty: "slot example_state 7 = None"
    by (simp add: slot_def example_state_def)
  have before: "perf_status (states_before example_build example_host example_state three_calls ! j)
                  = PERF_STATUS_OK" if "j < 3" for j
    using that by (intro states_before_status [OF run sets ok]) (simp add: three_calls_def)
  note t = trampoline_assigned_once [OF run sets]
  note tB = t [THEN conjunct2, THEN conjunct1]
  note tC = t [THEN conjunct2, THEN conjunct2, THEN conjunct1]
  note tD = t [THEN conjunct2, THEN conjunct2, THEN conjunct2, THEN conjunct1]
  note tF = t [THEN conjunct2, THEN conjunct2, THEN conjunct2, THEN conjunct2, THEN conjunct2,
      rule_format]
  have len: "length rs = 3"
    using tB by (simp add: three_calls_def)
  obtain new where n: "write_state_calls st' = write_state_calls example_state @ new"
    and a: "\<forall>c. (\<forall>t. slot example_state c = Some t \<longrightarrow> slot st' c = Some t)
                 \<and> writes_for c new =
                     (if slot example_state c = None
                      then (case slot st' c of None \<Rightarrow> [] | Some t \<Rightarrow> [t]) else [])"
    using tC by (elim exE conjE)
  have w: "writes_for 7 new = (case slot st' 7 of None \<Rightarrow> [] | Some t \<Rightarrow> [t])"
    using a [rule_format, of 7] empty by simp
  have "entered_through (rs ! 0) = None
          \<or> entered_through (rs ! 0) = slot st' (dispatched_code example_host (three_calls ! 0))"
    using tD [rule_format, of 0] by (simp add: three_calls_def)
  then have s: "slot st' 7 = Some 1048576"
    using r0 code [of 0] by simp
  have later: "entered_through (rs ! j) = Some 1048576" if "0 < j" "j < 3" for j
  proof -
    have "0 < j \<and> j < length three_calls
          \<and> dispatched_code example_host (three_calls ! j)
              = dispatched_code example_host (three_calls ! 0)
          \<and> entered_through (rs ! 0) = Some 1048576
          \<and> perf_status (states_before example_build example_host example_state three_calls ! j)
              = PERF_STATUS_OK"
      using that r0 code [of j] code [of 0] before [of j] by (simp add: three_calls_def)
    then show ?thesis
      by (rule tF)
  qed
  obtain r0 r1 r2 where rs: "rs = [r0, r1, r2]"
    using len by (auto simp: numeral_3_eq_3 length_Suc_conv)
  have m: "map entered_through rs = [Some 1048576, Some 1048576, Some 1048576]"
    using r0 later [of 1] later [of 2] by (simp add: rs)
  show "\<exists>rs st' new. dispatch_all example_build example_host example_state three_calls = Inr (rs, st')
     \<and> length rs = 3
     \<and> write_state_calls st' = write_state_calls example_state @ new
     \<and> writes_for 7 new = [1048576]
     \<and> slot st' 7 = Some 1048576
     \<and> map entered_through rs = [Some 1048576, Some 1048576, Some 1048576]"
    using run len n w s m by simp
next
  have sets: "\<forall>call\<in>set calls_around_failure. set_extra_res (fst call) = 0"
    by (simp add: calls_around_failure_def example_os_def mmap_fails_os_def)
  have failed: "perf_status (states_before example_build example_host two_slots_state
                       calls_around_failure ! 2) = PERF_STATUS_FAILED"
    by (simp add: states_around_failure state_after_failure_def)
  note t = trampoline_assigned_once [OF run_around_failure sets]
  note tE = t [THEN conjunct2, THEN conjunct2, THEN conjunct2, THEN conjunct2, THEN conjunct1,
      rule_format, of 2]
  have "entered_through ([\<lparr>returned = 42 :: int, entered_through = Some 1113856\<rparr>,
             \<lparr>returned = 42, entered_through = None\<rparr>,
             \<lparr>returned = 42, entered_through = None\<rparr>] ! 2) = None"
    using tE failed by (simp add: calls_around_failure_def)
  then show "\<exists>rs st'. dispatch_all example_build example_host two_slots_state calls_around_failure
                  = Inr (rs, st')
     \<and> perf_status (states_before example_build example_host two_slots_state
                       calls_around_failure ! 2) = PERF_STATUS_FAILED
     \<and> entered_through (rs ! 2) = None"
    using run_around_failure failed by simp
qed

text \<open>
  C6 as stated fails for the reuse: the first dispatch of the code object \<open>f\<close> (identity 7)
  compiles the stub at 1113856 and stores it; the dispatch of another code object needs a new
  arena while \<^verbatim>\<open>mmap\<close> fails, which sets the status to \<open>Failed\<close>; the next dispatch of \<open>f\<close> finds
  the status \<open>Failed\<close> before it looks at the slot and calls the default evaluator directly,
  although the slot of \<open>f\<close> still holds 1113856.
\<close>

theorem dispatch_after_failure_counterexample:
  "dispatch_all example_build example_host two_slots_state calls_around_failure
     = Inr ([\<lparr>returned = 42, entered_through = Some 1113856\<rparr>,
             \<lparr>returned = 42, entered_through = None\<rparr>,
             \<lparr>returned = 42, entered_through = None\<rparr>], state_after_failure)
   \<and> dispatched_code example_host (calls_around_failure ! 0) = 7
   \<and> dispatched_code example_host (calls_around_failure ! 2) = 7
   \<and> set_extra_res (fst (calls_around_failure ! 0)) = 0
   \<and> set_extra_res (fst (calls_around_failure ! 1)) = 0
   \<and> set_extra_res (fst (calls_around_failure ! 2)) = 0
   \<and> slot state_after_failure 7 = Some 1113856
   \<and> perf_status state_after_failure = PERF_STATUS_FAILED"
  using run_around_failure
  by (simp add: calls_around_failure_def dispatched_code_def example_host_def example_co_def
      slot_def state_after_failure_def two_slots_state_def example_state_def example_os_def
      mmap_fails_os_def)

section \<open>The result of \<^verbatim>\<open>PyUnstable_PerfTrampoline_CompileCode\<close>\<close>

lemma compile_trampoline_leaves_head:
  "compile_trampoline b os st = Inr (Some t, st1) \<Longrightarrow> \<exists>cs. head_code_size st1 = Inr cs"
  by (auto simp: compile_trampoline_def new_code_in_head_def head_code_size_def Let_def
      bind_fault_Inr split: list.splits if_splits)

text \<open>
  C10, as amended. \<^verbatim>\<open>PyUnstable_PerfTrampoline_CompileCode\<close> returns 0 when a stub is already
  attached (and changes nothing); it returns 0 when \<^verbatim>\<open>compile_trampoline\<close> returns \<open>NULL\<close>, and
  then it has made no call through \<^verbatim>\<open>write_state\<close> and the extra slots are as before (the slot
  of the code object is still null). When \<^verbatim>\<open>compile_trampoline\<close> returns a stub, it calls
  \<^verbatim>\<open>write_state\<close> once, and when that call returns it returns what \<^verbatim>\<open>_PyCode_SetExtra\<close> returns: 0
  with the stub attached if the set succeeds, the failure result with every slot unchanged if
  it fails. (After \<^verbatim>\<open>compile_trampoline\<close> returned a stub there is a head arena to read the
  code size from, and a call of the perf map sink always returns.) So 0 does not tell the
  failed compilation from the success, and a stub that was compiled and announced to the
  sink can still be reported as a failure.
\<close>

theorem CompileCode_result:
  "(co_extra st (co_ident co, extra_code_index st) \<noteq> None \<longrightarrow>
      PyUnstable_PerfTrampoline_CompileCode b os st co = Inr (0, st))
   \<and> (co_extra st (co_ident co, extra_code_index st) = None
        \<and> compile_trampoline b os st = Inr (None, st1) \<longrightarrow>
      PyUnstable_PerfTrampoline_CompileCode b os st co = Inr (0, st1)
      \<and> write_state_calls st1 = write_state_calls st \<and> co_extra st1 = co_extra st)
   \<and> (co_extra st (co_ident co, extra_code_index st) = None
        \<and> compile_trampoline b os st = Inr (Some t, st1)
        \<and> head_code_size st1 = Inr cs
        \<and> call_write_state (write_state (trampoline_api st1)) b os st1 t cs co = Inr st3 \<longrightarrow>
      PyUnstable_PerfTrampoline_CompileCode b os st co =
        Inr (set_extra_res os,
             if set_extra_res os = 0
             then st3\<lparr>co_extra := (co_extra st)((co_ident co, extra_code_index st) := Some t)\<rparr>
             else st3)
      \<and> write_state_calls st3 = write_state_calls st @ [(t, cs, co_ident co)]
      \<and> co_extra st3 = co_extra st \<and> extra_code_index st3 = extra_code_index st)
   \<and> (compile_trampoline b os st = Inr (Some t, st1) \<longrightarrow>
        (\<exists>cs. head_code_size st1 = Inr cs)
        \<and> (\<exists>st3. call_write_state (Some Perfmap) b os st1 t cs co = Inr st3))"
proof (intro conjI impI)
  assume "co_extra st (co_ident co, extra_code_index st) \<noteq> None"
  then show "PyUnstable_PerfTrampoline_CompileCode b os st co = Inr (0, st)"
    by (rule CompileCode_attached)
next
  assume a: "co_extra st (co_ident co, extra_code_index st) = None
             \<and> compile_trampoline b os st = Inr (None, st1)"
  then show "PyUnstable_PerfTrampoline_CompileCode b os st co = Inr (0, st1)"
    by (simp add: CompileCode_unfold bind_fault_def)
  from a show "write_state_calls st1 = write_state_calls st"
    using compile_trampoline_frame by blast
  from a show "co_extra st1 = co_extra st"
    using compile_trampoline_frame by blast
next
  assume a: "co_extra st (co_ident co, extra_code_index st) = None
        \<and> compile_trampoline b os st = Inr (Some t, st1)
        \<and> head_code_size st1 = Inr cs
        \<and> call_write_state (write_state (trampoline_api st1)) b os st1 t cs co = Inr st3"
  then have w: "call_write_state (write_state (trampoline_api st1)) b os st1 t cs co = Inr st3"
    by simp
  have f1: "co_extra st1 = co_extra st" "extra_code_index st1 = extra_code_index st"
    "write_state_calls st1 = write_state_calls st"
    using a compile_trampoline_frame by blast+
  have f3: "co_extra st3 = co_extra st1" "extra_code_index st3 = extra_code_index st1"
    "write_state_calls st3 = write_state_calls st1 @ [(t, cs, co_ident co)]"
    using call_write_state_effect [OF w] by (simp_all add: sink_frame_def)
  show "PyUnstable_PerfTrampoline_CompileCode b os st co =
        Inr (set_extra_res os,
             if set_extra_res os = 0
             then st3\<lparr>co_extra := (co_extra st)((co_ident co, extra_code_index st) := Some t)\<rparr>
             else st3)"
    using a by (simp add: CompileCode_unfold bind_fault_def PyCode_SetExtra_def f1 f3)
  show "write_state_calls st3 = write_state_calls st @ [(t, cs, co_ident co)]"
    by (simp add: f3 f1)
  show "co_extra st3 = co_extra st"
    by (simp add: f3 f1)
  show "extra_code_index st3 = extra_code_index st"
    by (simp add: f3 f1)
next
  assume "compile_trampoline b os st = Inr (Some t, st1)"
  then show "\<exists>cs. head_code_size st1 = Inr cs"
    by (rule compile_trampoline_leaves_head)
next
  show "\<exists>st3. call_write_state (Some Perfmap) b os st1 t cs co = Inr st3"
    by (simp add: call_write_state_def Let_def)
qed

lemma example_compile_steps:
  "compile_trampoline example_build example_os example_state
     = Inr (Some 1048576,
            example_state\<lparr>perf_code_arena :=
              [example_arena\<lparr>size_left := 65408, current_addr := 1048704\<rparr>]\<rparr>)"
  "head_code_size (example_state\<lparr>perf_code_arena :=
              [example_arena\<lparr>size_left := 65408, current_addr := 1048704\<rparr>]\<rparr>) = Inr 120"
  "call_write_state (write_state (trampoline_api example_state)) example_build os
     (example_state\<lparr>perf_code_arena :=
              [example_arena\<lparr>size_left := 65408, current_addr := 1048704\<rparr>]\<rparr>)
     1048576 120 example_co = (if malloc_ok os then Inr compiled_unattached_state
        else Inr (compiled_unattached_state\<lparr>perf_map_lines := perf_map_lines example_state\<rparr>))"
  by (simp_all add: compile_trampoline_def new_code_in_head_def code_arena_new_code_def Let_def
      example_state_def example_arena_def round_up_120_16 head_code_size_def
      call_write_state_def perf_map_write_entry_def PyUnstable_WritePerfMapEntry_def
      perf_map_entry_of_def utf8_or_empty_def c_string_def example_co_def
      compiled_unattached_state_def)

theorem CompileCode_result_witness:
  "PyUnstable_PerfTrampoline_CompileCode example_build example_os attached_state example_co
     = Inr (0, attached_state)
   \<and> PyUnstable_PerfTrampoline_CompileCode example_build mmap_fails_os exact_fit_state example_co
     = Inr (0, exact_fit_state\<lparr>perf_status := PERF_STATUS_FAILED\<rparr>)
   \<and> PyUnstable_PerfTrampoline_CompileCode example_build example_os example_state example_co
     = Inr (0, compiled_unattached_state
                 \<lparr>co_extra := (co_extra example_state)((7, 0) := Some 1048576)\<rparr>)"
proof (intro conjI)
  have "co_extra attached_state (co_ident example_co, extra_code_index attached_state) \<noteq> None"
    by (simp add: attached_state_def example_state_def example_co_def)
  then show "PyUnstable_PerfTrampoline_CompileCode example_build example_os attached_state example_co
     = Inr (0, attached_state)"
    using CompileCode_result [where st = attached_state and co = example_co] by blast
next
  let ?head = "example_arena\<lparr>size_left := 128, current_addr := 1113984\<rparr>"
  have slot: "co_extra exact_fit_state (co_ident example_co, extra_code_index exact_fit_state) = None"
    by (simp add: exact_fit_state_def example_state_def)
  have h3: "perf_code_arena exact_fit_state = ?head # []"
    by (simp add: exact_fit_state_def)
  have h4: "size_left ?head
              \<le> round_up (code_size ?head + code_padding (trampoline_api exact_fit_state)) 16"
    by (simp add: example_arena_def exact_fit_state_def example_state_def round_up_120_16)
  have "new_code_arena example_build mmap_fails_os exact_fit_state
          = Inr (- 1, exact_fit_state\<lparr>perf_status := PERF_STATUS_FAILED\<rparr>)"
    by (rule new_code_arena_mmap_failed) (simp add: mmap_fails_os_def)
  then have "compile_trampoline example_build mmap_fails_os exact_fit_state
          = Inr (None, exact_fit_state\<lparr>perf_status := PERF_STATUS_FAILED\<rparr>)"
    using h3 h4 by (rule compile_trampoline_fails [rotated 2])
  then show "PyUnstable_PerfTrampoline_CompileCode example_build mmap_fails_os exact_fit_state example_co
     = Inr (0, exact_fit_state\<lparr>perf_status := PERF_STATUS_FAILED\<rparr>)"
    using slot CompileCode_result
      [where st = exact_fit_state and co = example_co and b = example_build
         and os = mmap_fails_os and ?st1.0 = "exact_fit_state\<lparr>perf_status := PERF_STATUS_FAILED\<rparr>"]
    by blast
next
  let ?st1 = "example_state\<lparr>perf_code_arena :=
              [example_arena\<lparr>size_left := 65408, current_addr := 1048704\<rparr>]\<rparr>"
  have slot: "co_extra example_state (co_ident example_co, extra_code_index example_state) = None"
    by (simp add: example_state_def)
  have ws: "call_write_state (write_state (trampoline_api ?st1)) example_build example_os ?st1
              1048576 120 example_co = Inr compiled_unattached_state"
    by (simp add: example_compile_steps(3) example_os_def)
  note t = CompileCode_result
      [where st = example_state and co = example_co and b = example_build
         and os = example_os and t = 1048576 and ?st1.0 = ?st1 and cs = 120
         and ?st3.0 = compiled_unattached_state,
       THEN conjunct2, THEN conjunct2, THEN conjunct1, rule_format, THEN conjunct1]
  have "PyUnstable_PerfTrampoline_CompileCode example_build example_os example_state example_co =
        Inr (set_extra_res example_os,
             if set_extra_res example_os = 0
             then compiled_unattached_state
                    \<lparr>co_extra := (co_extra example_state)
                       ((co_ident example_co, extra_code_index example_state) := Some 1048576)\<rparr>
             else compiled_unattached_state)"
    using slot example_compile_steps(1,2) ws by (intro t conjI)
  then show "PyUnstable_PerfTrampoline_CompileCode example_build example_os example_state example_co
     = Inr (0, compiled_unattached_state
                 \<lparr>co_extra := (co_extra example_state)((7, 0) := Some 1048576)\<rparr>)"
    by (simp add: example_os_def example_co_def example_state_def)
qed

text \<open>
  C10 as stated fails when \<^verbatim>\<open>_PyCode_SetExtra\<close> fails: the call on the example state compiles
  the stub at 1048576 and calls \<^verbatim>\<open>write_state\<close> for it, and then returns -1, the result of
  \<^verbatim>\<open>_PyCode_SetExtra\<close>, where the claim says 0; the slot of the code object is still null.
\<close>

theorem CompileCode_set_extra_fails_counterexample:
  "PyUnstable_PerfTrampoline_CompileCode example_build set_extra_fails_os example_state example_co
     = Inr (- 1, compiled_unattached_state)
   \<and> write_state_calls example_state = []
   \<and> write_state_calls compiled_unattached_state = [(1048576, 120, 7)]
   \<and> co_extra compiled_unattached_state (co_ident example_co, extra_code_index example_state)
       = None"
proof -
  have os: "malloc_ok set_extra_fails_os" "set_extra_res set_extra_fails_os = - 1"
    by (simp_all add: set_extra_fails_os_def example_os_def)
  have c: "compile_trampoline example_build set_extra_fails_os example_state
     = Inr (Some 1048576,
            example_state\<lparr>perf_code_arena :=
              [example_arena\<lparr>size_left := 65408, current_addr := 1048704\<rparr>]\<rparr>)"
    by (simp add: compile_trampoline_def new_code_in_head_def code_arena_new_code_def Let_def
      example_state_def example_arena_def round_up_120_16)
  have slot: "co_extra example_state (co_ident example_co, extra_code_index example_state) = None"
    by (simp add: example_state_def)
  have "PyUnstable_PerfTrampoline_CompileCode example_build set_extra_fails_os example_state
          example_co = Inr (- 1, compiled_unattached_state)"
    by (simp add: CompileCode_unfold [OF slot] c example_compile_steps(2,3) os bind_fault_def
        PyCode_SetExtra_def)
  then show ?thesis
    by (simp add: compiled_unattached_state_def example_state_def example_co_def)
qed

end
